theory Spec2Isabelle
  imports Main "HOL-Library.Word" "HOL-Library.Sublist"
begin

unbundle bit_operations_syntax

section \<open>The instrumentation interface the tracer is written against\<close>

text \<open>
  PinTracer.cpp drives the Pin instrumentation API: it inspects instructions
  (\<open>INS_IsCall\<close>, \<open>INS_Opcode\<close>, ...) and registers analysis calls
  (\<open>INS_InsertCall\<close>, \<open>INS_InsertIfCall\<close>, \<open>INS_InsertThenCall\<close>,
  \<open>RTN_InsertCall\<close>).  The embedding keeps the registered calls as data, in the
  order in which the source registers them.
\<close>

text \<open>Registers. \<open>REG_GR64 n\<close> is one of the other 64-bit general registers,
  \<open>REG_GR32 n\<close> and \<open>REG_GR16 n\<close> its low 32 and 16 bits, as \<open>REG_EAX\<close> and \<open>REG_AX\<close>
  are those of \<open>REG_RAX\<close>. The last four are the tool registers that \<open>main\<close> claims
  with \<open>PIN_ClaimToolRegister\<close> and keeps in the globals of the same names.\<close>

datatype REG =
    REG_RAX | REG_RBX | REG_RCX | REG_RDX
  | REG_EAX | REG_EBX | REG_ECX | REG_EDX
  | REG_AX
  | REG_GR64 nat | REG_GR32 nat | REG_GR16 nat
  | nextBufferEntryReg | entryBufferEndReg | cpuIdEaxInputReg | cpuIdEcxInputReg

text \<open>The interface's \<open>REG_FullRegName\<close> (the enclosing full-width register) and
  \<open>REG_Size\<close> (the width in bytes).\<close>

fun REG_FullRegName :: "REG \<Rightarrow> REG" where
  "REG_FullRegName REG_EAX = REG_RAX"
| "REG_FullRegName REG_EBX = REG_RBX"
| "REG_FullRegName REG_ECX = REG_RCX"
| "REG_FullRegName REG_EDX = REG_RDX"
| "REG_FullRegName REG_AX = REG_RAX"
| "REG_FullRegName (REG_GR32 n) = REG_GR64 n"
| "REG_FullRegName (REG_GR16 n) = REG_GR64 n"
| "REG_FullRegName r = r"

fun REG_Size :: "REG \<Rightarrow> nat" where
  "REG_Size REG_EAX = 4"
| "REG_Size REG_EBX = 4"
| "REG_Size REG_ECX = 4"
| "REG_Size REG_EDX = 4"
| "REG_Size (REG_GR32 n) = 4"
| "REG_Size REG_AX = 2"
| "REG_Size (REG_GR16 n) = 2"
| "REG_Size r = 8"

datatype IPOINT = IPOINT_BEFORE | IPOINT_AFTER | IPOINT_TAKEN_BRANCH

text \<open>The analysis functions that the source passes as \<open>AFUNPTR\<close>.\<close>

datatype AFUN =
    F_PIN_SetContextReg
  | F_ChangeCpuId
  | F_ChangeRandomNumber
  | F_CheckNextTraceEntryPointerValid
  | F_InsertBranchEntry
  | F_InsertRetBranchEntry
  | F_InsertMemoryReadEntry
  | F_InsertMemoryWriteEntry
  | F_CheckBufferFull
  | F_CheckBufferAndStore
  | F_TestcaseStart
  | F_TestcaseEnd
  | F_InsertStackPointerWriteEntry
  | F_InsertAllocSizeParameterEntry
  | F_InsertAllocAddressReturnEntry
  | F_InsertFreeAddressParameterEntry

text \<open>The argument descriptors of an analysis call; the list of a call ends where the
  source writes \<open>IARG_END\<close>. \<open>IARG_UINT32_REG\<close> is \<open>IARG_UINT32\<close> applied to a
  register id (the CPUID probes pass \<open>_cpuIdEaxInputReg\<close> that way).\<close>

datatype IARG =
    IARG_CONTEXT
  | IARG_UINT32 nat
  | IARG_UINT32_REG REG
  | IARG_BOOL bool
  | IARG_REG_VALUE REG
  | IARG_REG_REFERENCE REG
  | IARG_INST_PTR
  | IARG_BRANCH_TARGET_ADDR
  | IARG_BRANCH_TAKEN
  | IARG_MEMORYREAD_EA
  | IARG_MEMORYREAD2_EA
  | IARG_MEMORYWRITE_EA
  | IARG_THREAD_ID
  | IARG_FUNCARG_ENTRYPOINT_VALUE nat
  | IARG_RETURN_REGS REG

datatype insertion =
    INS_InsertCall IPOINT AFUN "IARG list"
  | INS_InsertIfCall IPOINT AFUN "IARG list"
  | INS_InsertThenCall IPOINT AFUN "IARG list"
  | RTN_InsertCall IPOINT AFUN "IARG list"

fun ipoint_of :: "insertion \<Rightarrow> IPOINT" where
  "ipoint_of (INS_InsertCall p f args) = p"
| "ipoint_of (INS_InsertIfCall p f args) = p"
| "ipoint_of (INS_InsertThenCall p f args) = p"
| "ipoint_of (RTN_InsertCall p f args) = p"

fun afun_of :: "insertion \<Rightarrow> AFUN" where
  "afun_of (INS_InsertCall p f args) = f"
| "afun_of (INS_InsertIfCall p f args) = f"
| "afun_of (INS_InsertThenCall p f args) = f"
| "afun_of (RTN_InsertCall p f args) = f"

text \<open>What the planner reads off an instruction: one field per inspection function
  that \<open>InstrumentTrace\<close> calls. \<open>INS_RegW0\<close> is \<open>INS_RegW(ins, 0)\<close>.\<close>

record INS =
  INS_Address :: nat
  INS_SegmentPrefix :: bool
  INS_Opcode :: nat
  INS_IsCall :: bool
  INS_IsBranch :: bool
  INS_IsRet :: bool
  INS_IsMemoryRead :: bool
  INS_HasMemoryRead2 :: bool
  INS_IsMemoryWrite :: bool
  INS_IsStandardMemop :: bool
  INS_RegW0 :: REG

record BBL =
  BBL_Address :: nat
  BBL_Ins :: "INS list"

text \<open>The values of the XED instruction-class enumerators that the source compares
  opcodes with. \<open>xed-interface.h\<close> belongs to the XED library; the enumerators are
  parameters of the model.\<close>

record xed_iclass =
  XED_ICLASS_PUSH :: nat
  XED_ICLASS_PUSHFQ :: nat
  XED_ICLASS_POP :: nat
  XED_ICLASS_POPFQ :: nat
  XED_ICLASS_LEA :: nat
  XED_ICLASS_CPUID :: nat
  XED_ICLASS_RDRAND :: nat


section \<open>Standard error stream\<close>

text \<open>\<open>cerr\<close> with its sticky \<open>hex\<close> flag: once \<open>cerr << hex\<close> has run, later
  integers are printed in base 16.\<close>

record ostream =
  os_hex :: bool
  os_chars :: string

definition digit_char :: "nat \<Rightarrow> char" where
  "digit_char d = (if d < 16 then ''0123456789abcdef'' ! d else CHR ''?'')"

function show_nat :: "nat \<Rightarrow> nat \<Rightarrow> string" where
  "show_nat b n =
     (if b < 2 \<or> n < b then [digit_char n]
      else show_nat b (n div b) @ [digit_char (n mod b)])"
  by pat_completeness auto
termination
  by (relation "measure snd") auto

declare show_nat.simps [simp del]

definition put_str :: "string \<Rightarrow> ostream \<Rightarrow> ostream" where
  "put_str s os = os\<lparr>os_chars := os_chars os @ s\<rparr>"

definition put_num :: "nat \<Rightarrow> ostream \<Rightarrow> ostream" where
  "put_num n os = os\<lparr>os_chars := os_chars os @ show_nat (if os_hex os then 16 else 10) n\<rparr>"

definition set_hex :: "ostream \<Rightarrow> ostream" where
  "set_hex os = os\<lparr>os_hex := True\<rparr>"

definition endl :: "ostream \<Rightarrow> ostream" where
  "endl os = os\<lparr>os_chars := os_chars os @ [CHR 0x0A]\<rparr>"


section \<open>Image registry\<close>

text \<open>Modelled from the spec: class \<open>ImageData\<close> is declared in Utilities.h, which is
  not among the sources. The spec's data model gives an image the fields
  \<open>{name, low, high, interesting}\<close>; the constructor call in \<open>InstrumentImage\<close> passes
  them as \<open>(interesting, imageName, imageStart, imageEnd)\<close>.\<close>

record ImageData =
  img_interesting :: bool
  img_name :: string
  img_low :: nat
  img_high :: nat

text \<open>Modelled from the spec: \<open>ImageData::ContainsBasicBlock\<close> (Utilities.h). The spec
  says that an image owns a basic block when its \<open>[low, high]\<close> contains the block's
  address.\<close>

definition ContainsBasicBlock :: "ImageData \<Rightarrow> BBL \<Rightarrow> bool" where
  "ContainsBasicBlock i bbl = (img_low i \<le> BBL_Address bbl \<and> BBL_Address bbl \<le> img_high i)"

text \<open>Modelled from the spec: \<open>ImageData::IsInteresting\<close> (Utilities.h) reads the
  interest flag.\<close>

definition IsInteresting :: "ImageData \<Rightarrow> bool" where
  "IsInteresting i = img_interesting i"


section \<open>Trace entries, the trace writer and the tool's globals\<close>

text \<open>Modelled from the spec: \<open>TraceEntry\<close> is declared in TraceWriter.h, which is not
  among the sources. The variants and payloads are those of the spec's data model.\<close>

datatype TraceEntry =
    MemoryRead nat nat
  | MemoryWrite nat nat
  | Branch nat nat bool bool
  | Ret nat nat
  | AllocSize nat
  | AllocReturn nat
  | FreeAddress nat
  | StackPointer nat
  | TestcaseMarker bool int

text \<open>Modelled from the spec: class \<open>TraceWriter\<close> (TraceWriter.h) owns one buffer of
  entry slots, the output file handle and the current testcase id. A
  \<open>TraceEntry*\<close> is modelled as an address counted in entry slots, \<open>NULL\<close> being 0;
  \<open>tw_begin\<close> is the address of slot 0. \<open>tw_file\<close> is the name of the open output
  file, \<open>tw_disk\<close> the contents of the files written so far.\<close>

record TraceWriter =
  tw_begin :: nat
  tw_entries :: "TraceEntry list"
  tw_prefix :: string
  tw_file :: "string option"
  tw_disk :: "string \<Rightarrow> TraceEntry list option"
  tw_testcase :: "int option"

definition NULL :: nat where
  "NULL = 0"

text \<open>The global variables of PinTracer.cpp, with the standard error stream and the
  per-thread data slot behind \<open>_traceWriterTlsKey\<close>. \<open>g_prefixMode\<close>,
  \<open>g_emulatedCpu\<close> and \<open>g_imageLog\<close> record the calls to
  \<open>TraceWriter::InitPrefixMode\<close>, \<open>SetEmulatedCpu\<close> and
  \<open>TraceWriter::WriteImageLoadData\<close>, whose bodies are not among the sources.\<close>

record globals =
  g_interestingImages :: "string list"
  g_images :: "ImageData list"
  g_useFixedRandomNumber :: bool
  g_fixedRandomNumber :: "64 word"
  g_threadData :: "nat \<Rightarrow> TraceWriter option"
  g_cerr :: ostream
  g_prefixMode :: "string option"
  g_emulatedCpu :: "int option"
  g_imageLog :: "(bool \<times> nat \<times> nat \<times> string) list"


section \<open>InstrumentTrace: the instrumentation planner\<close>

text \<open>The analysis calls that each case of the per-instruction walk registers, in
  source order.\<close>

definition cpuid_probes :: "insertion list" where
  "cpuid_probes =
    [INS_InsertCall IPOINT_BEFORE F_PIN_SetContextReg
       [IARG_CONTEXT, IARG_UINT32_REG cpuIdEaxInputReg, IARG_REG_VALUE REG_EAX],
     INS_InsertCall IPOINT_BEFORE F_PIN_SetContextReg
       [IARG_CONTEXT, IARG_UINT32_REG cpuIdEcxInputReg, IARG_REG_VALUE REG_ECX],
     INS_InsertCall IPOINT_AFTER F_ChangeCpuId
       [IARG_REG_VALUE cpuIdEaxInputReg, IARG_REG_VALUE cpuIdEcxInputReg,
        IARG_REG_REFERENCE REG_EAX, IARG_REG_REFERENCE REG_EBX,
        IARG_REG_REFERENCE REG_ECX, IARG_REG_REFERENCE REG_EDX]]"

definition rdrand_probes :: "INS \<Rightarrow> insertion list" where
  "rdrand_probes ins =
    [INS_InsertCall IPOINT_AFTER F_ChangeRandomNumber [IARG_REG_REFERENCE (INS_RegW0 ins)]]"

definition call_probes :: "insertion list" where
  "call_probes =
    [INS_InsertIfCall IPOINT_BEFORE F_CheckNextTraceEntryPointerValid
       [IARG_REG_VALUE nextBufferEntryReg],
     INS_InsertThenCall IPOINT_BEFORE F_InsertBranchEntry
       [IARG_REG_VALUE nextBufferEntryReg, IARG_INST_PTR, IARG_BRANCH_TARGET_ADDR,
        IARG_BOOL True, IARG_UINT32 1, IARG_RETURN_REGS nextBufferEntryReg],
     INS_InsertIfCall IPOINT_BEFORE F_CheckBufferFull
       [IARG_REG_VALUE nextBufferEntryReg, IARG_REG_VALUE entryBufferEndReg],
     INS_InsertThenCall IPOINT_BEFORE F_CheckBufferAndStore
       [IARG_REG_VALUE nextBufferEntryReg, IARG_REG_VALUE entryBufferEndReg,
        IARG_THREAD_ID, IARG_RETURN_REGS nextBufferEntryReg]]"

definition branch_probes :: "insertion list" where
  "branch_probes =
    [INS_InsertIfCall IPOINT_BEFORE F_CheckNextTraceEntryPointerValid
       [IARG_REG_VALUE nextBufferEntryReg],
     INS_InsertThenCall IPOINT_BEFORE F_InsertBranchEntry
       [IARG_REG_VALUE nextBufferEntryReg, IARG_INST_PTR, IARG_BRANCH_TARGET_ADDR,
        IARG_BRANCH_TAKEN, IARG_UINT32 0, IARG_RETURN_REGS nextBufferEntryReg],
     INS_InsertIfCall IPOINT_BEFORE F_CheckBufferFull
       [IARG_REG_VALUE nextBufferEntryReg, IARG_REG_VALUE entryBufferEndReg],
     INS_InsertThenCall IPOINT_BEFORE F_CheckBufferAndStore
       [IARG_REG_VALUE nextBufferEntryReg, IARG_REG_VALUE entryBufferEndReg,
        IARG_THREAD_ID, IARG_RETURN_REGS nextBufferEntryReg]]"

definition ret_probes :: "insertion list" where
  "ret_probes =
    [INS_InsertIfCall IPOINT_TAKEN_BRANCH F_CheckNextTraceEntryPointerValid
       [IARG_REG_VALUE nextBufferEntryReg],
     INS_InsertThenCall IPOINT_TAKEN_BRANCH F_InsertRetBranchEntry
       [IARG_REG_VALUE nextBufferEntryReg, IARG_INST_PTR, IARG_CONTEXT,
        IARG_RETURN_REGS nextBufferEntryReg],
     INS_InsertIfCall IPOINT_TAKEN_BRANCH F_CheckBufferFull
       [IARG_REG_VALUE nextBufferEntryReg, IARG_REG_VALUE entryBufferEndReg],
     INS_InsertThenCall IPOINT_TAKEN_BRANCH F_CheckBufferAndStore
       [IARG_REG_VALUE nextBufferEntryReg, IARG_REG_VALUE entryBufferEndReg,
        IARG_THREAD_ID, IARG_RETURN_REGS nextBufferEntryReg]]"

definition memread_probes :: "insertion list" where
  "memread_probes =
    [INS_InsertIfCall IPOINT_BEFORE F_CheckNextTraceEntryPointerValid
       [IARG_REG_VALUE nextBufferEntryReg],
     INS_InsertThenCall IPOINT_BEFORE F_InsertMemoryReadEntry
       [IARG_REG_VALUE nextBufferEntryReg, IARG_INST_PTR, IARG_MEMORYREAD_EA,
        IARG_RETURN_REGS nextBufferEntryReg],
     INS_InsertIfCall IPOINT_BEFORE F_CheckBufferFull
       [IARG_REG_VALUE nextBufferEntryReg, IARG_REG_VALUE entryBufferEndReg],
     INS_InsertThenCall IPOINT_BEFORE F_CheckBufferAndStore
       [IARG_REG_VALUE nextBufferEntryReg, IARG_REG_VALUE entryBufferEndReg,
        IARG_THREAD_ID, IARG_RETURN_REGS nextBufferEntryReg]]"

definition memread2_probes :: "insertion list" where
  "memread2_probes =
    [INS_InsertIfCall IPOINT_BEFORE F_CheckNextTraceEntryPointerValid
       [IARG_REG_VALUE nextBufferEntryReg],
     INS_InsertThenCall IPOINT_BEFORE F_InsertMemoryReadEntry
       [IARG_REG_VALUE nextBufferEntryReg, IARG_INST_PTR, IARG_MEMORYREAD2_EA,
        IARG_RETURN_REGS nextBufferEntryReg],
     INS_InsertIfCall IPOINT_BEFORE F_CheckBufferFull
       [IARG_REG_VALUE nextBufferEntryReg, IARG_REG_VALUE entryBufferEndReg],
     INS_InsertThenCall IPOINT_BEFORE F_CheckBufferAndStore
       [IARG_REG_VALUE nextBufferEntryReg, IARG_REG_VALUE entryBufferEndReg,
        IARG_THREAD_ID, IARG_RETURN_REGS nextBufferEntryReg]]"

definition memwrite_probes :: "insertion list" where
  "memwrite_probes =
    [INS_InsertIfCall IPOINT_BEFORE F_CheckNextTraceEntryPointerValid
       [IARG_REG_VALUE nextBufferEntryReg],
     INS_InsertThenCall IPOINT_BEFORE F_InsertMemoryWriteEntry
       [IARG_REG_VALUE nextBufferEntryReg, IARG_INST_PTR, IARG_MEMORYWRITE_EA,
        IARG_RETURN_REGS nextBufferEntryReg],
     INS_InsertIfCall IPOINT_BEFORE F_CheckBufferFull
       [IARG_REG_VALUE nextBufferEntryReg, IARG_REG_VALUE entryBufferEndReg],
     INS_InsertThenCall IPOINT_BEFORE F_CheckBufferAndStore
       [IARG_REG_VALUE nextBufferEntryReg, IARG_REG_VALUE entryBufferEndReg,
        IARG_THREAD_ID, IARG_RETURN_REGS nextBufferEntryReg]]"

text \<open>The body of the inner loop of \<open>InstrumentTrace\<close>: the calls registered for one
  instruction. Every \<open>continue\<close> of the source ends the list; the ret case has none and
  runs on into the interest check and the memory-operand cases.\<close>

definition InstrumentIns :: "xed_iclass \<Rightarrow> globals \<Rightarrow> bool \<Rightarrow> INS \<Rightarrow> insertion list" where
  "InstrumentIns X g interesting ins =
    (if INS_SegmentPrefix ins then []
     else if XED_ICLASS_PUSH X \<le> INS_Opcode ins \<and> INS_Opcode ins \<le> XED_ICLASS_PUSHFQ X then []
     else if XED_ICLASS_POP X \<le> INS_Opcode ins \<and> INS_Opcode ins \<le> XED_ICLASS_POPFQ X then []
     else if INS_Opcode ins = XED_ICLASS_LEA X then []
     else if INS_Opcode ins = XED_ICLASS_CPUID X then cpuid_probes
     else if INS_Opcode ins = XED_ICLASS_RDRAND X \<and> g_useFixedRandomNumber g
       then rdrand_probes ins
     else if INS_IsCall ins then call_probes
     else if INS_IsBranch ins then branch_probes
     else (if INS_IsRet ins then ret_probes else []) @
          (if interesting then
             (if INS_IsMemoryRead ins \<and> INS_IsStandardMemop ins then memread_probes else []) @
             (if INS_HasMemoryRead2 ins \<and> INS_IsStandardMemop ins then memread2_probes else []) @
             (if INS_IsMemoryWrite ins \<and> INS_IsStandardMemop ins then memwrite_probes else [])
           else []))"

text \<open>The inner loop: the instructions of a block in program order, each registered
  call paired with the instruction it is attached to.\<close>

definition InstrumentBblIns ::
    "xed_iclass \<Rightarrow> globals \<Rightarrow> bool \<Rightarrow> INS list \<Rightarrow> (INS \<times> insertion) list" where
  "InstrumentBblIns X g interesting inss =
     concat (map (\<lambda>ins. map (Pair ins) (InstrumentIns X g interesting ins)) inss)"

text \<open>The image lookup at the head of the outer loop: the first image of \<open>_images\<close>
  that contains the block, \<open>None\<close> for \<open>nullptr\<close>.\<close>

fun find_image :: "ImageData list \<Rightarrow> BBL \<Rightarrow> ImageData option" where
  "find_image [] bbl = None"
| "find_image (i # rest) bbl = (if ContainsBasicBlock i bbl then Some i else find_image rest bbl)"

definition log_unresolved :: "BBL \<Rightarrow> globals \<Rightarrow> globals" where
  "log_unresolved bbl g =
     g\<lparr>g_cerr := endl (put_num (BBL_Address bbl) (set_hex
          (put_str ''Error: Cannot resolve image of basic block '' (g_cerr g))))\<rparr>"

text \<open>The outer loop over the basic blocks of a trace. The result holds the globals
  (only \<open>cerr\<close> changes) and the registered calls in registration order.\<close>

fun InstrumentTrace ::
    "xed_iclass \<Rightarrow> globals \<Rightarrow> BBL list \<Rightarrow> globals \<times> (INS \<times> insertion) list" where
  "InstrumentTrace X g [] = (g, [])"
| "InstrumentTrace X g (bbl # rest) =
     (case find_image (g_images g) bbl of
        None \<Rightarrow> InstrumentTrace X (log_unresolved bbl g) rest
      | Some img \<Rightarrow>
          (fst (InstrumentTrace X g rest),
           InstrumentBblIns X g (IsInteresting img) (BBL_Ins bbl) @
           snd (InstrumentTrace X g rest)))"


section \<open>The trace buffer and the analysis functions\<close>

datatype error = NullDereference | OutOfBounds | MalformedProbe

text \<open>Modelled from the spec: \<open>TraceWriter::Begin\<close> (TraceWriter.h) is the pointer to
  slot 0.\<close>

definition Begin :: "TraceWriter \<Rightarrow> nat" where
  "Begin w = tw_begin w"

text \<open>Modelled from the spec: \<open>TraceWriter::End\<close> (TraceWriter.h) is the pointer one
  past the last slot.\<close>

definition End :: "TraceWriter \<Rightarrow> nat" where
  "End w = tw_begin w + length (tw_entries w)"

text \<open>Modelled from the spec: \<open>TraceWriter::CheckBufferFull\<close> (TraceWriter.h) is
  \<open>next \<ge> end - K\<close>, where \<open>K\<close> is the number of entries a probe sequence may write
  before the next check. The spec leaves \<open>K\<close> open (``2 suffices''); it is a
  parameter here.\<close>

definition CheckBufferFull :: "nat \<Rightarrow> nat \<Rightarrow> nat \<Rightarrow> bool" where
  "CheckBufferFull K nextEntry entryBufferEnd = (int entryBufferEnd - int K \<le> int nextEntry)"

text \<open>Modelled from the spec: \<open>TraceWriter::WriteBufferToFile\<close> (TraceWriter.h) writes
  the slots \<open>[begin, last)\<close> to the current output file. A last pointer outside the buffer
  would read foreign memory and is an error of the model; with no file open the slots
  have nowhere to go.\<close>

definition WriteBufferToFile :: "TraceWriter \<Rightarrow> nat \<Rightarrow> error + TraceWriter" where
  "WriteBufferToFile w lastEntry =
     (if lastEntry < Begin w \<or> End w < lastEntry then Inl OutOfBounds
      else case tw_file w of
        None \<Rightarrow> Inr w
      | Some f \<Rightarrow>
          Inr (w\<lparr>tw_disk := (tw_disk w)(f \<mapsto>
                 (case tw_disk w f of None \<Rightarrow> [] | Some written \<Rightarrow> written) @
                 take (lastEntry - Begin w) (tw_entries w))\<rparr>))"

text \<open>Modelled from the spec: the \<open>TraceWriter::Insert...Entry\<close> functions
  (TraceWriter.h) are bump-pointer writes of one entry that return \<open>next + 1\<close>.
  The only entry buffer that is ever allocated belongs to the writer that
  \<open>ThreadStart\<close> stores for thread 0; a store through any other pointer is an
  out-of-bounds write.\<close>

definition InsertEntry :: "globals \<Rightarrow> nat \<Rightarrow> TraceEntry \<Rightarrow> error + (nat \<times> globals)" where
  "InsertEntry g nextEntry e =
     (case g_threadData g 0 of
        None \<Rightarrow> Inl OutOfBounds
      | Some w \<Rightarrow>
          if Begin w \<le> nextEntry \<and> nextEntry < End w
          then Inr (nextEntry + 1,
                 g\<lparr>g_threadData := (g_threadData g)
                     (0 := Some (w\<lparr>tw_entries := (tw_entries w)[nextEntry - Begin w := e]\<rparr>))\<rparr>)
          else Inl OutOfBounds)"

definition show_int :: "int \<Rightarrow> string" where
  "show_int i = (if i < 0 then ''-'' @ show_nat 10 (nat (- i)) else show_nat 10 (nat i))"

text \<open>Modelled from the spec: \<open>TraceWriter::TestcaseStart\<close> (TraceWriter.h) flushes the
  current buffer if it is nonempty, closes the current output file, opens
  \<open><prefix>_t<id>.trace\<close> and records the id.\<close>

definition TraceWriter_TestcaseStart :: "TraceWriter \<Rightarrow> int \<Rightarrow> nat \<Rightarrow> error + TraceWriter" where
  "TraceWriter_TestcaseStart w newTestcaseId nextEntry =
     (case (if nextEntry = Begin w then Inr w else WriteBufferToFile w nextEntry) of
        Inl e \<Rightarrow> Inl e
      | Inr w' \<Rightarrow>
          Inr (w'\<lparr>tw_file := Some (tw_prefix w' @ ''_t'' @ show_int newTestcaseId @ ''.trace''),
                  tw_disk := (tw_disk w')
                     (tw_prefix w' @ ''_t'' @ show_int newTestcaseId @ ''.trace'' \<mapsto> []),
                  tw_testcase := Some newTestcaseId\<rparr>))"

text \<open>Modelled from the spec: \<open>TraceWriter::TestcaseEnd\<close> (TraceWriter.h) flushes, closes
  the file and records that no testcase is active.\<close>

definition TraceWriter_TestcaseEnd :: "TraceWriter \<Rightarrow> nat \<Rightarrow> error + TraceWriter" where
  "TraceWriter_TestcaseEnd w nextEntry =
     (case WriteBufferToFile w nextEntry of
        Inl e \<Rightarrow> Inl e
      | Inr w' \<Rightarrow> Inr (w'\<lparr>tw_file := None, tw_testcase := None\<rparr>))"

text \<open>The analysis functions that PinTracer.cpp defines itself. A writer pointer that
  \<open>PIN_GetThreadData\<close> returns as null and the source then dereferences is the error
  \<open>NullDereference\<close>.\<close>

definition CheckBufferAndStore ::
    "nat \<Rightarrow> nat \<Rightarrow> nat \<Rightarrow> nat \<Rightarrow> globals \<Rightarrow> error + (nat \<times> globals)" where
  "CheckBufferAndStore K nextEntry entryBufferEnd tid g =
     (if tid \<noteq> 0 \<or> nextEntry = NULL \<or> entryBufferEnd = NULL then Inr (nextEntry, g)
      else if CheckBufferFull K nextEntry entryBufferEnd then
        (case g_threadData g tid of
           None \<Rightarrow> Inl NullDereference
         | Some traceWriter \<Rightarrow>
             (case WriteBufferToFile traceWriter entryBufferEnd of
                Inl e \<Rightarrow> Inl e
              | Inr w' \<Rightarrow> Inr (Begin w', g\<lparr>g_threadData := (g_threadData g)(tid := Some w')\<rparr>)))
      else Inr (nextEntry, g))"

definition TestcaseStart :: "64 word \<Rightarrow> nat \<Rightarrow> nat \<Rightarrow> globals \<Rightarrow> error + (nat \<times> globals)" where
  "TestcaseStart newTestcaseId tid nextEntry g =
     (case g_threadData g tid of
        None \<Rightarrow> Inl NullDereference
      | Some traceWriter \<Rightarrow>
          (case TraceWriter_TestcaseStart traceWriter
                  (sint (ucast newTestcaseId :: 32 word)) nextEntry of
             Inl e \<Rightarrow> Inl e
           | Inr w' \<Rightarrow> Inr (Begin w', g\<lparr>g_threadData := (g_threadData g)(tid := Some w')\<rparr>)))"

definition TestcaseEnd :: "nat \<Rightarrow> nat \<Rightarrow> globals \<Rightarrow> error + (nat \<times> globals)" where
  "TestcaseEnd nextEntry tid g =
     (case g_threadData g tid of
        None \<Rightarrow> Inl NullDereference
      | Some traceWriter \<Rightarrow>
          (case TraceWriter_TestcaseEnd traceWriter nextEntry of
             Inl e \<Rightarrow> Inl e
           | Inr w' \<Rightarrow> Inr (Begin w', g\<lparr>g_threadData := (g_threadData g)(tid := Some w')\<rparr>)))"

definition CheckNextTraceEntryPointerValid :: "nat \<Rightarrow> nat" where
  "CheckNextTraceEntryPointerValid nextEntry = nextEntry"

text \<open>\<open>ChangeRandomNumber\<close> stores through the \<open>ADDRINT*\<close> it is handed; the result is
  the new contents of \<open>*outputReg\<close>. Which register that reaches, and how much of it,
  is the host's part (\<open>write_reg\<close> below).\<close>

definition ChangeRandomNumber :: "globals \<Rightarrow> 64 word \<Rightarrow> 64 word" where
  "ChangeRandomNumber g outputReg = g_fixedRandomNumber g"


section \<open>Thread start\<close>

text \<open>The state a probe runs in: the context of the executing thread (its id, the two
  buffer registers, the other registers) and the globals. \<open>m_regs\<close> is the register
  file: one 64-bit cell per full-width register.\<close>

record machine =
  m_tid :: nat
  m_next :: nat
  m_end :: nat
  m_regs :: "REG \<Rightarrow> 64 word"
  m_globals :: globals

text \<open>\<open>ThreadStart\<close>. The argument \<open>traceWriter\<close> is the object that
  \<open>new TraceWriter(KnobOutputFilePrefix.Value())\<close> returns; the constructor is in
  TraceWriter.h.\<close>

definition ThreadStart :: "nat \<Rightarrow> TraceWriter \<Rightarrow> machine \<Rightarrow> machine" where
  "ThreadStart tid traceWriter m =
     (if tid = 0 then
        m\<lparr>m_next := Begin traceWriter, m_end := End traceWriter,
          m_globals := (m_globals m)\<lparr>g_threadData :=
             (g_threadData (m_globals m))(tid := Some traceWriter)\<rparr>\<rparr>
      else
        m\<lparr>m_next := NULL, m_end := NULL,
          m_globals := (m_globals m)\<lparr>g_cerr :=
             endl (put_num tid (put_str ''Ignoring thread #'' (g_cerr (m_globals m))))\<rparr>\<rparr>)"


section \<open>Execution of registered analysis calls\<close>

text \<open>How the host reads and writes a register of the traced program. A register is a
  window on the low bytes of its full-width register: reading it gives those bytes;
  writing a 64-bit register replaces the cell, writing a 32-bit register clears the upper
  half of the cell and writing a 16-bit register keeps the upper 48 bits (the rules of the
  64-bit instruction set). \<open>IARG_REG_VALUE\<close> is a read; \<open>IARG_REG_REFERENCE\<close> hands
  the analysis function the value read and writes back what the function stored, so a
  register never receives more bits than it has.\<close>

definition read_reg :: "(REG \<Rightarrow> 64 word) \<Rightarrow> REG \<Rightarrow> 64 word" where
  "read_reg regs r = take_bit (8 * REG_Size r) (regs (REG_FullRegName r))"

definition write_reg :: "REG \<Rightarrow> 64 word \<Rightarrow> (REG \<Rightarrow> 64 word) \<Rightarrow> (REG \<Rightarrow> 64 word)" where
  "write_reg r v regs =
     regs(REG_FullRegName r :=
       (if REG_Size r = 2
        then push_bit 16 (drop_bit 16 (regs (REG_FullRegName r))) OR take_bit 16 v
        else take_bit (8 * REG_Size r) v))"

text \<open>Modelled from the spec: the instrumentation host runs the calls registered at an
  instrumentation point in registration order; the call of an if/then pair runs only
  when the predicate before it returned nonzero; a call with \<open>IARG_RETURN_REGS\<close> writes
  its result to that register. \<open>runtime\<close> holds what the host evaluates for the
  argument descriptors at the instrumented instruction; \<open>rt_context_ip\<close> is the
  instruction pointer in the \<open>CONTEXT\<close> handed to a probe (at the taken-branch point of a
  ret, the return target).\<close>

record runtime =
  rt_inst_ptr :: nat
  rt_branch_target :: nat
  rt_branch_taken :: bool
  rt_memoryread_ea :: nat
  rt_memoryread2_ea :: nat
  rt_memorywrite_ea :: nat
  rt_context_ip :: nat
  rt_funcarg :: "nat \<Rightarrow> 64 word"

datatype val = V_ptr nat | V_num nat | V_bool bool | V_reg REG | V_context nat

fun eval_arg :: "runtime \<Rightarrow> machine \<Rightarrow> IARG \<Rightarrow> val" where
  "eval_arg rt m IARG_CONTEXT = V_context (rt_context_ip rt)"
| "eval_arg rt m (IARG_UINT32 n) = V_num n"
| "eval_arg rt m (IARG_UINT32_REG r) = V_reg r"
| "eval_arg rt m (IARG_BOOL b) = V_bool b"
| "eval_arg rt m (IARG_REG_VALUE r) =
     (if r = nextBufferEntryReg then V_ptr (m_next m)
      else if r = entryBufferEndReg then V_ptr (m_end m)
      else V_num (unat (read_reg (m_regs m) r)))"
| "eval_arg rt m (IARG_REG_REFERENCE r) = V_reg r"
| "eval_arg rt m IARG_INST_PTR = V_num (rt_inst_ptr rt)"
| "eval_arg rt m IARG_BRANCH_TARGET_ADDR = V_num (rt_branch_target rt)"
| "eval_arg rt m IARG_BRANCH_TAKEN = V_bool (rt_branch_taken rt)"
| "eval_arg rt m IARG_MEMORYREAD_EA = V_num (rt_memoryread_ea rt)"
| "eval_arg rt m IARG_MEMORYREAD2_EA = V_num (rt_memoryread2_ea rt)"
| "eval_arg rt m IARG_MEMORYWRITE_EA = V_num (rt_memorywrite_ea rt)"
| "eval_arg rt m IARG_THREAD_ID = V_num (m_tid m)"
| "eval_arg rt m (IARG_FUNCARG_ENTRYPOINT_VALUE k) = V_num (unat (rt_funcarg rt k))"
| "eval_arg rt m (IARG_RETURN_REGS r) = V_reg r"

fun is_return_regs :: "IARG \<Rightarrow> bool" where
  "is_return_regs (IARG_RETURN_REGS r) = True"
| "is_return_regs _ = False"

fun return_reg :: "IARG list \<Rightarrow> REG option" where
  "return_reg [] = None"
| "return_reg (IARG_RETURN_REGS r # rest) = Some r"
| "return_reg (a # rest) = return_reg rest"

definition write_return :: "REG option \<Rightarrow> val \<Rightarrow> machine \<Rightarrow> error + machine" where
  "write_return ro v m =
     (case ro of
        None \<Rightarrow> Inr m
      | Some r \<Rightarrow>
          (case v of
             V_ptr p \<Rightarrow>
               if r = nextBufferEntryReg then Inr (m\<lparr>m_next := p\<rparr>)
               else if r = entryBufferEndReg then Inr (m\<lparr>m_end := p\<rparr>)
               else Inl MalformedProbe
           | V_num n \<Rightarrow>
               if r = nextBufferEntryReg \<or> r = entryBufferEndReg then Inl MalformedProbe
               else Inr (m\<lparr>m_regs := write_reg r (of_nat n) (m_regs m)\<rparr>)
           | _ \<Rightarrow> Inl MalformedProbe))"

text \<open>An insert probe: the entry goes to the slot at \<open>p\<close>, the probe returns the bumped
  pointer, and the entry is reported as emitted.\<close>

definition insert_probe :: "machine \<Rightarrow> nat \<Rightarrow> TraceEntry \<Rightarrow> error + (val \<times> machine \<times> TraceEntry list)" where
  "insert_probe m p e =
     (case InsertEntry (m_globals m) p e of
        Inl err \<Rightarrow> Inl err
      | Inr (p', g') \<Rightarrow> Inr (V_ptr p', m\<lparr>m_globals := g'\<rparr>, [e]))"

definition flush_result :: "machine \<Rightarrow> error + (nat \<times> globals) \<Rightarrow> error + (val \<times> machine \<times> TraceEntry list)" where
  "flush_result m r =
     (case r of
        Inl err \<Rightarrow> Inl err
      | Inr (p, g') \<Rightarrow> Inr (V_ptr p, m\<lparr>m_globals := g'\<rparr>, []))"

text \<open>\<open>ChangeCpuId\<close> is defined in CpuOverride.h, which is not among the sources; its
  effect on the four output registers, given the two saved inputs, is the parameter
  \<open>C\<close>.\<close>

type_synonym cpuid_override =
  "64 word \<Rightarrow> 64 word \<Rightarrow> 64 word \<times> 64 word \<times> 64 word \<times> 64 word
     \<Rightarrow> 64 word \<times> 64 word \<times> 64 word \<times> 64 word"

definition call_afun ::
    "nat \<Rightarrow> cpuid_override \<Rightarrow> AFUN \<Rightarrow> val list \<Rightarrow> machine
       \<Rightarrow> error + (val \<times> machine \<times> TraceEntry list)" where
  "call_afun K C f vs m =
     (case f of
        F_PIN_SetContextReg \<Rightarrow>
          (case vs of
             [V_context c, V_reg r, V_num v] \<Rightarrow>
               Inr (V_num 0, m\<lparr>m_regs := write_reg r (of_nat v) (m_regs m)\<rparr>, [])
           | _ \<Rightarrow> Inl MalformedProbe)
      | F_ChangeCpuId \<Rightarrow>
          (case vs of
             [V_num a, V_num c, V_reg r1, V_reg r2, V_reg r3, V_reg r4] \<Rightarrow>
               (case C (of_nat a) (of_nat c)
                       (read_reg (m_regs m) r1, read_reg (m_regs m) r2,
                        read_reg (m_regs m) r3, read_reg (m_regs m) r4) of
                  (o1, o2, o3, o4) \<Rightarrow>
                    Inr (V_num 0,
                         m\<lparr>m_regs := write_reg r4 o4 (write_reg r3 o3
                               (write_reg r2 o2 (write_reg r1 o1 (m_regs m))))\<rparr>, []))
           | _ \<Rightarrow> Inl MalformedProbe)
      | F_ChangeRandomNumber \<Rightarrow>
          (case vs of
             [V_reg r] \<Rightarrow>
               Inr (V_num 0,
                    m\<lparr>m_regs := write_reg r
                         (ChangeRandomNumber (m_globals m) (read_reg (m_regs m) r)) (m_regs m)\<rparr>, [])
           | _ \<Rightarrow> Inl MalformedProbe)
      | F_CheckNextTraceEntryPointerValid \<Rightarrow>
          (case vs of
             [V_ptr p] \<Rightarrow> Inr (V_num (CheckNextTraceEntryPointerValid p), m, [])
           | _ \<Rightarrow> Inl MalformedProbe)
      | F_InsertBranchEntry \<Rightarrow>
          (case vs of
             [V_ptr p, V_num ip, V_num target, V_bool taken, V_num isCall] \<Rightarrow>
               insert_probe m p (Branch ip target taken (isCall \<noteq> 0))
           | _ \<Rightarrow> Inl MalformedProbe)
      | F_InsertRetBranchEntry \<Rightarrow>
          (case vs of
             [V_ptr p, V_num ip, V_context target] \<Rightarrow> insert_probe m p (Ret ip target)
           | _ \<Rightarrow> Inl MalformedProbe)
      | F_InsertMemoryReadEntry \<Rightarrow>
          (case vs of
             [V_ptr p, V_num ip, V_num ea] \<Rightarrow> insert_probe m p (MemoryRead ip ea)
           | _ \<Rightarrow> Inl MalformedProbe)
      | F_InsertMemoryWriteEntry \<Rightarrow>
          (case vs of
             [V_ptr p, V_num ip, V_num ea] \<Rightarrow> insert_probe m p (MemoryWrite ip ea)
           | _ \<Rightarrow> Inl MalformedProbe)
      | F_CheckBufferFull \<Rightarrow>
          (case vs of
             [V_ptr n, V_ptr e] \<Rightarrow> Inr (V_bool (CheckBufferFull K n e), m, [])
           | _ \<Rightarrow> Inl MalformedProbe)
      | F_CheckBufferAndStore \<Rightarrow>
          (case vs of
             [V_ptr n, V_ptr e, V_num tid] \<Rightarrow>
               flush_result m (CheckBufferAndStore K n e tid (m_globals m))
           | _ \<Rightarrow> Inl MalformedProbe)
      | F_TestcaseStart \<Rightarrow>
          (case vs of
             [V_num newTestcaseId, V_num tid, V_ptr n] \<Rightarrow>
               flush_result m (TestcaseStart (of_nat newTestcaseId) tid n (m_globals m))
           | _ \<Rightarrow> Inl MalformedProbe)
      | F_TestcaseEnd \<Rightarrow>
          (case vs of
             [V_ptr n, V_num tid] \<Rightarrow> flush_result m (TestcaseEnd n tid (m_globals m))
           | _ \<Rightarrow> Inl MalformedProbe)
      | F_InsertStackPointerWriteEntry \<Rightarrow>
          (case vs of
             [V_ptr p, V_num v] \<Rightarrow> insert_probe m p (StackPointer v)
           | _ \<Rightarrow> Inl MalformedProbe)
      | F_InsertAllocSizeParameterEntry \<Rightarrow>
          (case vs of
             [V_ptr p, V_num v] \<Rightarrow> insert_probe m p (AllocSize v)
           | _ \<Rightarrow> Inl MalformedProbe)
      | F_InsertAllocAddressReturnEntry \<Rightarrow>
          (case vs of
             [V_ptr p, V_num v] \<Rightarrow> insert_probe m p (AllocReturn v)
           | _ \<Rightarrow> Inl MalformedProbe)
      | F_InsertFreeAddressParameterEntry \<Rightarrow>
          (case vs of
             [V_ptr p, V_num v] \<Rightarrow> insert_probe m p (FreeAddress v)
           | _ \<Rightarrow> Inl MalformedProbe))"

definition exec_call ::
    "nat \<Rightarrow> cpuid_override \<Rightarrow> runtime \<Rightarrow> AFUN \<Rightarrow> IARG list \<Rightarrow> machine
       \<Rightarrow> error + (val \<times> machine \<times> TraceEntry list)" where
  "exec_call K C rt f args m =
     (case call_afun K C f (map (eval_arg rt m) (filter (\<lambda>a. \<not> is_return_regs a) args)) m of
        Inl err \<Rightarrow> Inl err
      | Inr (v, m', out) \<Rightarrow>
          (case write_return (return_reg args) v m' of
             Inl err \<Rightarrow> Inl err
           | Inr m'' \<Rightarrow> Inr (v, m'', out)))"

fun nonzero :: "val \<Rightarrow> bool" where
  "nonzero (V_ptr p) = (p \<noteq> 0)"
| "nonzero (V_num n) = (n \<noteq> 0)"
| "nonzero (V_bool b) = b"
| "nonzero (V_reg r) = True"
| "nonzero (V_context c) = True"

definition then_emitted ::
    "TraceEntry list \<Rightarrow> error + (machine \<times> TraceEntry list) \<Rightarrow> error + (machine \<times> TraceEntry list)" where
  "then_emitted out r =
     (case r of Inl err \<Rightarrow> Inl err | Inr (m, out') \<Rightarrow> Inr (m, out @ out'))"

fun run_calls ::
    "nat \<Rightarrow> cpuid_override \<Rightarrow> runtime \<Rightarrow> insertion list \<Rightarrow> machine
       \<Rightarrow> error + (machine \<times> TraceEntry list)" where
  "run_calls K C rt [] m = Inr (m, [])"
| "run_calls K C rt (INS_InsertIfCall p f args # INS_InsertThenCall p' f' args' # rest) m =
     (case exec_call K C rt f args m of
        Inl err \<Rightarrow> Inl err
      | Inr (v, m1, out1) \<Rightarrow>
          if nonzero v then
            (case exec_call K C rt f' args' m1 of
               Inl err \<Rightarrow> Inl err
             | Inr (v', m2, out2) \<Rightarrow> then_emitted (out1 @ out2) (run_calls K C rt rest m2))
          else then_emitted out1 (run_calls K C rt rest m1))"
| "run_calls K C rt (INS_InsertCall p f args # rest) m =
     (case exec_call K C rt f args m of
        Inl err \<Rightarrow> Inl err
      | Inr (v, m1, out1) \<Rightarrow> then_emitted out1 (run_calls K C rt rest m1))"
| "run_calls K C rt (RTN_InsertCall p f args # rest) m =
     (case exec_call K C rt f args m of
        Inl err \<Rightarrow> Inl err
      | Inr (v, m1, out1) \<Rightarrow> then_emitted out1 (run_calls K C rt rest m1))"
| "run_calls K C rt (q # rest) m = Inl MalformedProbe"

text \<open>One execution of an instrumented instruction: the calls at \<open>IPOINT_BEFORE\<close>, the
  instruction's own effect \<open>eff\<close> on the registers, then the calls on the edge that
  execution leaves by: \<open>IPOINT_TAKEN_BRANCH\<close> when control is transferred,
  \<open>IPOINT_AFTER\<close> on fall-through.\<close>

definition exec_ins ::
    "nat \<Rightarrow> cpuid_override \<Rightarrow> runtime \<Rightarrow> ((REG \<Rightarrow> 64 word) \<Rightarrow> (REG \<Rightarrow> 64 word))
       \<Rightarrow> insertion list \<Rightarrow> machine \<Rightarrow> error + (machine \<times> TraceEntry list)" where
  "exec_ins K C rt eff plan m =
     (case run_calls K C rt (filter (\<lambda>q. ipoint_of q = IPOINT_BEFORE) plan) m of
        Inl err \<Rightarrow> Inl err
      | Inr (m1, out1) \<Rightarrow>
          then_emitted out1
            (run_calls K C rt
               (filter (\<lambda>q. ipoint_of q =
                   (if rt_branch_taken rt then IPOINT_TAKEN_BRANCH else IPOINT_AFTER)) plan)
               (m1\<lparr>m_regs := eff (m_regs m1)\<rparr>)))"


section \<open>main and InstrumentImage\<close>

record knobs =
  KnobOutputFilePrefix :: string
  KnobInterestingImageList :: string
  KnobCpuFeatureLevel :: int
  KnobFixedRandomNumbers :: "64 word"

text \<open>The globals as their initialisers leave them before \<open>main\<close> runs.\<close>

definition initial_globals :: globals where
  "initial_globals =
     \<lparr>g_interestingImages = [], g_images = [], g_useFixedRandomNumber = False,
      g_fixedRandomNumber = 0, g_threadData = (\<lambda>tid. None),
      g_cerr = \<lparr>os_hex = False, os_chars = []\<rparr>,
      g_prefixMode = None, g_emulatedCpu = None, g_imageLog = []\<rparr>"

text \<open>The \<open>getline(stream, item, ';')\<close> loop: the pieces between semicolons.\<close>

fun split_semicolon :: "string \<Rightarrow> string \<Rightarrow> string list" where
  "split_semicolon item [] = [item]"
| "split_semicolon item (c # cs) =
     (if c = CHR '';'' then item # split_semicolon [] cs else split_semicolon (item @ [c]) cs)"

text \<open>Modelled from the spec: \<open>tolower\<close> (Utilities.h) lower-cases a string in place.\<close>

definition tolower_char :: "char \<Rightarrow> char" where
  "tolower_char c =
     (if 65 \<le> (of_char c :: nat) \<and> (of_char c :: nat) \<le> 90
      then char_of ((of_char c :: nat) + 32) else c)"

definition tolower_str :: "string \<Rightarrow> string" where
  "tolower_str s = map tolower_char s"

text \<open>\<open>main\<close> up to \<open>PIN_StartProgram\<close>. \<open>PIN_Init_failed\<close> is the result of
  \<open>PIN_Init\<close>, \<open>knobSummary\<close> the text of \<open>KNOB_BASE::StringKnobSummary()\<close>. The
  registration of the callbacks with the host is not state of the tool and is left
  out.\<close>

definition main :: "bool \<Rightarrow> string \<Rightarrow> knobs \<Rightarrow> globals \<Rightarrow> int \<times> globals" where
  "main PIN_Init_failed knobSummary k g =
     (if PIN_Init_failed then (- 1, g\<lparr>g_cerr := endl (put_str knobSummary (g_cerr g))\<rparr>)
      else
        (0,
         g\<lparr>g_interestingImages :=
             g_interestingImages g @
             map tolower_str
               (filter (\<lambda>item. item \<noteq> []) (split_semicolon [] (KnobInterestingImageList k))),
           g_emulatedCpu := Some (KnobCpuFeatureLevel k),
           g_useFixedRandomNumber :=
             (if KnobFixedRandomNumbers k \<noteq> 0xBADBADBADBADBAD then True
              else g_useFixedRandomNumber g),
           g_fixedRandomNumber :=
             (if KnobFixedRandomNumbers k \<noteq> 0xBADBADBADBADBAD then KnobFixedRandomNumbers k
              else g_fixedRandomNumber g),
           g_cerr :=
             (if KnobFixedRandomNumbers k \<noteq> 0xBADBADBADBADBAD
              then endl (put_num (unat (KnobFixedRandomNumbers k))
                     (put_str ''Using fixed RDRAND output '' (g_cerr g)))
              else g_cerr g),
           g_prefixMode := Some (KnobOutputFilePrefix k)\<rparr>))"

text \<open>An image as \<open>InstrumentImage\<close> sees it; \<open>IMG_Routines\<close> lists the names for which
  \<open>RTN_FindByName\<close> returns a valid routine.\<close>

record IMG =
  IMG_Name :: string
  IMG_LowAddress :: nat
  IMG_HighAddress :: nat
  IMG_Routines :: "string list"

text \<open>The first part of \<open>InstrumentImage\<close>: classification, image log, registry and the
  line on \<open>cerr\<close>.\<close>

definition register_image :: "IMG \<Rightarrow> globals \<Rightarrow> globals" where
  "register_image img g =
     (let imageName = IMG_Name img;
          imageNameLower = tolower_str imageName;
          interesting = list_ex (\<lambda>interestingImageName. sublist interestingImageName imageNameLower)
                          (g_interestingImages g);
          imageStart = IMG_LowAddress img;
          imageEnd = IMG_HighAddress img
      in g\<lparr>g_imageLog := g_imageLog g @ [(interesting, imageStart, imageEnd, imageName)],
           g_images := g_images g @
             [\<lparr>img_interesting = interesting, img_name = imageName,
               img_low = imageStart, img_high = imageEnd\<rparr>],
           g_cerr :=
             endl (put_str (if interesting then '' [interesting]'' else [])
               (put_num imageEnd (set_hex (put_str '' ... ''
                 (put_num imageStart (set_hex (put_str (CHR 0x27 # '' loaded at '')
                   (put_str imageName (put_str (''Image '' @ [CHR 0x27]) (g_cerr g))))))))))\<rparr>)"

text \<open>The routine hooks, one step per \<open>RTN_FindByName\<close> block of the source. A step adds
  the calls registered on the routine and the line on \<open>cerr\<close>.\<close>

type_synonym hook_state = "globals \<times> (string \<times> insertion) list"

definition hook :: "IMG \<Rightarrow> string \<Rightarrow> insertion list \<Rightarrow> string \<Rightarrow> hook_state \<Rightarrow> hook_state" where
  "hook img rtnName calls message st =
     (if rtnName \<in> set (IMG_Routines img)
      then ((fst st)\<lparr>g_cerr := endl (put_str message (g_cerr (fst st)))\<rparr>,
            snd st @ map (Pair rtnName) calls)
      else st)"

definition notifyStart_calls :: "insertion list" where
  "notifyStart_calls =
     [RTN_InsertCall IPOINT_BEFORE F_TestcaseStart
        [IARG_FUNCARG_ENTRYPOINT_VALUE 0, IARG_THREAD_ID,
         IARG_REG_VALUE nextBufferEntryReg, IARG_RETURN_REGS nextBufferEntryReg]]"

definition notifyEnd_calls :: "insertion list" where
  "notifyEnd_calls =
     [RTN_InsertCall IPOINT_BEFORE F_TestcaseEnd
        [IARG_REG_VALUE nextBufferEntryReg, IARG_THREAD_ID,
         IARG_RETURN_REGS nextBufferEntryReg]]"

definition notifyStackPointer_calls :: "insertion list" where
  "notifyStackPointer_calls =
     [RTN_InsertCall IPOINT_BEFORE F_InsertStackPointerWriteEntry
        [IARG_REG_VALUE nextBufferEntryReg, IARG_FUNCARG_ENTRYPOINT_VALUE 0,
         IARG_RETURN_REGS nextBufferEntryReg],
      RTN_InsertCall IPOINT_BEFORE F_CheckBufferAndStore
        [IARG_REG_VALUE nextBufferEntryReg, IARG_REG_VALUE entryBufferEndReg,
         IARG_THREAD_ID, IARG_RETURN_REGS nextBufferEntryReg],
      RTN_InsertCall IPOINT_BEFORE F_InsertStackPointerWriteEntry
        [IARG_REG_VALUE nextBufferEntryReg, IARG_FUNCARG_ENTRYPOINT_VALUE 1,
         IARG_RETURN_REGS nextBufferEntryReg],
      RTN_InsertCall IPOINT_BEFORE F_CheckBufferAndStore
        [IARG_REG_VALUE nextBufferEntryReg, IARG_REG_VALUE entryBufferEndReg,
         IARG_THREAD_ID, IARG_RETURN_REGS nextBufferEntryReg]]"

definition malloc_calls :: "insertion list" where
  "malloc_calls =
     [RTN_InsertCall IPOINT_BEFORE F_InsertAllocSizeParameterEntry
        [IARG_REG_VALUE nextBufferEntryReg, IARG_FUNCARG_ENTRYPOINT_VALUE 2,
         IARG_RETURN_REGS nextBufferEntryReg],
      RTN_InsertCall IPOINT_BEFORE F_CheckBufferAndStore
        [IARG_REG_VALUE nextBufferEntryReg, IARG_REG_VALUE entryBufferEndReg,
         IARG_THREAD_ID, IARG_RETURN_REGS nextBufferEntryReg],
      RTN_InsertCall IPOINT_AFTER F_InsertAllocAddressReturnEntry
        [IARG_REG_VALUE nextBufferEntryReg, IARG_REG_VALUE REG_RAX,
         IARG_RETURN_REGS nextBufferEntryReg],
      RTN_InsertCall IPOINT_AFTER F_CheckBufferAndStore
        [IARG_REG_VALUE nextBufferEntryReg, IARG_REG_VALUE entryBufferEndReg,
         IARG_THREAD_ID, IARG_RETURN_REGS nextBufferEntryReg]]"

definition free_calls :: "insertion list" where
  "free_calls =
     [RTN_InsertCall IPOINT_BEFORE F_InsertFreeAddressParameterEntry
        [IARG_REG_VALUE nextBufferEntryReg, IARG_FUNCARG_ENTRYPOINT_VALUE 2,
         IARG_RETURN_REGS nextBufferEntryReg],
      RTN_InsertCall IPOINT_BEFORE F_CheckBufferAndStore
        [IARG_REG_VALUE nextBufferEntryReg, IARG_REG_VALUE entryBufferEndReg,
         IARG_THREAD_ID, IARG_RETURN_REGS nextBufferEntryReg]]"

definition InstrumentImage :: "IMG \<Rightarrow> globals \<Rightarrow> hook_state" where
  "InstrumentImage img g =
     hook img ''RtlFreeHeap'' free_calls ''    free() instrumented.''
      (hook img ''RtlAllocateHeap'' malloc_calls ''    malloc() instrumented.''
        (hook img ''PinNotifyStackPointer'' notifyStackPointer_calls
              ''    PinNotifyStackPointer() instrumented.''
          (hook img ''PinNotifyTestcaseEnd'' notifyEnd_calls
                ''    PinNotifyTestcaseEnd() instrumented.''
            (hook img ''PinNotifyTestcaseStart'' notifyStart_calls
                  ''    PinNotifyTestcaseStart() instrumented.''
              (register_image img g, [])))))"


section \<open>Notions used in the statements\<close>

text \<open>Steps 1 to 3 of the per-instruction walk (segment prefix, push/pop family, LEA)
  and steps 4 to 5 (CPUID, RDRAND under the override), as conditions on an
  instruction.\<close>

definition skipped :: "xed_iclass \<Rightarrow> INS \<Rightarrow> bool" where
  "skipped X ins =
     (INS_SegmentPrefix ins \<or>
      (XED_ICLASS_PUSH X \<le> INS_Opcode ins \<and> INS_Opcode ins \<le> XED_ICLASS_PUSHFQ X) \<or>
      (XED_ICLASS_POP X \<le> INS_Opcode ins \<and> INS_Opcode ins \<le> XED_ICLASS_POPFQ X) \<or>
      INS_Opcode ins = XED_ICLASS_LEA X)"

definition overridden :: "xed_iclass \<Rightarrow> globals \<Rightarrow> INS \<Rightarrow> bool" where
  "overridden X g ins =
     (INS_Opcode ins = XED_ICLASS_CPUID X \<or>
      (INS_Opcode ins = XED_ICLASS_RDRAND X \<and> g_useFixedRandomNumber g))"

definition is_memory_probe :: "insertion \<Rightarrow> bool" where
  "is_memory_probe q =
     (afun_of q = F_InsertMemoryReadEntry \<or> afun_of q = F_InsertMemoryWriteEntry)"

fun is_memory_entry :: "TraceEntry \<Rightarrow> bool" where
  "is_memory_entry (MemoryRead ip ea) = True"
| "is_memory_entry (MemoryWrite ip ea) = True"
| "is_memory_entry e = False"

text \<open>The traced thread between two probes: thread 0, whose writer \<open>w\<close> is in the thread
  data, with the buffer registers as \<open>ThreadStart\<close> set them and the probes keep them:
  \<open>next\<close> inside the buffer, \<open>end\<close> at its end.\<close>

definition traced :: "machine \<Rightarrow> TraceWriter \<Rightarrow> bool" where
  "traced m w =
     (m_tid m = 0 \<and> g_threadData (m_globals m) 0 = Some w \<and> Begin w \<noteq> NULL \<and>
      Begin w \<le> m_next m \<and> m_next m < End w \<and> m_end m = End w)"

text \<open>A stretch of execution of one thread through instrumented code: each step is
  an executed instruction with the values the host supplies, the instruction's own
  effect on the registers and the interest flag of the image that owns its block; the
  calls run are those the planner registered for the instruction.\<close>

fun exec_path ::
    "nat \<Rightarrow> cpuid_override \<Rightarrow> xed_iclass \<Rightarrow> globals \<Rightarrow>
     (runtime \<times> ((REG \<Rightarrow> 64 word) \<Rightarrow> (REG \<Rightarrow> 64 word)) \<times> bool \<times> INS) list \<Rightarrow>
     machine \<Rightarrow> error + (machine \<times> TraceEntry list)" where
  "exec_path K C X g [] m = Inr (m, [])"
| "exec_path K C X g ((rt, eff, interesting, ins) # rest) m =
     (case exec_ins K C rt eff (InstrumentIns X g interesting ins) m of
        Inl err \<Rightarrow> Inl err
      | Inr (m1, out1) \<Rightarrow> then_emitted out1 (exec_path K C X g rest m1))"

text \<open>The six entry-writing calls of the planner: each stores its entry at \<open>next\<close> and
  returns the bumped pointer into \<open>next\<close>.\<close>

definition writes_entry ::
    "nat \<Rightarrow> cpuid_override \<Rightarrow> runtime \<Rightarrow> AFUN \<Rightarrow> IARG list \<Rightarrow> TraceEntry \<Rightarrow> bool" where
  "writes_entry K C rt f args e =
     (\<forall>m. exec_call K C rt f args m =
        (case InsertEntry (m_globals m) (m_next m) e of
           Inl x \<Rightarrow> Inl x
         | Inr (p, g') \<Rightarrow> Inr (V_ptr p, m\<lparr>m_globals := g', m_next := p\<rparr>, [e])))"

text \<open>A list of calls that, run on the traced thread, always succeeds, emits \<open>out\<close>
  and leaves the thread traced.\<close>

definition emits :: "nat \<Rightarrow> cpuid_override \<Rightarrow> runtime \<Rightarrow> insertion list \<Rightarrow> TraceEntry list \<Rightarrow> bool" where
  "emits K C rt calls out =
     (\<forall>m w. traced m w \<longrightarrow>
        (\<exists>m' w'. traced m' w' \<and> m_regs m' = m_regs m \<and>
           run_calls K C rt calls m = Inr (m', out)))"

text \<open>A list of calls that, run on a thread whose \<open>next\<close> is null, always succeeds,
  emits nothing and changes neither the globals nor the buffer registers.\<close>

definition quiet :: "nat \<Rightarrow> cpuid_override \<Rightarrow> runtime \<Rightarrow> insertion list \<Rightarrow> bool" where
  "quiet K C rt calls =
     (\<forall>m. m_next m = NULL \<longrightarrow>
        (\<exists>m'. run_calls K C rt calls m = Inr (m', []) \<and> m_globals m' = m_globals m \<and>
           m_next m' = NULL \<and> m_end m' = m_end m \<and> m_tid m' = m_tid m))"




section \<open>Sample inputs\<close>

text \<open>Concrete inputs at which the theorems below are instantiated: an enumerator
  numbering in XED's alphabetical order, an interesting image \<open>a.exe\<close> and an
  uninteresting image \<open>b.dll\<close>, a plain register-to-register instruction, and a writer
  with four slots whose testcase file is open.\<close>

definition xed_sample :: xed_iclass where
  "xed_sample =
     \<lparr>XED_ICLASS_PUSH = 650, XED_ICLASS_PUSHFQ = 655, XED_ICLASS_POP = 600,
      XED_ICLASS_POPFQ = 606, XED_ICLASS_LEA = 300, XED_ICLASS_CPUID = 100,
      XED_ICLASS_RDRAND = 700\<rparr>"

definition image_a :: ImageData where
  "image_a = \<lparr>img_interesting = True, img_name = ''a.exe'', img_low = 4096, img_high = 8191\<rparr>"

definition image_b :: ImageData where
  "image_b = \<lparr>img_interesting = False, img_name = ''b.dll'', img_low = 16384, img_high = 20479\<rparr>"

definition globals_sample :: globals where
  "globals_sample = initial_globals\<lparr>g_images := [image_a, image_b]\<rparr>"

definition plain_ins :: INS where
  "plain_ins =
     \<lparr>INS_Address = 4100, INS_SegmentPrefix = False, INS_Opcode = 400, INS_IsCall = False,
      INS_IsBranch = False, INS_IsRet = False, INS_IsMemoryRead = False,
      INS_HasMemoryRead2 = False, INS_IsMemoryWrite = False, INS_IsStandardMemop = False,
      INS_RegW0 = REG_RAX\<rparr>"

definition writer_sample :: TraceWriter where
  "writer_sample =
     \<lparr>tw_begin = 100,
      tw_entries = [MemoryRead 4100 1, MemoryRead 4104 2, MemoryWrite 4108 3, Ret 4112 4200],
      tw_prefix = ''out'', tw_file = Some ''out_t7.trace'',
      tw_disk = [''out_t7.trace'' \<mapsto> [Branch 4000 4100 True True]],
      tw_testcase = Some 7\<rparr>"

definition runtime_sample :: runtime where
  "runtime_sample =
     \<lparr>rt_inst_ptr = 4100, rt_branch_target = 4200, rt_branch_taken = True,
      rt_memoryread_ea = 900, rt_memoryread2_ea = 901, rt_memorywrite_ea = 902,
      rt_context_ip = 4200, rt_funcarg = (\<lambda>k. 8)\<rparr>"

definition machine_sample :: machine where
  "machine_sample =
     \<lparr>m_tid = 0, m_next = 100, m_end = 104, m_regs = (\<lambda>r. 0),
      m_globals = globals_sample\<lparr>g_threadData := (\<lambda>tid. None)(0 := Some writer_sample)\<rparr>\<rparr>"


text \<open>The globals after \<open>main\<close> has run with \<open>-r 4660\<close> and both images are loaded,
  the traced thread under these globals, an RDRAND that leaves 4369 in \<open>RAX\<close>, and the
  host's values for an instruction that falls through.\<close>

definition globals_fixed :: globals where
  "globals_fixed = globals_sample\<lparr>g_useFixedRandomNumber := True, g_fixedRandomNumber := 4660\<rparr>"

definition machine_fixed :: machine where
  "machine_fixed = machine_sample\<lparr>m_globals := globals_fixed\<rparr>"

text \<open>The same with \<open>-r 0x123456789ABCDEF0\<close>, a value that needs more than 32 bits.\<close>

definition globals_wide :: globals where
  "globals_wide = globals_fixed\<lparr>g_fixedRandomNumber := 0x123456789ABCDEF0\<rparr>"

definition machine_wide :: machine where
  "machine_wide = machine_sample\<lparr>m_globals := globals_wide\<rparr>"

definition hardware_rdrand :: "(REG \<Rightarrow> 64 word) \<Rightarrow> (REG \<Rightarrow> 64 word)" where
  "hardware_rdrand regs = regs(REG_RAX := 4369)"

definition cpuid_unchanged :: cpuid_override where
  "cpuid_unchanged a c outputs = outputs"

definition runtime_fallthrough :: runtime where
  "runtime_fallthrough = runtime_sample\<lparr>rt_branch_taken := False\<rparr>"

text \<open>An instruction with a standard memory read and write, a call with a memory read,
  a block of \<open>b.dll\<close> holding both and a block of \<open>a.exe\<close> holding the first.\<close>

definition mem_ins :: INS where
  "mem_ins = plain_ins\<lparr>INS_IsMemoryRead := True, INS_IsMemoryWrite := True,
                        INS_IsStandardMemop := True\<rparr>"

definition call_mem_ins :: INS where
  "call_mem_ins = plain_ins\<lparr>INS_IsCall := True, INS_IsMemoryRead := True,
                             INS_IsStandardMemop := True\<rparr>"

definition bbl_b :: BBL where
  "bbl_b = \<lparr>BBL_Address = 16384, BBL_Ins = [call_mem_ins, mem_ins]\<rparr>"

definition bbl_a :: BBL where
  "bbl_a = \<lparr>BBL_Address = 4096, BBL_Ins = [mem_ins]\<rparr>"

definition knobs_sample :: knobs where
  "knobs_sample =
     \<lparr>KnobOutputFilePrefix = ''out'', KnobInterestingImageList = ''a.exe'',
      KnobCpuFeatureLevel = 0, KnobFixedRandomNumbers = 4660\<rparr>"


text \<open>The image \<open>a.exe\<close> as the host reports it, with the two testcase notification
  routines, and the traced thread with two entries in its buffer.\<close>

definition img_sample :: IMG where
  "img_sample =
     \<lparr>IMG_Name = ''a.exe'', IMG_LowAddress = 4096, IMG_HighAddress = 8191,
      IMG_Routines = [''PinNotifyTestcaseStart'', ''PinNotifyTestcaseEnd'']\<rparr>"

definition machine_two_entries :: machine where
  "machine_two_entries = machine_sample\<lparr>m_next := 102\<rparr>"

text \<open>The writer after \<open>PinNotifyTestcaseEnd\<close> has run on that thread (no file open, no
  testcase active), the thread one entry later, and a second thread as \<open>ThreadStart\<close>
  leaves it.\<close>

definition writer_closed :: TraceWriter where
  "writer_closed =
     writer_sample\<lparr>tw_disk := (tw_disk writer_sample)
         (''out_t7.trace'' \<mapsto>
            [Branch 4000 4100 True True, MemoryRead 4100 1, MemoryRead 4104 2]),
       tw_file := None, tw_testcase := None\<rparr>"

definition machine_closed :: machine where
  "machine_closed =
     machine_sample\<lparr>m_next := 101,
       m_globals := (m_globals machine_sample)\<lparr>g_threadData :=
          (g_threadData (m_globals machine_sample))(0 := Some writer_closed)\<rparr>\<rparr>"

definition machine_thread1 :: machine where
  "machine_thread1 = ThreadStart 1 writer_sample (machine_sample\<lparr>m_tid := 1\<rparr>)"


section \<open>Properties of the planner\<close>

lemma InstrumentIns_cong:
  "g_useFixedRandomNumber g' = g_useFixedRandomNumber g \<Longrightarrow>
   InstrumentIns X g' b ins = InstrumentIns X g b ins"
  by (simp add: InstrumentIns_def)

lemma InstrumentBblIns_cong:
  "g_useFixedRandomNumber g' = g_useFixedRandomNumber g \<Longrightarrow>
   InstrumentBblIns X g' b inss = InstrumentBblIns X g b inss"
  by (simp add: InstrumentBblIns_def InstrumentIns_cong [of g' g])

lemma log_unresolved_fields [simp]:
  "g_images (log_unresolved bbl g) = g_images g"
  "g_useFixedRandomNumber (log_unresolved bbl g) = g_useFixedRandomNumber g"
  by (simp_all add: log_unresolved_def)

lemma InstrumentTrace_fields:
  "g_images (fst (InstrumentTrace X g t)) = g_images g \<and>
   g_useFixedRandomNumber (fst (InstrumentTrace X g t)) = g_useFixedRandomNumber g"
  by (induction t arbitrary: g) (auto split: option.splits)

text \<open>The registered calls depend on the globals only through the image list and the
  RDRAND switch.\<close>

lemma InstrumentTrace_snd_cong:
  "g_images g' = g_images g \<Longrightarrow> g_useFixedRandomNumber g' = g_useFixedRandomNumber g \<Longrightarrow>
   snd (InstrumentTrace X g' t) = snd (InstrumentTrace X g t)"
proof (induction t arbitrary: g g')
  case Nil
  then show ?case by simp
next
  case (Cons bbl rest)
  show ?case
  proof (cases "find_image (g_images g) bbl")
    case None
    have "snd (InstrumentTrace X (log_unresolved bbl g') rest) =
          snd (InstrumentTrace X (log_unresolved bbl g) rest)"
      by (rule Cons.IH) (simp_all add: Cons.prems)
    with None Cons.prems show ?thesis by simp
  next
    case (Some img)
    have "snd (InstrumentTrace X g' rest) = snd (InstrumentTrace X g rest)"
      by (rule Cons.IH) (simp_all add: Cons.prems)
    with Some Cons.prems show ?thesis
      by (simp add: InstrumentBblIns_cong [of g' g])
  qed
qed

lemma InstrumentTrace_append:
  "InstrumentTrace X g (pre @ post) =
     (fst (InstrumentTrace X (fst (InstrumentTrace X g pre)) post),
      snd (InstrumentTrace X g pre) @ snd (InstrumentTrace X g post))"
proof (induction pre arbitrary: g)
  case Nil
  then show ?case by simp
next
  case (Cons bbl rest)
  show ?case
  proof (cases "find_image (g_images g) bbl")
    case None
    have "snd (InstrumentTrace X (log_unresolved bbl g) post) = snd (InstrumentTrace X g post)"
      by (rule InstrumentTrace_snd_cong) simp_all
    with None Cons.IH [of "log_unresolved bbl g"] show ?thesis by simp
  next
    case (Some img)
    with Cons.IH [of g] show ?thesis by simp
  qed
qed

lemma find_image_None:
  "find_image imgs bbl = None \<longleftrightarrow> (\<forall>i\<in>set imgs. \<not> ContainsBasicBlock i bbl)"
  by (induction imgs) auto

text \<open>Every registered call stems from the walk over an attributed block.\<close>

lemma InstrumentTrace_mem:
  "(ins, p) \<in> set (snd (InstrumentTrace X g t)) \<Longrightarrow>
   \<exists>bbl img. bbl \<in> set t \<and> find_image (g_images g) bbl = Some img \<and> ins \<in> set (BBL_Ins bbl) \<and>
     p \<in> set (InstrumentIns X g (IsInteresting img) ins)"
proof (induction t arbitrary: g)
  case Nil
  then show ?case by simp
next
  case (Cons bbl rest)
  show ?case
  proof (cases "find_image (g_images g) bbl")
    case None
    with Cons.prems have "(ins, p) \<in> set (snd (InstrumentTrace X (log_unresolved bbl g) rest))"
      by simp
    from Cons.IH [OF this] show ?thesis
      by (auto simp: InstrumentIns_cong [of "log_unresolved bbl g" g])
  next
    case (Some img)
    with Cons.prems have
      "(ins, p) \<in> set (InstrumentBblIns X g (IsInteresting img) (BBL_Ins bbl)) \<or>
       (ins, p) \<in> set (snd (InstrumentTrace X g rest))"
      by auto
    then show ?thesis
    proof
      assume "(ins, p) \<in> set (InstrumentBblIns X g (IsInteresting img) (BBL_Ins bbl))"
      with Some show ?thesis by (auto simp: InstrumentBblIns_def)
    next
      assume "(ins, p) \<in> set (snd (InstrumentTrace X g rest))"
      from Cons.IH [OF this] show ?thesis by auto
    qed
  qed
qed

lemma InstrumentBblIns_sublist:
  assumes "ins \<in> set inss"
  shows "sublist (map (Pair ins) (InstrumentIns X g b ins)) (InstrumentBblIns X g b inss)"
proof -
  from assms obtain l r where "inss = l @ ins # r" by (auto simp: in_set_conv_decomp)
  then show ?thesis by (auto simp: InstrumentBblIns_def sublist_def)
qed

text \<open>The calls planned for an instruction of an attributed block are registered on it,
  consecutively and in order.\<close>

lemma InstrumentTrace_sublist:
  assumes b: "bbl \<in> set t" and f: "find_image (g_images g) bbl = Some img"
    and i: "ins \<in> set (BBL_Ins bbl)"
  shows "sublist (map (Pair ins) (InstrumentIns X g (IsInteresting img) ins))
           (snd (InstrumentTrace X g t))"
proof -
  from b obtain l r where t: "t = l @ bbl # r" by (auto simp: in_set_conv_decomp)
  have "snd (InstrumentTrace X g (bbl # r)) =
        InstrumentBblIns X g (IsInteresting img) (BBL_Ins bbl) @ snd (InstrumentTrace X g r)"
    using f by simp
  then have "snd (InstrumentTrace X g t) =
     snd (InstrumentTrace X g l) @ InstrumentBblIns X g (IsInteresting img) (BBL_Ins bbl) @
     snd (InstrumentTrace X g r)"
    by (simp add: t InstrumentTrace_append del: InstrumentTrace.simps)
  moreover from InstrumentBblIns_sublist [OF i, of X g "IsInteresting img"]
  obtain ps ss where "InstrumentBblIns X g (IsInteresting img) (BBL_Ins bbl) =
      ps @ map (Pair ins) (InstrumentIns X g (IsInteresting img) ins) @ ss"
    by (auto simp: sublist_def)
  ultimately show ?thesis
    unfolding sublist_def
    by (metis append.assoc)
qed

lemma sample_images [simp]:
  "find_image (g_images globals_sample) \<lparr>BBL_Address = 4096, BBL_Ins = inss\<rparr> = Some image_a"
  "find_image (g_images globals_sample) \<lparr>BBL_Address = 16384, BBL_Ins = inss\<rparr> = Some image_b"
  "find_image (g_images globals_sample) \<lparr>BBL_Address = 12288, BBL_Ins = inss\<rparr> = None"
  "IsInteresting image_a" "\<not> IsInteresting image_b"
  "g_useFixedRandomNumber globals_sample = False"
  by (simp_all add: globals_sample_def initial_globals_def image_a_def image_b_def
        ContainsBasicBlock_def IsInteresting_def)


section \<open>Properties of probe execution\<close>

lemma then_emitted_Nil [simp]: "then_emitted [] r = r"
  by (simp add: then_emitted_def split: sum.splits)

lemma then_emitted_Inr [simp]: "then_emitted out (Inr (m, out')) = Inr (m, out @ out')"
  by (simp add: then_emitted_def)

lemma then_emitted_Inl [simp]: "then_emitted out (Inl e) = Inl e"
  by (simp add: then_emitted_def)

lemma exec_guard:
  "exec_call K C rt F_CheckNextTraceEntryPointerValid [IARG_REG_VALUE nextBufferEntryReg] m =
     Inr (V_num (m_next m), m, [])"
  by (simp add: exec_call_def call_afun_def write_return_def CheckNextTraceEntryPointerValid_def)

lemma exec_full:
  "exec_call K C rt F_CheckBufferFull
     [IARG_REG_VALUE nextBufferEntryReg, IARG_REG_VALUE entryBufferEndReg] m =
     Inr (V_bool (CheckBufferFull K (m_next m) (m_end m)), m, [])"
  by (simp add: exec_call_def call_afun_def write_return_def)

lemma exec_store:
  "exec_call K C rt F_CheckBufferAndStore
     [IARG_REG_VALUE nextBufferEntryReg, IARG_REG_VALUE entryBufferEndReg,
      IARG_THREAD_ID, IARG_RETURN_REGS nextBufferEntryReg] m =
     (case CheckBufferAndStore K (m_next m) (m_end m) (m_tid m) (m_globals m) of
        Inl e \<Rightarrow> Inl e
      | Inr (p, g') \<Rightarrow> Inr (V_ptr p, m\<lparr>m_globals := g', m_next := p\<rparr>, []))"
  by (simp add: exec_call_def call_afun_def write_return_def flush_result_def split: sum.splits)

lemma writes_entry_call:
  "writes_entry K C rt F_InsertBranchEntry
     [IARG_REG_VALUE nextBufferEntryReg, IARG_INST_PTR, IARG_BRANCH_TARGET_ADDR,
      IARG_BOOL True, IARG_UINT32 1, IARG_RETURN_REGS nextBufferEntryReg]
     (Branch (rt_inst_ptr rt) (rt_branch_target rt) True True)"
  by (simp add: writes_entry_def exec_call_def call_afun_def write_return_def insert_probe_def
        split: sum.splits)

lemma writes_entry_branch:
  "writes_entry K C rt F_InsertBranchEntry
     [IARG_REG_VALUE nextBufferEntryReg, IARG_INST_PTR, IARG_BRANCH_TARGET_ADDR,
      IARG_BRANCH_TAKEN, IARG_UINT32 0, IARG_RETURN_REGS nextBufferEntryReg]
     (Branch (rt_inst_ptr rt) (rt_branch_target rt) (rt_branch_taken rt) False)"
  by (simp add: writes_entry_def exec_call_def call_afun_def write_return_def insert_probe_def
        split: sum.splits)

lemma writes_entry_ret:
  "writes_entry K C rt F_InsertRetBranchEntry
     [IARG_REG_VALUE nextBufferEntryReg, IARG_INST_PTR, IARG_CONTEXT,
      IARG_RETURN_REGS nextBufferEntryReg]
     (Ret (rt_inst_ptr rt) (rt_context_ip rt))"
  by (simp add: writes_entry_def exec_call_def call_afun_def write_return_def insert_probe_def
        split: sum.splits)

lemma writes_entry_memread:
  "writes_entry K C rt F_InsertMemoryReadEntry
     [IARG_REG_VALUE nextBufferEntryReg, IARG_INST_PTR, IARG_MEMORYREAD_EA,
      IARG_RETURN_REGS nextBufferEntryReg]
     (MemoryRead (rt_inst_ptr rt) (rt_memoryread_ea rt))"
  by (simp add: writes_entry_def exec_call_def call_afun_def write_return_def insert_probe_def
        split: sum.splits)

lemma writes_entry_memread2:
  "writes_entry K C rt F_InsertMemoryReadEntry
     [IARG_REG_VALUE nextBufferEntryReg, IARG_INST_PTR, IARG_MEMORYREAD2_EA,
      IARG_RETURN_REGS nextBufferEntryReg]
     (MemoryRead (rt_inst_ptr rt) (rt_memoryread2_ea rt))"
  by (simp add: writes_entry_def exec_call_def call_afun_def write_return_def insert_probe_def
        split: sum.splits)

lemma writes_entry_memwrite:
  "writes_entry K C rt F_InsertMemoryWriteEntry
     [IARG_REG_VALUE nextBufferEntryReg, IARG_INST_PTR, IARG_MEMORYWRITE_EA,
      IARG_RETURN_REGS nextBufferEntryReg]
     (MemoryWrite (rt_inst_ptr rt) (rt_memorywrite_ea rt))"
  by (simp add: writes_entry_def exec_call_def call_afun_def write_return_def insert_probe_def
        split: sum.splits)

text \<open>On a thread whose \<open>next\<close> is null, a guarded entry probe with its flush check does
  nothing.\<close>

lemma block_null:
  assumes "m_next m = NULL"
  shows "run_calls K C rt
           (INS_InsertIfCall p F_CheckNextTraceEntryPointerValid [IARG_REG_VALUE nextBufferEntryReg] #
            INS_InsertThenCall p f args #
            INS_InsertIfCall p F_CheckBufferFull
              [IARG_REG_VALUE nextBufferEntryReg, IARG_REG_VALUE entryBufferEndReg] #
            INS_InsertThenCall p F_CheckBufferAndStore
              [IARG_REG_VALUE nextBufferEntryReg, IARG_REG_VALUE entryBufferEndReg,
               IARG_THREAD_ID, IARG_RETURN_REGS nextBufferEntryReg] # rest) m =
         run_calls K C rt rest m"
proof -
  have n: "m_next m = 0" using assms by (simp add: NULL_def)
  have s: "CheckBufferAndStore K 0 (m_end m) (m_tid m) (m_globals m) = Inr (0, m_globals m)"
    by (simp add: CheckBufferAndStore_def NULL_def)
  have e: "m\<lparr>m_next := 0\<rparr> = m" using n by simp
  show ?thesis
    by (simp add: exec_guard exec_full exec_store n s e)
qed

lemma traced_store:
  assumes "traced m w" and "InsertEntry (m_globals m) (m_next m) e = Inr (p, g1)"
  shows "p = Suc (m_next m) \<and>
         (\<exists>w1. g_threadData g1 0 = Some w1 \<and> Begin w1 = Begin w \<and> End w1 = End w \<and>
            tw_file w1 = tw_file w \<and> tw_disk w1 = tw_disk w)"
  using assms
  by (auto simp: traced_def InsertEntry_def Begin_def End_def split: if_splits)

lemma traced_insert_ok:
  assumes "traced m w"
  shows "\<exists>g1. InsertEntry (m_globals m) (m_next m) e = Inr (Suc (m_next m), g1)"
  using assms by (simp add: traced_def InsertEntry_def)

lemma WriteBufferToFile_End:
  "\<exists>w'. WriteBufferToFile w (End w) = Inr w' \<and> Begin w' = Begin w \<and> End w' = End w"
  by (cases "tw_file w") (simp_all add: WriteBufferToFile_def Begin_def End_def)

text \<open>On the traced thread, a guarded entry probe with its flush check emits its entry
  and leaves the thread traced: \<open>next\<close> is again inside the buffer.\<close>

lemma block_traced:
  assumes ins: "writes_entry K C rt f args e"
    and tr: "traced m w"
  shows "\<exists>m' w'. traced m' w' \<and> m_regs m' = m_regs m \<and>
           (\<forall>rest. run_calls K C rt
             (INS_InsertIfCall p F_CheckNextTraceEntryPointerValid [IARG_REG_VALUE nextBufferEntryReg] #
              INS_InsertThenCall p f args #
              INS_InsertIfCall p F_CheckBufferFull
                [IARG_REG_VALUE nextBufferEntryReg, IARG_REG_VALUE entryBufferEndReg] #
              INS_InsertThenCall p F_CheckBufferAndStore
                [IARG_REG_VALUE nextBufferEntryReg, IARG_REG_VALUE entryBufferEndReg,
                 IARG_THREAD_ID, IARG_RETURN_REGS nextBufferEntryReg] # rest) m =
             then_emitted [e] (run_calls K C rt rest m'))"
proof -
  from traced_insert_ok [OF tr] obtain g1 where
    i: "InsertEntry (m_globals m) (m_next m) e = Inr (Suc (m_next m), g1)" by blast
  from traced_store [OF tr i] obtain w1 where
    w1: "g_threadData g1 0 = Some w1" "Begin w1 = Begin w" "End w1 = End w" by blast
  let ?m1 = "m\<lparr>m_globals := g1, m_next := Suc (m_next m)\<rparr>"
  have nz: "m_next m \<noteq> 0" using tr by (auto simp: traced_def NULL_def)
  have x: "exec_call K C rt f args m = Inr (V_ptr (Suc (m_next m)), ?m1, [e])"
    using ins i by (simp add: writes_entry_def)
  show ?thesis
  proof (cases "CheckBufferFull K (Suc (m_next m)) (m_end m)")
    case False
    then have lt: "Suc (m_next m) < End w" using tr
      by (auto simp: CheckBufferFull_def traced_def)
    have t1: "traced ?m1 w1" using tr w1 lt by (simp add: traced_def)
    have "\<forall>rest. run_calls K C rt
             (INS_InsertIfCall p F_CheckNextTraceEntryPointerValid [IARG_REG_VALUE nextBufferEntryReg] #
              INS_InsertThenCall p f args #
              INS_InsertIfCall p F_CheckBufferFull
                [IARG_REG_VALUE nextBufferEntryReg, IARG_REG_VALUE entryBufferEndReg] #
              INS_InsertThenCall p F_CheckBufferAndStore
                [IARG_REG_VALUE nextBufferEntryReg, IARG_REG_VALUE entryBufferEndReg,
                 IARG_THREAD_ID, IARG_RETURN_REGS nextBufferEntryReg] # rest) m =
             then_emitted [e] (run_calls K C rt rest ?m1)"
      using False nz by (simp add: exec_guard exec_full x)
    with t1 show ?thesis by (intro exI [of _ ?m1] exI [of _ w1]) simp
  next
    case True
    from WriteBufferToFile_End [of w1] obtain w2 where
      w2: "WriteBufferToFile w1 (End w1) = Inr w2" "Begin w2 = Begin w1" "End w2 = End w1"
      by blast
    let ?g2 = "g1\<lparr>g_threadData := (g_threadData g1)(0 := Some w2)\<rparr>"
    let ?m2 = "m\<lparr>m_globals := ?g2, m_next := Begin w2\<rparr>"
    have e0: "m_end m = End w1" "m_tid m = 0" "End w1 \<noteq> 0" using tr w1
      by (auto simp: traced_def)
    have st: "CheckBufferAndStore K (Suc (m_next m)) (m_end m) (m_tid m) g1 = Inr (Begin w2, ?g2)"
      using True e0 w1 w2 by (simp add: CheckBufferAndStore_def NULL_def)
    have t2: "traced ?m2 w2" using tr w1 w2 by (auto simp: traced_def)
    have "\<forall>rest. run_calls K C rt
             (INS_InsertIfCall p F_CheckNextTraceEntryPointerValid [IARG_REG_VALUE nextBufferEntryReg] #
              INS_InsertThenCall p f args #
              INS_InsertIfCall p F_CheckBufferFull
                [IARG_REG_VALUE nextBufferEntryReg, IARG_REG_VALUE entryBufferEndReg] #
              INS_InsertThenCall p F_CheckBufferAndStore
                [IARG_REG_VALUE nextBufferEntryReg, IARG_REG_VALUE entryBufferEndReg,
                 IARG_THREAD_ID, IARG_RETURN_REGS nextBufferEntryReg] # rest) m =
             then_emitted [e] (run_calls K C rt rest ?m2)"
      using True nz by (simp add: exec_guard exec_full exec_store x st)
    with t2 show ?thesis by (intro exI [of _ ?m2] exI [of _ w2]) simp
  qed
qed


text \<open>Claim C9. An instruction of an attributable basic block that bears a segment
  prefix, or whose opcode lies in [PUSH, PUSHFQ] or in [POP, POPFQ], or that is LEA, gets
  no probe of any kind: the walk registers nothing for it, whatever else the instruction
  is (CPUID, RDRAND, call, branch, ret, memory access) and whether or not the image is
  interesting, because these three filters come first; and no call registered for a
  trace is attached to such an instruction.\<close>

theorem C9_filtered_instruction_gets_no_probe:
  assumes "INS_SegmentPrefix ins \<or>
           (XED_ICLASS_PUSH X \<le> INS_Opcode ins \<and> INS_Opcode ins \<le> XED_ICLASS_PUSHFQ X) \<or>
           (XED_ICLASS_POP X \<le> INS_Opcode ins \<and> INS_Opcode ins \<le> XED_ICLASS_POPFQ X) \<or>
           INS_Opcode ins = XED_ICLASS_LEA X"
  shows "InstrumentIns X g interesting ins = [] \<and>
         (\<forall>p. (ins, p) \<notin> set (snd (InstrumentTrace X g trace)))"
proof -
  have none: "InstrumentIns X g b ins = []" for b
    using assms by (elim disjE) (simp_all add: InstrumentIns_def)
  have "(ins, p) \<notin> set (snd (InstrumentTrace X g trace))" for p
  proof
    assume "(ins, p) \<in> set (snd (InstrumentTrace X g trace))"
    from InstrumentTrace_mem [OF this] obtain img where
      "p \<in> set (InstrumentIns X g (IsInteresting img) ins)" by blast
    then show False by (simp add: none)
  qed
  with none show ?thesis by blast
qed

theorem C9_witness:
  "INS_SegmentPrefix (plain_ins\<lparr>INS_SegmentPrefix := True, INS_IsCall := True,
       INS_IsMemoryRead := True, INS_IsStandardMemop := True\<rparr>) \<and>
   InstrumentIns xed_sample globals_sample True
     (plain_ins\<lparr>INS_SegmentPrefix := True, INS_IsCall := True,
        INS_IsMemoryRead := True, INS_IsStandardMemop := True\<rparr>) = [] \<and>
   (\<forall>p. (plain_ins\<lparr>INS_SegmentPrefix := True, INS_IsCall := True,
            INS_IsMemoryRead := True, INS_IsStandardMemop := True\<rparr>, p)
        \<notin> set (snd (InstrumentTrace xed_sample globals_sample
             [\<lparr>BBL_Address = 4096,
               BBL_Ins = [plain_ins\<lparr>INS_SegmentPrefix := True, INS_IsCall := True,
                  INS_IsMemoryRead := True, INS_IsStandardMemop := True\<rparr>]\<rparr>])))"
proof -
  have h: "INS_SegmentPrefix (plain_ins\<lparr>INS_SegmentPrefix := True, INS_IsCall := True,
       INS_IsMemoryRead := True, INS_IsStandardMemop := True\<rparr>)"
    by simp
  from h C9_filtered_instruction_gets_no_probe
         [of "plain_ins\<lparr>INS_SegmentPrefix := True, INS_IsCall := True,
                INS_IsMemoryRead := True, INS_IsStandardMemop := True\<rparr>"
             xed_sample globals_sample True
             "[\<lparr>BBL_Address = 4096,
               BBL_Ins = [plain_ins\<lparr>INS_SegmentPrefix := True, INS_IsCall := True,
                  INS_IsMemoryRead := True, INS_IsStandardMemop := True\<rparr>]\<rparr>]"]
  show ?thesis by blast
qed


lemma show_nat_16_12288: "show_nat 16 12288 = ''3000''"
  by (simp add: show_nat.simps digit_char_def)


text \<open>Claim C8. For a basic block whose address lies in no registered image's
  \<open>[low, high]\<close> range, the planner writes one error line to \<open>cerr\<close> and goes on with
  the next block: the calls registered for a trace are those registered for the trace
  without that block (so none stems from the block, and the later blocks are instrumented
  as usual), and \<open>cerr\<close> receives the line after the output of the earlier blocks.\<close>

theorem C8_unattributable_block_is_skipped:
  assumes "\<forall>i\<in>set (g_images g). \<not> (img_low i \<le> BBL_Address bbl \<and> BBL_Address bbl \<le> img_high i)"
  shows "InstrumentTrace X g (bbl # rest) = InstrumentTrace X (log_unresolved bbl g) rest \<and>
         os_chars (g_cerr (log_unresolved bbl g)) =
           os_chars (g_cerr g) @ ''Error: Cannot resolve image of basic block '' @
           show_nat 16 (BBL_Address bbl) @ [CHR 0x0A] \<and>
         snd (InstrumentTrace X g (pre @ bbl # rest)) = snd (InstrumentTrace X g (pre @ rest)) \<and>
         fst (InstrumentTrace X g (pre @ bbl # rest)) =
           fst (InstrumentTrace X (log_unresolved bbl (fst (InstrumentTrace X g pre))) rest)"
proof -
  have none: "find_image (g_images g) bbl = None"
    using assms by (simp add: find_image_None ContainsBasicBlock_def)
  have step: "InstrumentTrace X g (bbl # rest) = InstrumentTrace X (log_unresolved bbl g) rest"
    using none by simp
  have line: "os_chars (g_cerr (log_unresolved bbl g)) =
           os_chars (g_cerr g) @ ''Error: Cannot resolve image of basic block '' @
           show_nat 16 (BBL_Address bbl) @ [CHR 0x0A]"
    by (simp add: log_unresolved_def endl_def put_num_def set_hex_def put_str_def)
  have "snd (InstrumentTrace X (log_unresolved bbl g) rest) = snd (InstrumentTrace X g rest)"
    by (rule InstrumentTrace_snd_cong) simp_all
  then have calls: "snd (InstrumentTrace X g (pre @ bbl # rest)) = snd (InstrumentTrace X g (pre @ rest))"
    using step by (simp add: InstrumentTrace_append del: InstrumentTrace.simps)
  have "find_image (g_images (fst (InstrumentTrace X g pre))) bbl = None"
    using none by (simp add: InstrumentTrace_fields)
  then have "InstrumentTrace X (fst (InstrumentTrace X g pre)) (bbl # rest) =
        InstrumentTrace X (log_unresolved bbl (fst (InstrumentTrace X g pre))) rest"
    by simp
  then have log: "fst (InstrumentTrace X g (pre @ bbl # rest)) =
           fst (InstrumentTrace X (log_unresolved bbl (fst (InstrumentTrace X g pre))) rest)"
    by (simp add: InstrumentTrace_append del: InstrumentTrace.simps)
  from step line calls log show ?thesis by blast
qed

theorem C8_witness:
  "find_image (g_images globals_sample)
     \<lparr>BBL_Address = 12288, BBL_Ins = [plain_ins\<lparr>INS_IsCall := True\<rparr>]\<rparr> = None \<and>
   snd (InstrumentTrace xed_sample globals_sample
     [\<lparr>BBL_Address = 4096, BBL_Ins = [plain_ins\<lparr>INS_IsCall := True\<rparr>]\<rparr>,
      \<lparr>BBL_Address = 12288, BBL_Ins = [plain_ins\<lparr>INS_IsCall := True\<rparr>]\<rparr>,
      \<lparr>BBL_Address = 16384, BBL_Ins = [plain_ins\<lparr>INS_IsBranch := True\<rparr>]\<rparr>]) =
   snd (InstrumentTrace xed_sample globals_sample
     [\<lparr>BBL_Address = 4096, BBL_Ins = [plain_ins\<lparr>INS_IsCall := True\<rparr>]\<rparr>,
      \<lparr>BBL_Address = 16384, BBL_Ins = [plain_ins\<lparr>INS_IsBranch := True\<rparr>]\<rparr>]) \<and>
   os_chars (g_cerr (fst (InstrumentTrace xed_sample globals_sample
     [\<lparr>BBL_Address = 4096, BBL_Ins = [plain_ins\<lparr>INS_IsCall := True\<rparr>]\<rparr>,
      \<lparr>BBL_Address = 12288, BBL_Ins = [plain_ins\<lparr>INS_IsCall := True\<rparr>]\<rparr>,
      \<lparr>BBL_Address = 16384, BBL_Ins = [plain_ins\<lparr>INS_IsBranch := True\<rparr>]\<rparr>]))) =
   ''Error: Cannot resolve image of basic block 3000'' @ [CHR 0x0A]"
proof -
  have h: "\<forall>i\<in>set (g_images globals_sample).
      \<not> (img_low i \<le> BBL_Address \<lparr>BBL_Address = 12288, BBL_Ins = [plain_ins\<lparr>INS_IsCall := True\<rparr>]\<rparr> \<and>
         BBL_Address \<lparr>BBL_Address = 12288, BBL_Ins = [plain_ins\<lparr>INS_IsCall := True\<rparr>]\<rparr> \<le> img_high i)"
    by (simp add: globals_sample_def image_a_def image_b_def)
  have c: "os_chars (g_cerr globals_sample) = []"
    by (simp add: globals_sample_def initial_globals_def)
  from C8_unattributable_block_is_skipped
         [OF h, of xed_sample
            "[\<lparr>BBL_Address = 16384, BBL_Ins = [plain_ins\<lparr>INS_IsBranch := True\<rparr>]\<rparr>]"
            "[\<lparr>BBL_Address = 4096, BBL_Ins = [plain_ins\<lparr>INS_IsCall := True\<rparr>]\<rparr>]"]
  show ?thesis
    by (simp add: c show_nat_16_12288 log_unresolved_def endl_def put_num_def set_hex_def
          put_str_def)
qed


lemma reach_facts:
  assumes "\<not> skipped X ins" "\<not> overridden X g ins"
  shows "\<not> INS_SegmentPrefix ins"
    "\<not> (XED_ICLASS_PUSH X \<le> INS_Opcode ins \<and> INS_Opcode ins \<le> XED_ICLASS_PUSHFQ X)"
    "\<not> (XED_ICLASS_POP X \<le> INS_Opcode ins \<and> INS_Opcode ins \<le> XED_ICLASS_POPFQ X)"
    "INS_Opcode ins \<noteq> XED_ICLASS_LEA X" "INS_Opcode ins \<noteq> XED_ICLASS_CPUID X"
    "\<not> (INS_Opcode ins = XED_ICLASS_RDRAND X \<and> g_useFixedRandomNumber g)"
  using assms by (simp_all add: skipped_def overridden_def)

text \<open>What the walk registers for an instruction that passes steps 1 to 5.\<close>

lemma InstrumentIns_reached:
  assumes "\<not> skipped X ins" "\<not> overridden X g ins"
  shows "InstrumentIns X g b ins =
    (if INS_IsCall ins then call_probes
     else if INS_IsBranch ins then branch_probes
     else (if INS_IsRet ins then ret_probes else []) @
          (if b then
             (if INS_IsMemoryRead ins \<and> INS_IsStandardMemop ins then memread_probes else []) @
             (if INS_HasMemoryRead2 ins \<and> INS_IsStandardMemop ins then memread2_probes else []) @
             (if INS_IsMemoryWrite ins \<and> INS_IsStandardMemop ins then memwrite_probes else [])
           else []))"
  by (simp add: InstrumentIns_def reach_facts [OF assms])

lemma sublist_map_prefix:
  "sublist (map f (xs @ ys)) zs \<Longrightarrow> sublist (map f xs) zs"
proof -
  assume "sublist (map f (xs @ ys)) zs"
  then obtain ps ss where "zs = ps @ map f (xs @ ys) @ ss" by (auto simp: sublist_def)
  then have "zs = ps @ map f xs @ (map f ys @ ss)" by simp
  then show ?thesis unfolding sublist_def by blast
qed

lemma run_block_traced:
  assumes "writes_entry K C rt f args e" and "traced m w"
  shows "\<exists>m' w'. traced m' w' \<and> m_regs m' = m_regs m \<and>
           run_calls K C rt
             [INS_InsertIfCall p F_CheckNextTraceEntryPointerValid [IARG_REG_VALUE nextBufferEntryReg],
              INS_InsertThenCall p f args,
              INS_InsertIfCall p F_CheckBufferFull
                [IARG_REG_VALUE nextBufferEntryReg, IARG_REG_VALUE entryBufferEndReg],
              INS_InsertThenCall p F_CheckBufferAndStore
                [IARG_REG_VALUE nextBufferEntryReg, IARG_REG_VALUE entryBufferEndReg,
                 IARG_THREAD_ID, IARG_RETURN_REGS nextBufferEntryReg]] m = Inr (m', [e])"
proof -
  from block_traced [OF assms, of p] obtain m' w' where
    t: "traced m' w'" "m_regs m' = m_regs m" and
    r: "\<forall>rest. run_calls K C rt
             (INS_InsertIfCall p F_CheckNextTraceEntryPointerValid [IARG_REG_VALUE nextBufferEntryReg] #
              INS_InsertThenCall p f args #
              INS_InsertIfCall p F_CheckBufferFull
                [IARG_REG_VALUE nextBufferEntryReg, IARG_REG_VALUE entryBufferEndReg] #
              INS_InsertThenCall p F_CheckBufferAndStore
                [IARG_REG_VALUE nextBufferEntryReg, IARG_REG_VALUE entryBufferEndReg,
                 IARG_THREAD_ID, IARG_RETURN_REGS nextBufferEntryReg] # rest) m =
             then_emitted [e] (run_calls K C rt rest m')"
    by blast
  from r [rule_format, of "[]"] t show ?thesis by auto
qed

lemma traced_regs [simp]: "traced (m\<lparr>m_regs := r\<rparr>) w = traced m w"
  by (simp add: traced_def)


text \<open>Claim C3. A call instruction that passes steps 1 to 5, in a block of any
  attributable image (interesting or not), gets a Branch-entry probe at
  \<open>IPOINT_BEFORE\<close> that is passed the host's branch target, taken = true and
  isCall = 1, followed by the flush check; a non-call branch instruction gets the same
  with the host's branch-taken value and isCall = 0. The four calls are registered on
  the instruction in this order, and on the traced thread they emit exactly one Branch
  entry with these values.\<close>

theorem C3_call_and_branch_probes:
  assumes reach: "\<not> skipped X ins" "\<not> overridden X g ins"
    and cb: "INS_IsCall ins \<or> INS_IsBranch ins"
    and bbl: "bbl \<in> set trace" "find_image (g_images g) bbl = Some img" "ins \<in> set (BBL_Ins bbl)"
    and tr: "traced m w"
  shows "InstrumentIns X g (IsInteresting img) ins =
           [INS_InsertIfCall IPOINT_BEFORE F_CheckNextTraceEntryPointerValid
              [IARG_REG_VALUE nextBufferEntryReg],
            INS_InsertThenCall IPOINT_BEFORE F_InsertBranchEntry
              [IARG_REG_VALUE nextBufferEntryReg, IARG_INST_PTR, IARG_BRANCH_TARGET_ADDR,
               (if INS_IsCall ins then IARG_BOOL True else IARG_BRANCH_TAKEN),
               IARG_UINT32 (if INS_IsCall ins then 1 else 0),
               IARG_RETURN_REGS nextBufferEntryReg],
            INS_InsertIfCall IPOINT_BEFORE F_CheckBufferFull
              [IARG_REG_VALUE nextBufferEntryReg, IARG_REG_VALUE entryBufferEndReg],
            INS_InsertThenCall IPOINT_BEFORE F_CheckBufferAndStore
              [IARG_REG_VALUE nextBufferEntryReg, IARG_REG_VALUE entryBufferEndReg,
               IARG_THREAD_ID, IARG_RETURN_REGS nextBufferEntryReg]] \<and>
         sublist (map (Pair ins) (InstrumentIns X g (IsInteresting img) ins))
           (snd (InstrumentTrace X g trace)) \<and>
         (\<exists>m' w'. exec_ins K C rt eff (InstrumentIns X g (IsInteresting img) ins) m =
             Inr (m', [Branch (rt_inst_ptr rt) (rt_branch_target rt)
                        (if INS_IsCall ins then True else rt_branch_taken rt)
                        (INS_IsCall ins)]) \<and>
            traced m' w')"
proof -
  have plan: "InstrumentIns X g b ins = (if INS_IsCall ins then call_probes else branch_probes)" for b
    using cb by (auto simp: InstrumentIns_reached [OF reach])
  have sub: "sublist (map (Pair ins) (InstrumentIns X g (IsInteresting img) ins))
           (snd (InstrumentTrace X g trace))"
    by (rule InstrumentTrace_sublist [OF bbl])
  show ?thesis
  proof (cases "INS_IsCall ins")
    case True
    from run_block_traced [OF writes_entry_call tr, of K C rt IPOINT_BEFORE]
    obtain m' w' where t: "traced m' w'" and
      x: "run_calls K C rt call_probes m =
            Inr (m', [Branch (rt_inst_ptr rt) (rt_branch_target rt) True True])"
      by (auto simp: call_probes_def)
    have "exec_ins K C rt eff call_probes m =
            Inr (m'\<lparr>m_regs := eff (m_regs m')\<rparr>,
                 [Branch (rt_inst_ptr rt) (rt_branch_target rt) True True])"
      using x by (simp add: exec_ins_def) (simp add: call_probes_def)
    with t True plan sub show ?thesis
      by (auto simp: call_probes_def intro!: exI [of _ "m'\<lparr>m_regs := eff (m_regs m')\<rparr>"] exI [of _ w'])
  next
    case False
    from run_block_traced [OF writes_entry_branch tr, of K C rt IPOINT_BEFORE]
    obtain m' w' where t: "traced m' w'" and
      x: "run_calls K C rt branch_probes m =
            Inr (m', [Branch (rt_inst_ptr rt) (rt_branch_target rt) (rt_branch_taken rt) False])"
      by (auto simp: branch_probes_def)
    have "exec_ins K C rt eff branch_probes m =
            Inr (m'\<lparr>m_regs := eff (m_regs m')\<rparr>,
                 [Branch (rt_inst_ptr rt) (rt_branch_target rt) (rt_branch_taken rt) False])"
      using x by (simp add: exec_ins_def) (simp add: branch_probes_def)
    with t False plan sub show ?thesis
      by (auto simp: branch_probes_def intro!: exI [of _ "m'\<lparr>m_regs := eff (m_regs m')\<rparr>"] exI [of _ w'])
  qed
qed

theorem C3_witness:
  "\<not> skipped xed_sample (plain_ins\<lparr>INS_IsCall := True\<rparr>) \<and>
   \<not> overridden xed_sample globals_sample (plain_ins\<lparr>INS_IsCall := True\<rparr>) \<and>
   traced machine_sample writer_sample \<and>
   InstrumentIns xed_sample globals_sample (IsInteresting image_b) (plain_ins\<lparr>INS_IsCall := True\<rparr>) =
     [INS_InsertIfCall IPOINT_BEFORE F_CheckNextTraceEntryPointerValid
        [IARG_REG_VALUE nextBufferEntryReg],
      INS_InsertThenCall IPOINT_BEFORE F_InsertBranchEntry
        [IARG_REG_VALUE nextBufferEntryReg, IARG_INST_PTR, IARG_BRANCH_TARGET_ADDR,
         IARG_BOOL True, IARG_UINT32 1, IARG_RETURN_REGS nextBufferEntryReg],
      INS_InsertIfCall IPOINT_BEFORE F_CheckBufferFull
        [IARG_REG_VALUE nextBufferEntryReg, IARG_REG_VALUE entryBufferEndReg],
      INS_InsertThenCall IPOINT_BEFORE F_CheckBufferAndStore
        [IARG_REG_VALUE nextBufferEntryReg, IARG_REG_VALUE entryBufferEndReg,
         IARG_THREAD_ID, IARG_RETURN_REGS nextBufferEntryReg]] \<and>
   sublist (map (Pair (plain_ins\<lparr>INS_IsCall := True\<rparr>))
              (InstrumentIns xed_sample globals_sample (IsInteresting image_b)
                 (plain_ins\<lparr>INS_IsCall := True\<rparr>)))
     (snd (InstrumentTrace xed_sample globals_sample
        [\<lparr>BBL_Address = 16384, BBL_Ins = [plain_ins\<lparr>INS_IsCall := True\<rparr>]\<rparr>])) \<and>
   (\<exists>m' w'. exec_ins 2 (\<lambda>a c r. r) runtime_sample (\<lambda>r. r)
        (InstrumentIns xed_sample globals_sample (IsInteresting image_b)
           (plain_ins\<lparr>INS_IsCall := True\<rparr>)) machine_sample =
        Inr (m', [Branch 4100 4200 True True]) \<and> traced m' w')"
proof -
  have h1: "\<not> skipped xed_sample (plain_ins\<lparr>INS_IsCall := True\<rparr>)"
    by (simp add: skipped_def xed_sample_def plain_ins_def)
  have h2: "\<not> overridden xed_sample globals_sample (plain_ins\<lparr>INS_IsCall := True\<rparr>)"
    by (simp add: overridden_def xed_sample_def plain_ins_def)
  have h3: "INS_IsCall (plain_ins\<lparr>INS_IsCall := True\<rparr>) \<or>
            INS_IsBranch (plain_ins\<lparr>INS_IsCall := True\<rparr>)"
    by simp
  have h4: "\<lparr>BBL_Address = 16384, BBL_Ins = [plain_ins\<lparr>INS_IsCall := True\<rparr>]\<rparr>
            \<in> set [\<lparr>BBL_Address = 16384, BBL_Ins = [plain_ins\<lparr>INS_IsCall := True\<rparr>]\<rparr>]"
    by simp
  have h5: "find_image (g_images globals_sample)
              \<lparr>BBL_Address = 16384, BBL_Ins = [plain_ins\<lparr>INS_IsCall := True\<rparr>]\<rparr> = Some image_b"
    by simp
  have h6: "plain_ins\<lparr>INS_IsCall := True\<rparr>
            \<in> set (BBL_Ins \<lparr>BBL_Address = 16384, BBL_Ins = [plain_ins\<lparr>INS_IsCall := True\<rparr>]\<rparr>)"
    by simp
  have h7: "traced machine_sample writer_sample"
    by (simp add: traced_def machine_sample_def writer_sample_def Begin_def End_def NULL_def)
  note th = C3_call_and_branch_probes
     [OF h1 h2 h3 h4 h5 h6 h7, of 2 "\<lambda>a c r. r" runtime_sample "\<lambda>r. r"]
  have a: "InstrumentIns xed_sample globals_sample (IsInteresting image_b) (plain_ins\<lparr>INS_IsCall := True\<rparr>) =
     [INS_InsertIfCall IPOINT_BEFORE F_CheckNextTraceEntryPointerValid
        [IARG_REG_VALUE nextBufferEntryReg],
      INS_InsertThenCall IPOINT_BEFORE F_InsertBranchEntry
        [IARG_REG_VALUE nextBufferEntryReg, IARG_INST_PTR, IARG_BRANCH_TARGET_ADDR,
         IARG_BOOL True, IARG_UINT32 1, IARG_RETURN_REGS nextBufferEntryReg],
      INS_InsertIfCall IPOINT_BEFORE F_CheckBufferFull
        [IARG_REG_VALUE nextBufferEntryReg, IARG_REG_VALUE entryBufferEndReg],
      INS_InsertThenCall IPOINT_BEFORE F_CheckBufferAndStore
        [IARG_REG_VALUE nextBufferEntryReg, IARG_REG_VALUE entryBufferEndReg,
         IARG_THREAD_ID, IARG_RETURN_REGS nextBufferEntryReg]]"
    using th [THEN conjunct1] by simp
  note b = th [THEN conjunct2, THEN conjunct1]
  have c: "\<exists>m' w'. exec_ins 2 (\<lambda>a c r. r) runtime_sample (\<lambda>r. r)
        (InstrumentIns xed_sample globals_sample (IsInteresting image_b)
           (plain_ins\<lparr>INS_IsCall := True\<rparr>)) machine_sample =
        Inr (m', [Branch 4100 4200 True True]) \<and> traced m' w'"
    using th [THEN conjunct2, THEN conjunct2] by (simp add: runtime_sample_def)
  from h1 h2 h7 a b c show ?thesis by (intro conjI)
qed


lemma emits_Nil: "emits K C rt [] []"
  by (auto simp: emits_def)

lemma emits_block:
  assumes w: "writes_entry K C rt f args e" and t: "emits K C rt rest out"
  shows "emits K C rt
           (INS_InsertIfCall p F_CheckNextTraceEntryPointerValid [IARG_REG_VALUE nextBufferEntryReg] #
            INS_InsertThenCall p f args #
            INS_InsertIfCall p F_CheckBufferFull
              [IARG_REG_VALUE nextBufferEntryReg, IARG_REG_VALUE entryBufferEndReg] #
            INS_InsertThenCall p F_CheckBufferAndStore
              [IARG_REG_VALUE nextBufferEntryReg, IARG_REG_VALUE entryBufferEndReg,
               IARG_THREAD_ID, IARG_RETURN_REGS nextBufferEntryReg] # rest)
           (e # out)"
  unfolding emits_def
proof (intro allI impI)
  fix m w0
  assume tr: "traced m w0"
  from block_traced [OF w tr, of p] obtain m1 w1 where
    t1: "traced m1 w1" "m_regs m1 = m_regs m" and
    r: "run_calls K C rt
          (INS_InsertIfCall p F_CheckNextTraceEntryPointerValid [IARG_REG_VALUE nextBufferEntryReg] #
           INS_InsertThenCall p f args #
           INS_InsertIfCall p F_CheckBufferFull
             [IARG_REG_VALUE nextBufferEntryReg, IARG_REG_VALUE entryBufferEndReg] #
           INS_InsertThenCall p F_CheckBufferAndStore
             [IARG_REG_VALUE nextBufferEntryReg, IARG_REG_VALUE entryBufferEndReg,
              IARG_THREAD_ID, IARG_RETURN_REGS nextBufferEntryReg] # rest) m =
         then_emitted [e] (run_calls K C rt rest m1)"
    by blast
  from t t1(1) obtain m2 w2 where
    t2: "traced m2 w2" "m_regs m2 = m_regs m1" "run_calls K C rt rest m1 = Inr (m2, out)"
    unfolding emits_def by blast
  show "\<exists>m' w'. traced m' w' \<and> m_regs m' = m_regs m \<and>
          run_calls K C rt
            (INS_InsertIfCall p F_CheckNextTraceEntryPointerValid [IARG_REG_VALUE nextBufferEntryReg] #
             INS_InsertThenCall p f args #
             INS_InsertIfCall p F_CheckBufferFull
               [IARG_REG_VALUE nextBufferEntryReg, IARG_REG_VALUE entryBufferEndReg] #
             INS_InsertThenCall p F_CheckBufferAndStore
               [IARG_REG_VALUE nextBufferEntryReg, IARG_REG_VALUE entryBufferEndReg,
                IARG_THREAD_ID, IARG_RETURN_REGS nextBufferEntryReg] # rest) m = Inr (m', e # out)"
    using r t1 t2 by (intro exI [of _ m2] exI [of _ w2]) simp
qed

lemma emits_memread:
  "emits K C rt rest out \<Longrightarrow>
   emits K C rt (memread_probes @ rest) (MemoryRead (rt_inst_ptr rt) (rt_memoryread_ea rt) # out)"
  unfolding memread_probes_def append_Cons append_Nil
  by (rule emits_block [OF writes_entry_memread])

lemma emits_memread2:
  "emits K C rt rest out \<Longrightarrow>
   emits K C rt (memread2_probes @ rest) (MemoryRead (rt_inst_ptr rt) (rt_memoryread2_ea rt) # out)"
  unfolding memread2_probes_def append_Cons append_Nil
  by (rule emits_block [OF writes_entry_memread2])

lemma emits_memwrite:
  "emits K C rt rest out \<Longrightarrow>
   emits K C rt (memwrite_probes @ rest) (MemoryWrite (rt_inst_ptr rt) (rt_memorywrite_ea rt) # out)"
  unfolding memwrite_probes_def append_Cons append_Nil
  by (rule emits_block [OF writes_entry_memwrite])

lemma emits_ret:
  "emits K C rt ret_probes [Ret (rt_inst_ptr rt) (rt_context_ip rt)]"
  unfolding ret_probes_def
  by (rule emits_block [OF writes_entry_ret emits_Nil])

text \<open>The memory-operand stage on the traced thread: one entry per registered probe, in
  the order read, second read, write.\<close>

lemma emits_memory_stage:
  "emits K C rt
     ((if c1 then memread_probes else []) @ (if c2 then memread2_probes else []) @
      (if c3 then memwrite_probes else []))
     ((if c1 then [MemoryRead (rt_inst_ptr rt) (rt_memoryread_ea rt)] else []) @
      (if c2 then [MemoryRead (rt_inst_ptr rt) (rt_memoryread2_ea rt)] else []) @
      (if c3 then [MemoryWrite (rt_inst_ptr rt) (rt_memorywrite_ea rt)] else []))"
proof -
  have w: "emits K C rt (if c3 then memwrite_probes else [])
             (if c3 then [MemoryWrite (rt_inst_ptr rt) (rt_memorywrite_ea rt)] else [])"
    using emits_memwrite [OF emits_Nil, of K C rt] by (simp add: emits_Nil)
  have r2: "emits K C rt ((if c2 then memread2_probes else []) @ (if c3 then memwrite_probes else []))
             ((if c2 then [MemoryRead (rt_inst_ptr rt) (rt_memoryread2_ea rt)] else []) @
              (if c3 then [MemoryWrite (rt_inst_ptr rt) (rt_memorywrite_ea rt)] else []))"
    using emits_memread2 [OF w] w by (cases c2) simp_all
  show ?thesis
    using emits_memread [OF r2] r2 by (cases c1) simp_all
qed

lemma filter_memory_stage:
  "filter (\<lambda>q. ipoint_of q = IPOINT_BEFORE)
     ((if c1 then memread_probes else []) @ (if c2 then memread2_probes else []) @
      (if c3 then memwrite_probes else [])) =
   (if c1 then memread_probes else []) @ (if c2 then memread2_probes else []) @
      (if c3 then memwrite_probes else [])"
  "filter (\<lambda>q. ipoint_of q = IPOINT_TAKEN_BRANCH)
     ((if c1 then memread_probes else []) @ (if c2 then memread2_probes else []) @
      (if c3 then memwrite_probes else [])) = []"
  "filter (\<lambda>q. ipoint_of q = IPOINT_BEFORE) ret_probes = []"
  "filter (\<lambda>q. ipoint_of q = IPOINT_TAKEN_BRANCH) ret_probes = ret_probes"
  by (simp_all add: memread_probes_def memread2_probes_def memwrite_probes_def ret_probes_def)

text \<open>A ret with its memory-operand stage, executed on the traced thread: the memory
  entries are emitted before the instruction, the Ret entry on the taken edge.\<close>

lemma exec_ret_plan:
  assumes tr: "traced m w" and taken: "rt_branch_taken rt"
  shows "\<exists>m' w'. traced m' w' \<and>
     exec_ins K C rt eff
       (ret_probes @ (if c1 then memread_probes else []) @ (if c2 then memread2_probes else []) @
          (if c3 then memwrite_probes else [])) m =
     Inr (m', (if c1 then [MemoryRead (rt_inst_ptr rt) (rt_memoryread_ea rt)] else []) @
              (if c2 then [MemoryRead (rt_inst_ptr rt) (rt_memoryread2_ea rt)] else []) @
              (if c3 then [MemoryWrite (rt_inst_ptr rt) (rt_memorywrite_ea rt)] else []) @
              [Ret (rt_inst_ptr rt) (rt_context_ip rt)])"
proof -
  let ?M = "(if c1 then memread_probes else []) @ (if c2 then memread2_probes else []) @
      (if c3 then memwrite_probes else [])"
  let ?O = "(if c1 then [MemoryRead (rt_inst_ptr rt) (rt_memoryread_ea rt)] else []) @
      (if c2 then [MemoryRead (rt_inst_ptr rt) (rt_memoryread2_ea rt)] else []) @
      (if c3 then [MemoryWrite (rt_inst_ptr rt) (rt_memorywrite_ea rt)] else [])"
  from emits_memory_stage [of K C rt c1 c2 c3] tr obtain m1 w1 where
    t1: "traced m1 w1" and r1: "run_calls K C rt ?M m = Inr (m1, ?O)"
    unfolding emits_def by blast
  have "traced (m1\<lparr>m_regs := eff (m_regs m1)\<rparr>) w1" using t1 by (simp add: traced_def)
  with emits_ret [of K C rt] obtain m2 w2 where
    t2: "traced m2 w2" and
    r2: "run_calls K C rt ret_probes (m1\<lparr>m_regs := eff (m_regs m1)\<rparr>) =
           Inr (m2, [Ret (rt_inst_ptr rt) (rt_context_ip rt)])"
    unfolding emits_def by blast
  have fB: "filter (\<lambda>q. ipoint_of q = IPOINT_BEFORE) (ret_probes @ ?M) = ?M"
    by (subst filter_append) (simp only: filter_memory_stage append_Nil)
  have fT: "filter (\<lambda>q. ipoint_of q = IPOINT_TAKEN_BRANCH) (ret_probes @ ?M) = ret_probes"
    by (subst filter_append) (simp only: filter_memory_stage append_Nil2)
  have "exec_ins K C rt eff (ret_probes @ ?M) m = Inr (m2, ?O @ [Ret (rt_inst_ptr rt) (rt_context_ip rt)])"
    using taken r1 r2
    by (simp add: exec_ins_def fB fT del: filter_append split del: if_split)
  with t2 show ?thesis by (intro exI [of _ m2] exI [of _ w2]) simp
qed


text \<open>What the walk registers for a ret that reaches the ret case.\<close>

lemma InstrumentIns_ret:
  assumes "\<not> skipped X ins" "\<not> overridden X g ins" "\<not> INS_IsCall ins" "\<not> INS_IsBranch ins"
    "INS_IsRet ins"
  shows "InstrumentIns X g b ins =
    ret_probes @
    (if b \<and> INS_IsMemoryRead ins \<and> INS_IsStandardMemop ins then memread_probes else []) @
    (if b \<and> INS_HasMemoryRead2 ins \<and> INS_IsStandardMemop ins then memread2_probes else []) @
    (if b \<and> INS_IsMemoryWrite ins \<and> INS_IsStandardMemop ins then memwrite_probes else [])"
  using assms(3-5) by (simp add: InstrumentIns_reached [OF assms(1,2)])


text \<open>Claim C4. A ret instruction that reaches the ret case (it passes steps 1 to 5 and
  is neither a call nor a branch for the host), in a block of any attributable image,
  gets as its first four calls the guarded Ret-entry probe and the flush check, all at
  \<open>IPOINT_TAKEN_BRANCH\<close>; the Ret probe is passed the thread context
  (\<open>IARG_CONTEXT\<close>) and no branch-target argument, and it is the only Ret probe of the
  instruction. On the traced thread the instruction emits, after any memory entries, one
  Ret entry whose target is the instruction pointer of that context.\<close>

theorem C4_ret_probe_at_taken_branch:
  assumes reach: "\<not> skipped X ins" "\<not> overridden X g ins"
    and nb: "\<not> INS_IsCall ins" "\<not> INS_IsBranch ins" and ret: "INS_IsRet ins"
    and bbl: "bbl \<in> set trace" "find_image (g_images g) bbl = Some img" "ins \<in> set (BBL_Ins bbl)"
    and tr: "traced m w" and taken: "rt_branch_taken rt"
  shows "take 4 (InstrumentIns X g (IsInteresting img) ins) =
           [INS_InsertIfCall IPOINT_TAKEN_BRANCH F_CheckNextTraceEntryPointerValid
              [IARG_REG_VALUE nextBufferEntryReg],
            INS_InsertThenCall IPOINT_TAKEN_BRANCH F_InsertRetBranchEntry
              [IARG_REG_VALUE nextBufferEntryReg, IARG_INST_PTR, IARG_CONTEXT,
               IARG_RETURN_REGS nextBufferEntryReg],
            INS_InsertIfCall IPOINT_TAKEN_BRANCH F_CheckBufferFull
              [IARG_REG_VALUE nextBufferEntryReg, IARG_REG_VALUE entryBufferEndReg],
            INS_InsertThenCall IPOINT_TAKEN_BRANCH F_CheckBufferAndStore
              [IARG_REG_VALUE nextBufferEntryReg, IARG_REG_VALUE entryBufferEndReg,
               IARG_THREAD_ID, IARG_RETURN_REGS nextBufferEntryReg]] \<and>
         filter (\<lambda>q. afun_of q = F_InsertRetBranchEntry)
             (InstrumentIns X g (IsInteresting img) ins) =
           [INS_InsertThenCall IPOINT_TAKEN_BRANCH F_InsertRetBranchEntry
              [IARG_REG_VALUE nextBufferEntryReg, IARG_INST_PTR, IARG_CONTEXT,
               IARG_RETURN_REGS nextBufferEntryReg]] \<and>
         sublist (map (Pair ins) (take 4 (InstrumentIns X g (IsInteresting img) ins)))
           (snd (InstrumentTrace X g trace)) \<and>
         (\<exists>m' w' before.
            exec_ins K C rt eff (InstrumentIns X g (IsInteresting img) ins) m =
              Inr (m', before @ [Ret (rt_inst_ptr rt) (rt_context_ip rt)]) \<and>
            list_all is_memory_entry before \<and> traced m' w')"
proof -
  let ?b = "IsInteresting img"
  let ?M = "(if ?b \<and> INS_IsMemoryRead ins \<and> INS_IsStandardMemop ins then memread_probes else []) @
    (if ?b \<and> INS_HasMemoryRead2 ins \<and> INS_IsStandardMemop ins then memread2_probes else []) @
    (if ?b \<and> INS_IsMemoryWrite ins \<and> INS_IsStandardMemop ins then memwrite_probes else [])"
  have plan: "InstrumentIns X g ?b ins = ret_probes @ ?M"
    by (rule InstrumentIns_ret [OF reach nb ret])
  have t4: "take 4 (ret_probes @ ?M) = ret_probes"
    by (simp add: ret_probes_def)
  have lit: "ret_probes =
           [INS_InsertIfCall IPOINT_TAKEN_BRANCH F_CheckNextTraceEntryPointerValid
              [IARG_REG_VALUE nextBufferEntryReg],
            INS_InsertThenCall IPOINT_TAKEN_BRANCH F_InsertRetBranchEntry
              [IARG_REG_VALUE nextBufferEntryReg, IARG_INST_PTR, IARG_CONTEXT,
               IARG_RETURN_REGS nextBufferEntryReg],
            INS_InsertIfCall IPOINT_TAKEN_BRANCH F_CheckBufferFull
              [IARG_REG_VALUE nextBufferEntryReg, IARG_REG_VALUE entryBufferEndReg],
            INS_InsertThenCall IPOINT_TAKEN_BRANCH F_CheckBufferAndStore
              [IARG_REG_VALUE nextBufferEntryReg, IARG_REG_VALUE entryBufferEndReg,
               IARG_THREAD_ID, IARG_RETURN_REGS nextBufferEntryReg]]"
    by (simp add: ret_probes_def)
  have fl: "filter (\<lambda>q. afun_of q = F_InsertRetBranchEntry) (ret_probes @ ?M) =
           [INS_InsertThenCall IPOINT_TAKEN_BRANCH F_InsertRetBranchEntry
              [IARG_REG_VALUE nextBufferEntryReg, IARG_INST_PTR, IARG_CONTEXT,
               IARG_RETURN_REGS nextBufferEntryReg]]"
    by (simp add: ret_probes_def memread_probes_def memread2_probes_def memwrite_probes_def)
  have "sublist (map (Pair ins) (ret_probes @ ?M)) (snd (InstrumentTrace X g trace))"
    using InstrumentTrace_sublist [OF bbl, of X] by (simp only: plan)
  then have sub: "sublist (map (Pair ins) ret_probes) (snd (InstrumentTrace X g trace))"
    by (rule sublist_map_prefix)
  from exec_ret_plan [OF tr taken, of K C eff
      "?b \<and> INS_IsMemoryRead ins \<and> INS_IsStandardMemop ins"
      "?b \<and> INS_HasMemoryRead2 ins \<and> INS_IsStandardMemop ins"
      "?b \<and> INS_IsMemoryWrite ins \<and> INS_IsStandardMemop ins"]
  obtain m' w' where t': "traced m' w'" and
    x: "exec_ins K C rt eff (ret_probes @ ?M) m =
     Inr (m', (if ?b \<and> INS_IsMemoryRead ins \<and> INS_IsStandardMemop ins
                 then [MemoryRead (rt_inst_ptr rt) (rt_memoryread_ea rt)] else []) @
              (if ?b \<and> INS_HasMemoryRead2 ins \<and> INS_IsStandardMemop ins
                 then [MemoryRead (rt_inst_ptr rt) (rt_memoryread2_ea rt)] else []) @
              (if ?b \<and> INS_IsMemoryWrite ins \<and> INS_IsStandardMemop ins
                 then [MemoryWrite (rt_inst_ptr rt) (rt_memorywrite_ea rt)] else []) @
              [Ret (rt_inst_ptr rt) (rt_context_ip rt)])"
    by blast
  let ?before = "(if ?b \<and> INS_IsMemoryRead ins \<and> INS_IsStandardMemop ins
                 then [MemoryRead (rt_inst_ptr rt) (rt_memoryread_ea rt)] else []) @
              (if ?b \<and> INS_HasMemoryRead2 ins \<and> INS_IsStandardMemop ins
                 then [MemoryRead (rt_inst_ptr rt) (rt_memoryread2_ea rt)] else []) @
              (if ?b \<and> INS_IsMemoryWrite ins \<and> INS_IsStandardMemop ins
                 then [MemoryWrite (rt_inst_ptr rt) (rt_memorywrite_ea rt)] else [])"
  have la: "list_all is_memory_entry ?before" by simp
  have run: "\<exists>m' w' before.
            exec_ins K C rt eff (ret_probes @ ?M) m =
              Inr (m', before @ [Ret (rt_inst_ptr rt) (rt_context_ip rt)]) \<and>
            list_all is_memory_entry before \<and> traced m' w'"
    using x la t' by (intro exI [of _ m'] exI [of _ w'] exI [of _ ?before]) simp
  show ?thesis
    unfolding plan t4 using lit fl sub run by (intro conjI) simp_all
qed

theorem C4_witness:
  "\<not> skipped xed_sample (plain_ins\<lparr>INS_IsRet := True\<rparr>) \<and>
   \<not> overridden xed_sample globals_sample (plain_ins\<lparr>INS_IsRet := True\<rparr>) \<and>
   traced machine_sample writer_sample \<and> rt_branch_taken runtime_sample \<and>
   take 4 (InstrumentIns xed_sample globals_sample (IsInteresting image_b)
             (plain_ins\<lparr>INS_IsRet := True\<rparr>)) =
     [INS_InsertIfCall IPOINT_TAKEN_BRANCH F_CheckNextTraceEntryPointerValid
        [IARG_REG_VALUE nextBufferEntryReg],
      INS_InsertThenCall IPOINT_TAKEN_BRANCH F_InsertRetBranchEntry
        [IARG_REG_VALUE nextBufferEntryReg, IARG_INST_PTR, IARG_CONTEXT,
         IARG_RETURN_REGS nextBufferEntryReg],
      INS_InsertIfCall IPOINT_TAKEN_BRANCH F_CheckBufferFull
        [IARG_REG_VALUE nextBufferEntryReg, IARG_REG_VALUE entryBufferEndReg],
      INS_InsertThenCall IPOINT_TAKEN_BRANCH F_CheckBufferAndStore
        [IARG_REG_VALUE nextBufferEntryReg, IARG_REG_VALUE entryBufferEndReg,
         IARG_THREAD_ID, IARG_RETURN_REGS nextBufferEntryReg]] \<and>
   sublist (map (Pair (plain_ins\<lparr>INS_IsRet := True\<rparr>))
              (take 4 (InstrumentIns xed_sample globals_sample (IsInteresting image_b)
                 (plain_ins\<lparr>INS_IsRet := True\<rparr>))))
     (snd (InstrumentTrace xed_sample globals_sample
        [\<lparr>BBL_Address = 16384, BBL_Ins = [plain_ins\<lparr>INS_IsRet := True\<rparr>]\<rparr>])) \<and>
   (\<exists>m' w' before.
      exec_ins 2 (\<lambda>a c r. r) runtime_sample (\<lambda>r. r)
        (InstrumentIns xed_sample globals_sample (IsInteresting image_b)
           (plain_ins\<lparr>INS_IsRet := True\<rparr>)) machine_sample =
        Inr (m', before @ [Ret 4100 4200]) \<and>
      list_all is_memory_entry before \<and> traced m' w')"
proof -
  have h1: "\<not> skipped xed_sample (plain_ins\<lparr>INS_IsRet := True\<rparr>)"
    by (simp add: skipped_def xed_sample_def plain_ins_def)
  have h2: "\<not> overridden xed_sample globals_sample (plain_ins\<lparr>INS_IsRet := True\<rparr>)"
    by (simp add: overridden_def xed_sample_def plain_ins_def)
  have h3: "\<not> INS_IsCall (plain_ins\<lparr>INS_IsRet := True\<rparr>)"
    by (simp add: plain_ins_def)
  have h4: "\<not> INS_IsBranch (plain_ins\<lparr>INS_IsRet := True\<rparr>)"
    by (simp add: plain_ins_def)
  have h5: "INS_IsRet (plain_ins\<lparr>INS_IsRet := True\<rparr>)"
    by simp
  have h6: "\<lparr>BBL_Address = 16384, BBL_Ins = [plain_ins\<lparr>INS_IsRet := True\<rparr>]\<rparr>
            \<in> set [\<lparr>BBL_Address = 16384, BBL_Ins = [plain_ins\<lparr>INS_IsRet := True\<rparr>]\<rparr>]"
    by simp
  have h7: "find_image (g_images globals_sample)
              \<lparr>BBL_Address = 16384, BBL_Ins = [plain_ins\<lparr>INS_IsRet := True\<rparr>]\<rparr> = Some image_b"
    by simp
  have h8: "plain_ins\<lparr>INS_IsRet := True\<rparr>
            \<in> set (BBL_Ins \<lparr>BBL_Address = 16384, BBL_Ins = [plain_ins\<lparr>INS_IsRet := True\<rparr>]\<rparr>)"
    by simp
  have h9: "traced machine_sample writer_sample"
    by (simp add: traced_def machine_sample_def writer_sample_def Begin_def End_def NULL_def)
  have h10: "rt_branch_taken runtime_sample"
    by (simp add: runtime_sample_def)
  note th = C4_ret_probe_at_taken_branch
     [OF h1 h2 h3 h4 h5 h6 h7 h8 h9 h10, of 2 "\<lambda>a c r. r" "\<lambda>r. r"]
  note a = th [THEN conjunct1]
  note b = th [THEN conjunct2, THEN conjunct2, THEN conjunct1]
  have c: "\<exists>m' w' before.
      exec_ins 2 (\<lambda>a c r. r) runtime_sample (\<lambda>r. r)
        (InstrumentIns xed_sample globals_sample (IsInteresting image_b)
           (plain_ins\<lparr>INS_IsRet := True\<rparr>)) machine_sample =
        Inr (m', before @ [Ret 4100 4200]) \<and>
      list_all is_memory_entry before \<and> traced m' w'"
    using th [THEN conjunct2, THEN conjunct2, THEN conjunct2] by (simp add: runtime_sample_def)
  from h1 h2 h9 h10 a b c show ?thesis by (intro conjI)
qed

lemma skipped_flag_updates [simp]:
  "skipped X (ins\<lparr>INS_IsCall := c\<rparr>) = skipped X ins"
  "skipped X (ins\<lparr>INS_IsBranch := c\<rparr>) = skipped X ins"
  "overridden X g (ins\<lparr>INS_IsCall := c\<rparr>) = overridden X g ins"
  "overridden X g (ins\<lparr>INS_IsBranch := c\<rparr>) = overridden X g ins"
  by (simp_all add: skipped_def overridden_def)

lemma no_memory_probe_in_control_flow_probes [simp]:
  "filter is_memory_probe call_probes = []"
  "filter is_memory_probe branch_probes = []"
  "filter is_memory_probe ret_probes = []"
  "filter is_memory_probe cpuid_probes = []"
  "filter is_memory_probe (rdrand_probes ins) = []"
  by (simp_all add: is_memory_probe_def call_probes_def branch_probes_def ret_probes_def
        cpuid_probes_def rdrand_probes_def)


text \<open>Claim C10. The ret case has no \<open>continue\<close>: for a ret that reaches it in a block
  of an interesting image and has a standard memory-read operand, the walk registers the
  Ret probe (at \<open>IPOINT_TAKEN_BRANCH\<close>) and, after it, the MemoryRead probe (at
  \<open>IPOINT_BEFORE\<close>); the same instruction classified as a call or as a branch would
  get no memory probe. Executed on the traced thread, such a ret emits a MemoryRead
  entry and a Ret entry.\<close>

theorem C10_ret_falls_through_to_memory_stage:
  assumes reach: "\<not> skipped X ins" "\<not> overridden X g ins"
    and nb: "\<not> INS_IsCall ins" "\<not> INS_IsBranch ins" and ret: "INS_IsRet ins"
    and bbl: "bbl \<in> set trace" "find_image (g_images g) bbl = Some img" "ins \<in> set (BBL_Ins bbl)"
    and int: "IsInteresting img"
    and rd: "INS_IsMemoryRead ins" "INS_IsStandardMemop ins"
    and tr: "traced m w" and taken: "rt_branch_taken rt"
  shows "InstrumentIns X g (IsInteresting img) ins =
           ret_probes @ memread_probes @
           (if INS_HasMemoryRead2 ins then memread2_probes else []) @
           (if INS_IsMemoryWrite ins then memwrite_probes else []) \<and>
         INS_InsertThenCall IPOINT_TAKEN_BRANCH F_InsertRetBranchEntry
             [IARG_REG_VALUE nextBufferEntryReg, IARG_INST_PTR, IARG_CONTEXT,
              IARG_RETURN_REGS nextBufferEntryReg]
           \<in> set (InstrumentIns X g (IsInteresting img) ins) \<and>
         INS_InsertThenCall IPOINT_BEFORE F_InsertMemoryReadEntry
             [IARG_REG_VALUE nextBufferEntryReg, IARG_INST_PTR, IARG_MEMORYREAD_EA,
              IARG_RETURN_REGS nextBufferEntryReg]
           \<in> set (InstrumentIns X g (IsInteresting img) ins) \<and>
         sublist (map (Pair ins) (ret_probes @ memread_probes)) (snd (InstrumentTrace X g trace)) \<and>
         filter is_memory_probe (InstrumentIns X g (IsInteresting img) (ins\<lparr>INS_IsCall := True\<rparr>)) = [] \<and>
         filter is_memory_probe (InstrumentIns X g (IsInteresting img) (ins\<lparr>INS_IsBranch := True\<rparr>)) = [] \<and>
         (\<exists>m' w' more.
            exec_ins K C rt eff (InstrumentIns X g (IsInteresting img) ins) m =
              Inr (m', MemoryRead (rt_inst_ptr rt) (rt_memoryread_ea rt) # more @
                       [Ret (rt_inst_ptr rt) (rt_context_ip rt)]) \<and>
            traced m' w')"
proof -
  let ?b = "IsInteresting img"
  let ?M = "(if ?b \<and> INS_IsMemoryRead ins \<and> INS_IsStandardMemop ins then memread_probes else []) @
    (if ?b \<and> INS_HasMemoryRead2 ins \<and> INS_IsStandardMemop ins then memread2_probes else []) @
    (if ?b \<and> INS_IsMemoryWrite ins \<and> INS_IsStandardMemop ins then memwrite_probes else [])"
  have plan0: "InstrumentIns X g ?b ins = ret_probes @ ?M"
    by (rule InstrumentIns_ret [OF reach nb ret])
  have plan: "InstrumentIns X g ?b ins =
           ret_probes @ memread_probes @
           (if INS_HasMemoryRead2 ins then memread2_probes else []) @
           (if INS_IsMemoryWrite ins then memwrite_probes else [])"
    unfolding plan0 using int rd by simp
  have in_ret: "INS_InsertThenCall IPOINT_TAKEN_BRANCH F_InsertRetBranchEntry
             [IARG_REG_VALUE nextBufferEntryReg, IARG_INST_PTR, IARG_CONTEXT,
              IARG_RETURN_REGS nextBufferEntryReg]
           \<in> set (InstrumentIns X g ?b ins)"
    unfolding plan by (simp add: ret_probes_def)
  have in_rd: "INS_InsertThenCall IPOINT_BEFORE F_InsertMemoryReadEntry
             [IARG_REG_VALUE nextBufferEntryReg, IARG_INST_PTR, IARG_MEMORYREAD_EA,
              IARG_RETURN_REGS nextBufferEntryReg]
           \<in> set (InstrumentIns X g ?b ins)"
    unfolding plan by (simp add: memread_probes_def)
  have "sublist (map (Pair ins) ((ret_probes @ memread_probes) @
           (if INS_HasMemoryRead2 ins then memread2_probes else []) @
           (if INS_IsMemoryWrite ins then memwrite_probes else [])))
         (snd (InstrumentTrace X g trace))"
    using InstrumentTrace_sublist [OF bbl, of X] by (simp only: plan append_assoc)
  then have sub: "sublist (map (Pair ins) (ret_probes @ memread_probes)) (snd (InstrumentTrace X g trace))"
    by (rule sublist_map_prefix)
  have c: "filter is_memory_probe (InstrumentIns X g ?b (ins\<lparr>INS_IsCall := True\<rparr>)) = []"
    using reach by (simp add: InstrumentIns_reached)
  have br: "filter is_memory_probe (InstrumentIns X g ?b (ins\<lparr>INS_IsBranch := True\<rparr>)) = []"
    using reach nb by (simp add: InstrumentIns_reached)
  from exec_ret_plan [OF tr taken, of K C eff
      "?b \<and> INS_IsMemoryRead ins \<and> INS_IsStandardMemop ins"
      "?b \<and> INS_HasMemoryRead2 ins \<and> INS_IsStandardMemop ins"
      "?b \<and> INS_IsMemoryWrite ins \<and> INS_IsStandardMemop ins"]
  obtain m' w' where t': "traced m' w'" and
    x: "exec_ins K C rt eff (ret_probes @ ?M) m =
     Inr (m', (if ?b \<and> INS_IsMemoryRead ins \<and> INS_IsStandardMemop ins
                 then [MemoryRead (rt_inst_ptr rt) (rt_memoryread_ea rt)] else []) @
              (if ?b \<and> INS_HasMemoryRead2 ins \<and> INS_IsStandardMemop ins
                 then [MemoryRead (rt_inst_ptr rt) (rt_memoryread2_ea rt)] else []) @
              (if ?b \<and> INS_IsMemoryWrite ins \<and> INS_IsStandardMemop ins
                 then [MemoryWrite (rt_inst_ptr rt) (rt_memorywrite_ea rt)] else []) @
              [Ret (rt_inst_ptr rt) (rt_context_ip rt)])"
    by blast
  let ?more = "(if INS_HasMemoryRead2 ins
                 then [MemoryRead (rt_inst_ptr rt) (rt_memoryread2_ea rt)] else []) @
              (if INS_IsMemoryWrite ins
                 then [MemoryWrite (rt_inst_ptr rt) (rt_memorywrite_ea rt)] else [])"
  have "exec_ins K C rt eff (InstrumentIns X g ?b ins) m =
          Inr (m', MemoryRead (rt_inst_ptr rt) (rt_memoryread_ea rt) # ?more @
                   [Ret (rt_inst_ptr rt) (rt_context_ip rt)])"
    unfolding plan0 using x int rd by simp
  with t' have run: "\<exists>m' w' more.
            exec_ins K C rt eff (InstrumentIns X g ?b ins) m =
              Inr (m', MemoryRead (rt_inst_ptr rt) (rt_memoryread_ea rt) # more @
                       [Ret (rt_inst_ptr rt) (rt_context_ip rt)]) \<and>
            traced m' w'"
    by (intro exI [of _ m'] exI [of _ w'] exI [of _ ?more]) simp
  from plan in_ret in_rd sub c br run show ?thesis by (intro conjI)
qed

theorem C10_witness:
  "\<not> skipped xed_sample (plain_ins\<lparr>INS_IsRet := True, INS_IsMemoryRead := True, INS_IsStandardMemop := True\<rparr>) \<and> \<not> overridden xed_sample globals_sample (plain_ins\<lparr>INS_IsRet := True, INS_IsMemoryRead := True, INS_IsStandardMemop := True\<rparr>) \<and>
   INS_IsRet (plain_ins\<lparr>INS_IsRet := True, INS_IsMemoryRead := True, INS_IsStandardMemop := True\<rparr>) \<and> INS_IsMemoryRead (plain_ins\<lparr>INS_IsRet := True, INS_IsMemoryRead := True, INS_IsStandardMemop := True\<rparr>) \<and> INS_IsStandardMemop (plain_ins\<lparr>INS_IsRet := True, INS_IsMemoryRead := True, INS_IsStandardMemop := True\<rparr>) \<and>
   IsInteresting image_a \<and> traced machine_sample writer_sample \<and>
   rt_branch_taken runtime_sample \<and>
   InstrumentIns xed_sample globals_sample (IsInteresting image_a) (plain_ins\<lparr>INS_IsRet := True, INS_IsMemoryRead := True, INS_IsStandardMemop := True\<rparr>) =
     ret_probes @ memread_probes \<and>
   filter is_memory_probe
     (InstrumentIns xed_sample globals_sample (IsInteresting image_a) ((plain_ins\<lparr>INS_IsRet := True, INS_IsMemoryRead := True, INS_IsStandardMemop := True\<rparr>)\<lparr>INS_IsCall := True\<rparr>)) = [] \<and>
   (\<exists>m' w' more.
      exec_ins 2 (\<lambda>a c r. r) runtime_sample (\<lambda>r. r)
        (InstrumentIns xed_sample globals_sample (IsInteresting image_a) (plain_ins\<lparr>INS_IsRet := True, INS_IsMemoryRead := True, INS_IsStandardMemop := True\<rparr>)) machine_sample =
        Inr (m', MemoryRead 4100 900 # more @ [Ret 4100 4200]) \<and> traced m' w')"
proof -
  have h1: "\<not> skipped xed_sample (plain_ins\<lparr>INS_IsRet := True, INS_IsMemoryRead := True, INS_IsStandardMemop := True\<rparr>)"
    by (simp add: skipped_def xed_sample_def plain_ins_def)
  have h2: "\<not> overridden xed_sample globals_sample (plain_ins\<lparr>INS_IsRet := True, INS_IsMemoryRead := True, INS_IsStandardMemop := True\<rparr>)"
    by (simp add: overridden_def xed_sample_def plain_ins_def)
  have h3: "\<not> INS_IsCall (plain_ins\<lparr>INS_IsRet := True, INS_IsMemoryRead := True, INS_IsStandardMemop := True\<rparr>)" by (simp add: plain_ins_def)
  have h4: "\<not> INS_IsBranch (plain_ins\<lparr>INS_IsRet := True, INS_IsMemoryRead := True, INS_IsStandardMemop := True\<rparr>)" by (simp add: plain_ins_def)
  have h5: "INS_IsRet (plain_ins\<lparr>INS_IsRet := True, INS_IsMemoryRead := True, INS_IsStandardMemop := True\<rparr>)" by simp
  have h6: "\<lparr>BBL_Address = 4096, BBL_Ins = [plain_ins\<lparr>INS_IsRet := True, INS_IsMemoryRead := True, INS_IsStandardMemop := True\<rparr>]\<rparr> \<in> set [\<lparr>BBL_Address = 4096, BBL_Ins = [plain_ins\<lparr>INS_IsRet := True, INS_IsMemoryRead := True, INS_IsStandardMemop := True\<rparr>]\<rparr>]" by simp
  have h7: "find_image (g_images globals_sample) \<lparr>BBL_Address = 4096, BBL_Ins = [plain_ins\<lparr>INS_IsRet := True, INS_IsMemoryRead := True, INS_IsStandardMemop := True\<rparr>]\<rparr> = Some image_a" by simp
  have h8: "(plain_ins\<lparr>INS_IsRet := True, INS_IsMemoryRead := True, INS_IsStandardMemop := True\<rparr>) \<in> set (BBL_Ins \<lparr>BBL_Address = 4096, BBL_Ins = [plain_ins\<lparr>INS_IsRet := True, INS_IsMemoryRead := True, INS_IsStandardMemop := True\<rparr>]\<rparr>)" by simp
  have h9: "IsInteresting image_a" by simp
  have h10: "INS_IsMemoryRead (plain_ins\<lparr>INS_IsRet := True, INS_IsMemoryRead := True, INS_IsStandardMemop := True\<rparr>)" by simp
  have h11: "INS_IsStandardMemop (plain_ins\<lparr>INS_IsRet := True, INS_IsMemoryRead := True, INS_IsStandardMemop := True\<rparr>)" by simp
  have h12: "traced machine_sample writer_sample"
    by (simp add: traced_def machine_sample_def writer_sample_def Begin_def End_def NULL_def)
  have h13: "rt_branch_taken runtime_sample"
    by (simp add: runtime_sample_def)
  note th = C10_ret_falls_through_to_memory_stage
     [OF h1 h2 h3 h4 h5 h6 h7 h8 h9 h10 h11 h12 h13, of 2 "\<lambda>a c r. r" "\<lambda>r. r"]
  have a: "InstrumentIns xed_sample globals_sample (IsInteresting image_a) (plain_ins\<lparr>INS_IsRet := True, INS_IsMemoryRead := True, INS_IsStandardMemop := True\<rparr>) =
     ret_probes @ memread_probes"
    using th [THEN conjunct1] by (simp add: plain_ins_def)
  note c = th [THEN conjunct2, THEN conjunct2, THEN conjunct2, THEN conjunct2, THEN conjunct1]
  have r: "\<exists>m' w' more.
      exec_ins 2 (\<lambda>a c r. r) runtime_sample (\<lambda>r. r)
        (InstrumentIns xed_sample globals_sample (IsInteresting image_a) (plain_ins\<lparr>INS_IsRet := True, INS_IsMemoryRead := True, INS_IsStandardMemop := True\<rparr>)) machine_sample =
        Inr (m', MemoryRead 4100 900 # more @ [Ret 4100 4200]) \<and> traced m' w'"
    using th [THEN conjunct2, THEN conjunct2, THEN conjunct2, THEN conjunct2, THEN conjunct2,
              THEN conjunct2]
    by (simp add: runtime_sample_def)
  from h1 h2 h5 h10 h11 h9 h12 h13 a c r show ?thesis by (intro conjI)
qed


lemma InstrumentIns_skipped: "skipped X ins \<Longrightarrow> InstrumentIns X g b ins = []"
  unfolding skipped_def by (elim disjE) (simp_all add: InstrumentIns_def)

lemma InstrumentIns_overridden:
  assumes "\<not> skipped X ins" "overridden X g ins"
  shows "InstrumentIns X g b ins =
     (if INS_Opcode ins = XED_ICLASS_CPUID X then cpuid_probes else rdrand_probes ins)"
proof -
  have r: "\<not> INS_SegmentPrefix ins"
    "\<not> (XED_ICLASS_PUSH X \<le> INS_Opcode ins \<and> INS_Opcode ins \<le> XED_ICLASS_PUSHFQ X)"
    "\<not> (XED_ICLASS_POP X \<le> INS_Opcode ins \<and> INS_Opcode ins \<le> XED_ICLASS_POPFQ X)"
    "INS_Opcode ins \<noteq> XED_ICLASS_LEA X"
    using assms(1) by (simp_all add: skipped_def)
  show ?thesis
  proof (cases "INS_Opcode ins = XED_ICLASS_CPUID X")
    case True
    then have c: "XED_ICLASS_CPUID X = INS_Opcode ins" by simp
    show ?thesis by (simp add: InstrumentIns_def r c)
  next
    case False
    with assms(2) have rr: "XED_ICLASS_RDRAND X = INS_Opcode ins" "g_useFixedRandomNumber g"
      by (simp_all add: overridden_def)
    show ?thesis by (simp add: InstrumentIns_def r False rr)
  qed
qed

text \<open>The shapes a plan can have.\<close>

lemma InstrumentIns_shapes:
  "InstrumentIns X g b ins = [] \<or> InstrumentIns X g b ins = cpuid_probes \<or>
   InstrumentIns X g b ins = rdrand_probes ins \<or> InstrumentIns X g b ins = call_probes \<or>
   InstrumentIns X g b ins = branch_probes \<or>
   InstrumentIns X g b ins =
     (if INS_IsRet ins then ret_probes else []) @
     (if b \<and> INS_IsMemoryRead ins \<and> INS_IsStandardMemop ins then memread_probes else []) @
     (if b \<and> INS_HasMemoryRead2 ins \<and> INS_IsStandardMemop ins then memread2_probes else []) @
     (if b \<and> INS_IsMemoryWrite ins \<and> INS_IsStandardMemop ins then memwrite_probes else [])"
proof (cases "skipped X ins")
  case True
  then show ?thesis by (simp add: InstrumentIns_skipped)
next
  case False
  note ns = this
  show ?thesis
  proof (cases "overridden X g ins")
    case True
    show ?thesis by (simp add: InstrumentIns_overridden [OF ns True])
  next
    case False
    show ?thesis by (simp add: InstrumentIns_reached [OF ns False])
  qed
qed

lemma InstrumentIns_uninteresting_no_memory_probe:
  "filter is_memory_probe (InstrumentIns X g False ins) = []"
  using InstrumentIns_shapes [of X g False ins]
  by (elim disjE) simp_all

lemma call_afun_no_memory:
  assumes "call_afun K C f vs m = Inr (v, m', out)"
    and "f \<noteq> F_InsertMemoryReadEntry" "f \<noteq> F_InsertMemoryWriteEntry"
  shows "filter is_memory_entry out = []"
  using assms
  by (cases f)
     (auto simp: call_afun_def insert_probe_def flush_result_def
           split: list.splits val.splits sum.splits prod.splits)

lemma exec_call_no_memory:
  assumes "exec_call K C rt f args m = Inr (v, m', out)"
    and "f \<noteq> F_InsertMemoryReadEntry" "f \<noteq> F_InsertMemoryWriteEntry"
  shows "filter is_memory_entry out = []"
  using assms
  by (auto simp: exec_call_def split: sum.splits prod.splits dest: call_afun_no_memory)

lemma run_calls_no_memory:
  "filter is_memory_probe calls = [] \<Longrightarrow> run_calls K C rt calls m = Inr (m', out) \<Longrightarrow>
   filter is_memory_entry out = []"
proof (induction K C rt calls m arbitrary: m' out rule: run_calls.induct)
  case (1 K C rt m)
  then show ?case by simp
next
  case (2 K C rt p f args p' f' args' rest m)
  from "2.prems"(1) have np: "\<not> is_memory_probe (INS_InsertIfCall p f args)"
      "\<not> is_memory_probe (INS_InsertThenCall p' f' args')"
    and fr: "filter is_memory_probe rest = []"
    by (auto split: if_splits)
  from np have nf: "f \<noteq> F_InsertMemoryReadEntry" "f \<noteq> F_InsertMemoryWriteEntry"
      "f' \<noteq> F_InsertMemoryReadEntry" "f' \<noteq> F_InsertMemoryWriteEntry"
    by (auto simp: is_memory_probe_def)
  from "2.prems"(2) obtain v m1 out1 where
    e1: "exec_call K C rt f args m = Inr (v, m1, out1)"
    by (auto split: sum.splits)
  have o1: "filter is_memory_entry out1 = []"
    by (rule exec_call_no_memory [OF e1 nf(1,2)])
  show ?case
  proof (cases "nonzero v")
    case True
    with "2.prems"(2) e1 obtain v' m2 out2 where
      e2: "exec_call K C rt f' args' m1 = Inr (v', m2, out2)"
      by (auto split: sum.splits)
    have o2: "filter is_memory_entry out2 = []"
      by (rule exec_call_no_memory [OF e2 nf(3,4)])
    from "2.prems"(2) e1 e2 True obtain out3 where
      r: "run_calls K C rt rest m2 = Inr (m', out3)" and o: "out = (out1 @ out2) @ out3"
      by (auto simp: then_emitted_def split: sum.splits)
    have "filter is_memory_entry out3 = []"
      by (rule "2.IH"(1) [OF e1 refl refl True e2 refl refl fr r])
    with o o1 o2 show ?thesis by simp
  next
    case False
    from "2.prems"(2) e1 False obtain out3 where
      r: "run_calls K C rt rest m1 = Inr (m', out3)" and o: "out = out1 @ out3"
      by (auto simp: then_emitted_def split: sum.splits)
    have "filter is_memory_entry out3 = []"
      by (rule "2.IH"(2) [OF e1 refl refl False fr r])
    with o o1 show ?thesis by simp
  qed
next
  case (3 K C rt p f args rest m)
  from "3.prems"(1) have np: "\<not> is_memory_probe (INS_InsertCall p f args)"
    and fr: "filter is_memory_probe rest = []"
    by (auto split: if_splits)
  from np have nf: "f \<noteq> F_InsertMemoryReadEntry" "f \<noteq> F_InsertMemoryWriteEntry"
    by (auto simp: is_memory_probe_def)
  from "3.prems"(2) obtain v m1 out1 out3 where
    e1: "exec_call K C rt f args m = Inr (v, m1, out1)" and
    r: "run_calls K C rt rest m1 = Inr (m', out3)" and o: "out = out1 @ out3"
    by (auto simp: then_emitted_def split: sum.splits)
  have "filter is_memory_entry out3 = []"
    by (rule "3.IH" [OF e1 refl refl fr r])
  with o exec_call_no_memory [OF e1 nf] show ?case by simp
next
  case (4 K C rt p f args rest m)
  from "4.prems"(1) have np: "\<not> is_memory_probe (RTN_InsertCall p f args)"
    and fr: "filter is_memory_probe rest = []"
    by (auto split: if_splits)
  from np have nf: "f \<noteq> F_InsertMemoryReadEntry" "f \<noteq> F_InsertMemoryWriteEntry"
    by (auto simp: is_memory_probe_def)
  from "4.prems"(2) obtain v m1 out1 out3 where
    e1: "exec_call K C rt f args m = Inr (v, m1, out1)" and
    r: "run_calls K C rt rest m1 = Inr (m', out3)" and o: "out = out1 @ out3"
    by (auto simp: then_emitted_def split: sum.splits)
  have "filter is_memory_entry out3 = []"
    by (rule "4.IH" [OF e1 refl refl fr r])
  with o exec_call_no_memory [OF e1 nf] show ?case by simp
qed simp_all

lemma filter_filter_Nil: "filter P xs = [] \<Longrightarrow> filter P (filter Q xs) = []"
  by (induction xs) (auto split: if_splits)

lemma exec_ins_no_memory:
  assumes "filter is_memory_probe plan = []" and "exec_ins K C rt eff plan m = Inr (m', out)"
  shows "filter is_memory_entry out = []"
proof -
  from assms(2) obtain m1 out1 out2 where
    r1: "run_calls K C rt (filter (\<lambda>q. ipoint_of q = IPOINT_BEFORE) plan) m = Inr (m1, out1)" and
    r2: "run_calls K C rt
           (filter (\<lambda>q. ipoint_of q =
              (if rt_branch_taken rt then IPOINT_TAKEN_BRANCH else IPOINT_AFTER)) plan)
           (m1\<lparr>m_regs := eff (m_regs m1)\<rparr>) = Inr (m', out2)" and
    o: "out = out1 @ out2"
    by (auto simp: exec_ins_def then_emitted_def split: sum.splits)
  from run_calls_no_memory [OF filter_filter_Nil [OF assms(1)] r1]
       run_calls_no_memory [OF filter_filter_Nil [OF assms(1)] r2] o
  show ?thesis by simp
qed

lemma memory_probes_of_memory_stage:
  "filter is_memory_probe memread_probes =
     [INS_InsertThenCall IPOINT_BEFORE F_InsertMemoryReadEntry
        [IARG_REG_VALUE nextBufferEntryReg, IARG_INST_PTR, IARG_MEMORYREAD_EA,
         IARG_RETURN_REGS nextBufferEntryReg]]"
  "filter is_memory_probe memread2_probes =
     [INS_InsertThenCall IPOINT_BEFORE F_InsertMemoryReadEntry
        [IARG_REG_VALUE nextBufferEntryReg, IARG_INST_PTR, IARG_MEMORYREAD2_EA,
         IARG_RETURN_REGS nextBufferEntryReg]]"
  "filter is_memory_probe memwrite_probes =
     [INS_InsertThenCall IPOINT_BEFORE F_InsertMemoryWriteEntry
        [IARG_REG_VALUE nextBufferEntryReg, IARG_INST_PTR, IARG_MEMORYWRITE_EA,
         IARG_RETURN_REGS nextBufferEntryReg]]"
  by (simp_all add: is_memory_probe_def memread_probes_def memread2_probes_def memwrite_probes_def)


lemma quiet_Nil: "quiet K C rt []"
  by (simp add: quiet_def)

lemma quiet_block:
  assumes "quiet K C rt rest"
  shows "quiet K C rt
           (INS_InsertIfCall p F_CheckNextTraceEntryPointerValid [IARG_REG_VALUE nextBufferEntryReg] #
            INS_InsertThenCall p f args #
            INS_InsertIfCall p F_CheckBufferFull
              [IARG_REG_VALUE nextBufferEntryReg, IARG_REG_VALUE entryBufferEndReg] #
            INS_InsertThenCall p F_CheckBufferAndStore
              [IARG_REG_VALUE nextBufferEntryReg, IARG_REG_VALUE entryBufferEndReg,
               IARG_THREAD_ID, IARG_RETURN_REGS nextBufferEntryReg] # rest)"
  unfolding quiet_def
proof (intro allI impI)
  fix m :: machine
  assume n: "m_next m = NULL"
  from assms n have "\<exists>m'. run_calls K C rt rest m = Inr (m', []) \<and> m_globals m' = m_globals m \<and>
           m_next m' = NULL \<and> m_end m' = m_end m \<and> m_tid m' = m_tid m"
    unfolding quiet_def by blast
  then show "\<exists>m'. run_calls K C rt
           (INS_InsertIfCall p F_CheckNextTraceEntryPointerValid [IARG_REG_VALUE nextBufferEntryReg] #
            INS_InsertThenCall p f args #
            INS_InsertIfCall p F_CheckBufferFull
              [IARG_REG_VALUE nextBufferEntryReg, IARG_REG_VALUE entryBufferEndReg] #
            INS_InsertThenCall p F_CheckBufferAndStore
              [IARG_REG_VALUE nextBufferEntryReg, IARG_REG_VALUE entryBufferEndReg,
               IARG_THREAD_ID, IARG_RETURN_REGS nextBufferEntryReg] # rest) m = Inr (m', []) \<and>
           m_globals m' = m_globals m \<and> m_next m' = NULL \<and> m_end m' = m_end m \<and>
           m_tid m' = m_tid m"
    by (simp only: block_null [OF n])
qed

lemma quiet_cpuid_before:
  "quiet K C rt
     [INS_InsertCall IPOINT_BEFORE F_PIN_SetContextReg
        [IARG_CONTEXT, IARG_UINT32_REG cpuIdEaxInputReg, IARG_REG_VALUE REG_EAX],
      INS_InsertCall IPOINT_BEFORE F_PIN_SetContextReg
        [IARG_CONTEXT, IARG_UINT32_REG cpuIdEcxInputReg, IARG_REG_VALUE REG_ECX]]"
  by (simp add: quiet_def exec_call_def call_afun_def write_return_def)

lemma quiet_cpuid_after:
  "quiet K C rt
     [INS_InsertCall IPOINT_AFTER F_ChangeCpuId
        [IARG_REG_VALUE cpuIdEaxInputReg, IARG_REG_VALUE cpuIdEcxInputReg,
         IARG_REG_REFERENCE REG_EAX, IARG_REG_REFERENCE REG_EBX,
         IARG_REG_REFERENCE REG_ECX, IARG_REG_REFERENCE REG_EDX]]"
  by (simp add: quiet_def exec_call_def call_afun_def write_return_def split: prod.splits)

lemma quiet_rdrand:
  "quiet K C rt [INS_InsertCall IPOINT_AFTER F_ChangeRandomNumber [IARG_REG_REFERENCE r]]"
  by (simp add: quiet_def exec_call_def call_afun_def write_return_def)

lemma quiet_filter_plan:
  "quiet K C rt (filter (\<lambda>q. ipoint_of q = P) (InstrumentIns X g b ins))"
proof -
  have s: "quiet K C rt (filter (\<lambda>q. ipoint_of q = P)
     ((if r then ret_probes else []) @ (if c1 then memread_probes else []) @
      (if c2 then memread2_probes else []) @ (if c3 then memwrite_probes else [])))"
    for r c1 c2 c3
    by (cases P; cases r; cases c1; cases c2; cases c3)
       (simp_all add: ret_probes_def memread_probes_def memread2_probes_def memwrite_probes_def
          quiet_block quiet_Nil)
  have c: "quiet K C rt (filter (\<lambda>q. ipoint_of q = P) cpuid_probes)"
    by (cases P) (simp_all add: cpuid_probes_def quiet_cpuid_before quiet_cpuid_after quiet_Nil)
  have r: "quiet K C rt (filter (\<lambda>q. ipoint_of q = P) (rdrand_probes ins))"
    by (cases P) (simp_all add: rdrand_probes_def quiet_rdrand quiet_Nil)
  have cl: "quiet K C rt (filter (\<lambda>q. ipoint_of q = P) call_probes)"
    by (cases P) (simp_all add: call_probes_def quiet_block quiet_Nil)
  have br: "quiet K C rt (filter (\<lambda>q. ipoint_of q = P) branch_probes)"
    by (cases P) (simp_all add: branch_probes_def quiet_block quiet_Nil)
  from InstrumentIns_shapes [of X g b ins] show ?thesis
    by (elim disjE) (simp_all only: s c r cl br filter.simps quiet_Nil)
qed

text \<open>An instrumented instruction executed on a thread whose \<open>next\<close> is null.\<close>

lemma exec_ins_null:
  assumes "m_next m = NULL"
  shows "\<exists>m'. exec_ins K C rt eff (InstrumentIns X g b ins) m = Inr (m', []) \<and>
           m_globals m' = m_globals m \<and> m_next m' = NULL \<and> m_end m' = m_end m \<and>
           m_tid m' = m_tid m"
proof -
  from quiet_filter_plan [of K C rt IPOINT_BEFORE X g b ins] assms obtain m1 where
    r1: "run_calls K C rt (filter (\<lambda>q. ipoint_of q = IPOINT_BEFORE) (InstrumentIns X g b ins)) m =
           Inr (m1, [])" and
    k1: "m_globals m1 = m_globals m" "m_next m1 = NULL" "m_end m1 = m_end m" "m_tid m1 = m_tid m"
    unfolding quiet_def by blast
  let ?m1 = "m1\<lparr>m_regs := eff (m_regs m1)\<rparr>"
  have "m_next ?m1 = NULL" using k1 by simp
  with quiet_filter_plan
         [of K C rt "if rt_branch_taken rt then IPOINT_TAKEN_BRANCH else IPOINT_AFTER" X g b ins]
  obtain m2 where
    r2: "run_calls K C rt
           (filter (\<lambda>q. ipoint_of q =
              (if rt_branch_taken rt then IPOINT_TAKEN_BRANCH else IPOINT_AFTER))
              (InstrumentIns X g b ins)) ?m1 = Inr (m2, [])" and
    k2: "m_globals m2 = m_globals ?m1" "m_next m2 = NULL" "m_end m2 = m_end ?m1"
        "m_tid m2 = m_tid ?m1"
    unfolding quiet_def by blast
  have "exec_ins K C rt eff (InstrumentIns X g b ins) m = Inr (m2, [])"
    using r1 r2 by (simp add: exec_ins_def)
  with k1 k2 show ?thesis by (intro exI [of _ m2]) simp
qed

lemma exec_path_null:
  "m_next m = NULL \<Longrightarrow>
   \<exists>m'. exec_path K C X g steps m = Inr (m', []) \<and> m_globals m' = m_globals m \<and>
     m_next m' = NULL \<and> m_end m' = m_end m \<and> m_tid m' = m_tid m"
proof (induction steps arbitrary: m)
  case Nil
  then show ?case by simp
next
  case (Cons step steps)
  obtain rt eff b ins where step: "step = (rt, eff, b, ins)" by (cases step) auto
  from exec_ins_null [OF Cons.prems, of K C rt eff X g b ins] obtain m1 where
    x: "exec_ins K C rt eff (InstrumentIns X g b ins) m = Inr (m1, [])" and
    k1: "m_globals m1 = m_globals m" "m_next m1 = NULL" "m_end m1 = m_end m" "m_tid m1 = m_tid m"
    by blast
  from Cons.IH [OF k1(2)] obtain m2 where
    y: "exec_path K C X g steps m1 = Inr (m2, [])" and
    k2: "m_globals m2 = m_globals m1" "m_next m2 = NULL" "m_end m2 = m_end m1" "m_tid m2 = m_tid m1"
    by blast
  have "exec_path K C X g (step # steps) m = Inr (m2, [])"
    using x y by (simp add: step)
  with k1 k2 show ?case by (intro exI [of _ m2]) simp
qed

lemma digit_char_not_newline: "digit_char d \<noteq> CHR 0x0A"
proof (cases "d < 16")
  case True
  then have "digit_char d \<in> set ''0123456789abcdef''"
    by (simp add: digit_char_def del: set_simps)
  then show ?thesis by auto
next
  case False
  then show ?thesis by (simp add: digit_char_def)
qed

lemma show_nat_no_newline: "CHR 0x0A \<notin> set (show_nat b n)"
proof (induction b n rule: show_nat.induct)
  case (1 b n)
  show ?case
  proof (cases "b < 2 \<or> n < b")
    case True
    then show ?thesis
      using digit_char_not_newline [of n] by (subst show_nat.simps) auto
  next
    case False
    with "1.IH" digit_char_not_newline [of "n mod b"] show ?thesis
      by (subst show_nat.simps) auto
  qed
qed

lemma show_nat_10_3: "show_nat 10 3 = ''3''"
  by (simp add: show_nat.simps digit_char_def)


text \<open>Claim C7. For a thread whose id is not 0, \<open>ThreadStart\<close> sets both buffer
  registers to null, stores no writer, and writes exactly one line to \<open>cerr\<close>
  (\<open>Ignoring thread #\<close>, the id, a newline). The guard of every entry probe then
  returns zero, \<open>CheckBufferAndStore\<close> returns its input pointer and leaves the globals
  alone, and any stretch of instrumented instructions that the thread executes emits no
  trace entry, leaves the globals (the writer, its buffer and its files) unchanged and
  keeps the registers null.\<close>

theorem C7_other_threads_are_silent:
  assumes "m_tid m \<noteq> 0"
  shows "m_next (ThreadStart (m_tid m) traceWriter m) = NULL \<and>
         m_end (ThreadStart (m_tid m) traceWriter m) = NULL \<and>
         g_threadData (m_globals (ThreadStart (m_tid m) traceWriter m)) =
           g_threadData (m_globals m) \<and>
         os_chars (g_cerr (m_globals (ThreadStart (m_tid m) traceWriter m))) =
           os_chars (g_cerr (m_globals m)) @ ''Ignoring thread #'' @
           show_nat (if os_hex (g_cerr (m_globals m)) then 16 else 10) (m_tid m) @ [CHR 0x0A] \<and>
         CHR 0x0A \<notin> set (''Ignoring thread #'' @
           show_nat (if os_hex (g_cerr (m_globals m)) then 16 else 10) (m_tid m)) \<and>
         \<not> nonzero (V_num (CheckNextTraceEntryPointerValid
                (m_next (ThreadStart (m_tid m) traceWriter m)))) \<and>
         (\<forall>p e gl. CheckBufferAndStore K p e (m_tid m) gl = Inr (p, gl)) \<and>
         (\<exists>m'. exec_path K C X g steps (ThreadStart (m_tid m) traceWriter m) = Inr (m', []) \<and>
            m_globals m' = m_globals (ThreadStart (m_tid m) traceWriter m) \<and>
            m_next m' = NULL \<and> m_end m' = NULL)"
proof -
  let ?m = "ThreadStart (m_tid m) traceWriter m"
  have n: "m_next ?m = NULL" and e: "m_end ?m = NULL"
    and d: "g_threadData (m_globals ?m) = g_threadData (m_globals m)"
    using assms by (simp_all add: ThreadStart_def)
  have l: "os_chars (g_cerr (m_globals ?m)) =
           os_chars (g_cerr (m_globals m)) @ ''Ignoring thread #'' @
           show_nat (if os_hex (g_cerr (m_globals m)) then 16 else 10) (m_tid m) @ [CHR 0x0A]"
    using assms by (simp add: ThreadStart_def endl_def put_num_def put_str_def)
  have o: "CHR 0x0A \<notin> set (''Ignoring thread #'' @
           show_nat (if os_hex (g_cerr (m_globals m)) then 16 else 10) (m_tid m))"
    using show_nat_no_newline [of "if os_hex (g_cerr (m_globals m)) then 16 else 10" "m_tid m"]
    by simp
  have z: "\<not> nonzero (V_num (CheckNextTraceEntryPointerValid (m_next ?m)))"
    by (simp add: n CheckNextTraceEntryPointerValid_def NULL_def)
  have f: "\<forall>p e gl. CheckBufferAndStore K p e (m_tid m) gl = Inr (p, gl)"
    using assms by (simp add: CheckBufferAndStore_def)
  from exec_path_null [OF n, of K C X g steps] e
  have x: "\<exists>m'. exec_path K C X g steps ?m = Inr (m', []) \<and>
            m_globals m' = m_globals ?m \<and> m_next m' = NULL \<and> m_end m' = NULL"
    by auto
  from n e d l o z f x show ?thesis by (intro conjI)
qed

theorem C7_witness:
  "m_tid (machine_sample\<lparr>m_tid := 3\<rparr>) \<noteq> 0 \<and>
   m_next (ThreadStart 3 writer_sample (machine_sample\<lparr>m_tid := 3\<rparr>)) = NULL \<and>
   m_end (ThreadStart 3 writer_sample (machine_sample\<lparr>m_tid := 3\<rparr>)) = NULL \<and>
   os_chars (g_cerr (m_globals (ThreadStart 3 writer_sample (machine_sample\<lparr>m_tid := 3\<rparr>)))) =
     ''Ignoring thread #3'' @ [CHR 0x0A] \<and>
   CheckBufferAndStore 2 100 104 3 (m_globals machine_sample) =
     Inr (100, m_globals machine_sample) \<and>
   (\<exists>m'. exec_path 2 (\<lambda>a c r. r) xed_sample globals_sample
      [(runtime_sample, \<lambda>r. r, True,
        plain_ins\<lparr>INS_IsMemoryRead := True, INS_IsStandardMemop := True\<rparr>),
       (runtime_sample, \<lambda>r. r, True, plain_ins\<lparr>INS_IsCall := True\<rparr>)]
      (ThreadStart 3 writer_sample (machine_sample\<lparr>m_tid := 3\<rparr>)) = Inr (m', []) \<and>
      m_globals m' = m_globals (ThreadStart 3 writer_sample (machine_sample\<lparr>m_tid := 3\<rparr>)) \<and>
      m_next m' = NULL \<and> m_end m' = NULL)"
proof -
  have h: "m_tid (machine_sample\<lparr>m_tid := 3\<rparr>) \<noteq> 0" by simp
  note th = C7_other_threads_are_silent
     [OF h, of writer_sample 2 "\<lambda>a c r. r" xed_sample globals_sample
        "[(runtime_sample, \<lambda>r. r, True,
           plain_ins\<lparr>INS_IsMemoryRead := True, INS_IsStandardMemop := True\<rparr>),
          (runtime_sample, \<lambda>r. r, True, plain_ins\<lparr>INS_IsCall := True\<rparr>)]"]
  have a: "m_next (ThreadStart 3 writer_sample (machine_sample\<lparr>m_tid := 3\<rparr>)) = NULL"
    using th [THEN conjunct1] by simp
  have b: "m_end (ThreadStart 3 writer_sample (machine_sample\<lparr>m_tid := 3\<rparr>)) = NULL"
    using th [THEN conjunct2, THEN conjunct1] by simp
  have c: "os_chars (g_cerr (m_globals (ThreadStart 3 writer_sample (machine_sample\<lparr>m_tid := 3\<rparr>)))) =
     ''Ignoring thread #3'' @ [CHR 0x0A]"
    using th [THEN conjunct2, THEN conjunct2, THEN conjunct2, THEN conjunct1]
    by (simp add: machine_sample_def globals_sample_def initial_globals_def show_nat_10_3)
  have d: "CheckBufferAndStore 2 100 104 3 (m_globals machine_sample) =
     Inr (100, m_globals machine_sample)"
    using th [THEN conjunct2, THEN conjunct2, THEN conjunct2, THEN conjunct2, THEN conjunct2,
              THEN conjunct2, THEN conjunct1]
    by simp
  have e: "\<exists>m'. exec_path 2 (\<lambda>a c r. r) xed_sample globals_sample
      [(runtime_sample, \<lambda>r. r, True,
        plain_ins\<lparr>INS_IsMemoryRead := True, INS_IsStandardMemop := True\<rparr>),
       (runtime_sample, \<lambda>r. r, True, plain_ins\<lparr>INS_IsCall := True\<rparr>)]
      (ThreadStart 3 writer_sample (machine_sample\<lparr>m_tid := 3\<rparr>)) = Inr (m', []) \<and>
      m_globals m' = m_globals (ThreadStart 3 writer_sample (machine_sample\<lparr>m_tid := 3\<rparr>)) \<and>
      m_next m' = NULL \<and> m_end m' = NULL"
    using th [THEN conjunct2, THEN conjunct2, THEN conjunct2, THEN conjunct2, THEN conjunct2,
              THEN conjunct2, THEN conjunct2]
    by simp
  from h a b c d e show ?thesis by (intro conjI)
qed


lemma fixed_images [simp]:
  "g_images globals_fixed = g_images globals_sample"
  "g_useFixedRandomNumber globals_fixed" "g_fixedRandomNumber globals_fixed = 4660"
  "m_globals machine_fixed = globals_fixed" "m_regs machine_fixed = (\<lambda>r. 0)"
  by (simp_all add: globals_fixed_def machine_fixed_def machine_sample_def)


lemma sample_writer [simp]:
  "g_threadData (m_globals machine_sample) 0 = Some writer_sample"
  "tw_file writer_sample = Some ''out_t7.trace''"
  "tw_disk writer_sample ''out_t7.trace'' = Some [Branch 4000 4100 True True]"
  "Begin writer_sample = 100" "End writer_sample = 104"
  "tw_entries writer_sample =
     [MemoryRead 4100 1, MemoryRead 4104 2, MemoryWrite 4108 3, Ret 4112 4200]"
  "tw_prefix writer_sample = ''out''"
  by (simp_all add: machine_sample_def writer_sample_def Begin_def End_def)


lemma exec_notifyStart:
  "exec_call K C rt F_TestcaseStart
     [IARG_FUNCARG_ENTRYPOINT_VALUE 0, IARG_THREAD_ID,
      IARG_REG_VALUE nextBufferEntryReg, IARG_RETURN_REGS nextBufferEntryReg] m =
   (case TestcaseStart (rt_funcarg rt 0) (m_tid m) (m_next m) (m_globals m) of
      Inl e \<Rightarrow> Inl e
    | Inr (p, g') \<Rightarrow> Inr (V_ptr p, m\<lparr>m_globals := g', m_next := p\<rparr>, []))"
  by (simp add: exec_call_def call_afun_def write_return_def flush_result_def split: sum.splits)

lemma exec_notifyEnd:
  "exec_call K C rt F_TestcaseEnd
     [IARG_REG_VALUE nextBufferEntryReg, IARG_THREAD_ID, IARG_RETURN_REGS nextBufferEntryReg] m =
   (case TestcaseEnd (m_next m) (m_tid m) (m_globals m) of
      Inl e \<Rightarrow> Inl e
    | Inr (p, g') \<Rightarrow> Inr (V_ptr p, m\<lparr>m_globals := g', m_next := p\<rparr>, []))"
  by (simp add: exec_call_def call_afun_def write_return_def flush_result_def split: sum.splits)

lemma hook_calls:
  "filter (\<lambda>q. fst q = n) (snd (hook img rtnName calls message st)) =
     filter (\<lambda>q. fst q = n) (snd st) @
     (if rtnName \<in> set (IMG_Routines img) \<and> rtnName = n then map (Pair rtnName) calls else [])"
  by (auto simp: hook_def filter_map o_def)

lemma show_int_8: "show_int 8 = ''8''"
  by (simp add: show_int_def show_nat.simps digit_char_def)

lemma two_entries [simp]:
  "m_tid machine_two_entries = 0" "m_next machine_two_entries = 102"
  "m_globals machine_two_entries = m_globals machine_sample"
  by (simp_all add: machine_two_entries_def machine_sample_def)


lemma REG_Size_cases: "REG_Size r = 2 \<or> REG_Size r = 4 \<or> REG_Size r = 8"
  by (cases r) simp_all

lemma read_write_reg:
  "read_reg (write_reg r v regs) r = take_bit (8 * REG_Size r) v"
proof -
  have "take_bit 16 (push_bit 16 x OR take_bit 16 v) = take_bit 16 v" for x :: "64 word"
    by (simp add: take_bit_push_bit)
  then show ?thesis
    using REG_Size_cases [of r] by (auto simp: read_reg_def write_reg_def)
qed

lemma take_bit_self_unat:
  "(take_bit n (w :: 64 word) = w) \<longleftrightarrow> unat w < 2 ^ n"
  by (simp add: word_unat_eq_iff unsigned_take_bit_eq take_bit_nat_eq_self_iff)

lemma InstrumentIns_no_override:
  assumes "\<not> g_useFixedRandomNumber g" "p \<in> set (InstrumentIns X g b ins)"
  shows "afun_of p \<noteq> F_ChangeRandomNumber"
proof (cases "skipped X ins")
  case True
  with assms show ?thesis by (simp add: InstrumentIns_skipped)
next
  case False
  note ns = this
  show ?thesis
  proof (cases "overridden X g ins")
    case True
    with assms(1) have c: "INS_Opcode ins = XED_ICLASS_CPUID X" by (simp add: overridden_def)
    from assms(2) show ?thesis
      by (auto simp: InstrumentIns_overridden [OF ns True] c cpuid_probes_def)
  next
    case False
    from assms(2) show ?thesis
      by (auto simp: InstrumentIns_reached [OF ns False] call_probes_def branch_probes_def
            ret_probes_def memread_probes_def memread2_probes_def memwrite_probes_def
          split: if_splits)
  qed
qed


text \<open>Claim C5, as amended. \<open>main\<close> enables the RDRAND override exactly when the value
  of \<open>-r\<close> differs from \<open>0xBADBADBADBADBAD\<close>, and then stores that value. With the
  override enabled, an RDRAND instruction that passes the planner's first filters (no
  segment prefix, opcode outside the push/pop ranges, not LEA, not CPUID) in an
  attributable block gets exactly one call, \<open>ChangeRandomNumber\<close> at \<open>IPOINT_AFTER\<close> on
  its destination register; after the instruction falls through, the destination
  register holds the fixed value cut to the register's width, whatever the instruction
  itself wrote, and so equals the fixed value exactly when that fits the register (always
  for a 64-bit destination). With the override disabled no trace gets a
  \<open>ChangeRandomNumber\<close> call.\<close>

theorem C5_rdrand_override:
  assumes ns: "\<not> skipped X ins" and nc: "INS_Opcode ins \<noteq> XED_ICLASS_CPUID X"
    and rd: "INS_Opcode ins = XED_ICLASS_RDRAND X"
    and on: "g_useFixedRandomNumber (m_globals m)"
    and bbl: "bbl \<in> set trace" "find_image (g_images (m_globals m)) bbl = Some img"
      "ins \<in> set (BBL_Ins bbl)"
    and ft: "\<not> rt_branch_taken rt"
    and off: "\<not> g_useFixedRandomNumber g0"
  shows "(g_useFixedRandomNumber (snd (main False summary k initial_globals)) \<longleftrightarrow>
            KnobFixedRandomNumbers k \<noteq> 0xBADBADBADBADBAD) \<and>
         g_fixedRandomNumber (snd (main False summary k initial_globals)) =
           (if KnobFixedRandomNumbers k \<noteq> 0xBADBADBADBADBAD then KnobFixedRandomNumbers k else 0) \<and>
         InstrumentIns X (m_globals m) (IsInteresting img) ins =
           [INS_InsertCall IPOINT_AFTER F_ChangeRandomNumber [IARG_REG_REFERENCE (INS_RegW0 ins)]] \<and>
         sublist
           [(ins, INS_InsertCall IPOINT_AFTER F_ChangeRandomNumber
                    [IARG_REG_REFERENCE (INS_RegW0 ins)])]
           (snd (InstrumentTrace X (m_globals m) trace)) \<and>
         (\<exists>m'. exec_ins K C rt eff (InstrumentIns X (m_globals m) (IsInteresting img) ins) m =
                  Inr (m', []) \<and>
               read_reg (m_regs m') (INS_RegW0 ins) =
                 take_bit (8 * REG_Size (INS_RegW0 ins)) (g_fixedRandomNumber (m_globals m)) \<and>
               (read_reg (m_regs m') (INS_RegW0 ins) = g_fixedRandomNumber (m_globals m) \<longleftrightarrow>
                  unat (g_fixedRandomNumber (m_globals m)) < 2 ^ (8 * REG_Size (INS_RegW0 ins))) \<and>
               m_globals m' = m_globals m) \<and>
         filter (\<lambda>q. afun_of (snd q) = F_ChangeRandomNumber)
           (snd (InstrumentTrace X g0 trace0)) = []"
proof -
  have a: "g_useFixedRandomNumber (snd (main False summary k initial_globals)) \<longleftrightarrow>
            KnobFixedRandomNumbers k \<noteq> 0xBADBADBADBADBAD"
    by (simp add: main_def initial_globals_def)
  have b: "g_fixedRandomNumber (snd (main False summary k initial_globals)) =
           (if KnobFixedRandomNumbers k \<noteq> 0xBADBADBADBADBAD then KnobFixedRandomNumbers k else 0)"
    by (simp add: main_def initial_globals_def)
  have ov: "overridden X (m_globals m) ins"
    using rd on by (simp add: overridden_def)
  have plan: "InstrumentIns X (m_globals m) b ins = rdrand_probes ins" for b
    using nc by (simp add: InstrumentIns_overridden [OF ns ov])
  have c: "InstrumentIns X (m_globals m) (IsInteresting img) ins =
           [INS_InsertCall IPOINT_AFTER F_ChangeRandomNumber [IARG_REG_REFERENCE (INS_RegW0 ins)]]"
    by (simp add: plan rdrand_probes_def)
  have d: "sublist
           [(ins, INS_InsertCall IPOINT_AFTER F_ChangeRandomNumber
                    [IARG_REG_REFERENCE (INS_RegW0 ins)])]
           (snd (InstrumentTrace X (m_globals m) trace))"
    using InstrumentTrace_sublist [OF bbl, of X] by (simp add: c)
  have x: "exec_ins K C rt eff (rdrand_probes ins) m =
          Inr (m\<lparr>m_regs := write_reg (INS_RegW0 ins) (g_fixedRandomNumber (m_globals m))
                            (eff (m_regs m))\<rparr>, [])"
    using ft
    by (simp add: exec_ins_def rdrand_probes_def exec_call_def call_afun_def write_return_def
          ChangeRandomNumber_def)
  have e: "\<exists>m'. exec_ins K C rt eff (InstrumentIns X (m_globals m) (IsInteresting img) ins) m =
                  Inr (m', []) \<and>
               read_reg (m_regs m') (INS_RegW0 ins) =
                 take_bit (8 * REG_Size (INS_RegW0 ins)) (g_fixedRandomNumber (m_globals m)) \<and>
               (read_reg (m_regs m') (INS_RegW0 ins) = g_fixedRandomNumber (m_globals m) \<longleftrightarrow>
                  unat (g_fixedRandomNumber (m_globals m)) < 2 ^ (8 * REG_Size (INS_RegW0 ins))) \<and>
               m_globals m' = m_globals m"
    by (simp add: plan x read_write_reg take_bit_self_unat)
  have f: "filter (\<lambda>q. afun_of (snd q) = F_ChangeRandomNumber)
           (snd (InstrumentTrace X g0 trace0)) = []"
  proof -
    have "afun_of (snd q) \<noteq> F_ChangeRandomNumber"
      if "q \<in> set (snd (InstrumentTrace X g0 trace0))" for q
    proof -
      from that have "(fst q, snd q) \<in> set (snd (InstrumentTrace X g0 trace0))" by simp
      from InstrumentTrace_mem [OF this] obtain img' where
        "snd q \<in> set (InstrumentIns X g0 (IsInteresting img') (fst q))"
        by blast
      from InstrumentIns_no_override [OF off this] show ?thesis .
    qed
    then show ?thesis by (simp add: filter_empty_conv)
  qed
  from a b c d e f show ?thesis by (intro conjI)
qed

theorem C5_witness:
  "\<not> skipped xed_sample (plain_ins\<lparr>INS_Opcode := 700\<rparr>) \<and> INS_Opcode (plain_ins\<lparr>INS_Opcode := 700\<rparr>) = XED_ICLASS_RDRAND xed_sample \<and>
   g_useFixedRandomNumber (m_globals machine_fixed) \<and>
   find_image (g_images (m_globals machine_fixed)) \<lparr>BBL_Address = 4096, BBL_Ins = [plain_ins\<lparr>INS_Opcode := 700\<rparr>]\<rparr> =
     Some image_a \<and>
   \<not> rt_branch_taken runtime_fallthrough \<and>
   \<not> g_useFixedRandomNumber globals_sample \<and>
   g_useFixedRandomNumber (snd (main False [] knobs_sample initial_globals)) \<and>
   g_fixedRandomNumber (snd (main False [] knobs_sample initial_globals)) = 4660 \<and>
   InstrumentIns xed_sample (m_globals machine_fixed) (IsInteresting image_a) (plain_ins\<lparr>INS_Opcode := 700\<rparr>) =
     [INS_InsertCall IPOINT_AFTER F_ChangeRandomNumber [IARG_REG_REFERENCE REG_RAX]] \<and>
   (\<exists>m'. exec_ins 2 cpuid_unchanged runtime_fallthrough hardware_rdrand
           (InstrumentIns xed_sample (m_globals machine_fixed) (IsInteresting image_a) (plain_ins\<lparr>INS_Opcode := 700\<rparr>))
           machine_fixed = Inr (m', []) \<and>
         read_reg (m_regs m') REG_RAX = 4660) \<and>
   filter (\<lambda>q. afun_of (snd q) = F_ChangeRandomNumber)
     (snd (InstrumentTrace xed_sample globals_sample
        [\<lparr>BBL_Address = 4096, BBL_Ins = [plain_ins\<lparr>INS_Opcode := 700\<rparr>]\<rparr>])) = []"
proof -
  have h1: "\<not> skipped xed_sample (plain_ins\<lparr>INS_Opcode := 700\<rparr>)"
    by (simp add: skipped_def xed_sample_def plain_ins_def)
  have h2: "INS_Opcode (plain_ins\<lparr>INS_Opcode := 700\<rparr>) \<noteq> XED_ICLASS_CPUID xed_sample"
    by (simp add: xed_sample_def)
  have h3: "INS_Opcode (plain_ins\<lparr>INS_Opcode := 700\<rparr>) = XED_ICLASS_RDRAND xed_sample"
    by (simp add: xed_sample_def)
  have h4: "g_useFixedRandomNumber (m_globals machine_fixed)" by simp
  have h5: "\<lparr>BBL_Address = 4096, BBL_Ins = [plain_ins\<lparr>INS_Opcode := 700\<rparr>]\<rparr>
              \<in> set [\<lparr>BBL_Address = 4096, BBL_Ins = [plain_ins\<lparr>INS_Opcode := 700\<rparr>]\<rparr>]"
    by simp
  have h6: "find_image (g_images (m_globals machine_fixed))
              \<lparr>BBL_Address = 4096, BBL_Ins = [plain_ins\<lparr>INS_Opcode := 700\<rparr>]\<rparr> = Some image_a"
    by simp
  have h7: "(plain_ins\<lparr>INS_Opcode := 700\<rparr>) \<in> set (BBL_Ins \<lparr>BBL_Address = 4096, BBL_Ins = [plain_ins\<lparr>INS_Opcode := 700\<rparr>]\<rparr>)"
    by simp
  have h8: "\<not> rt_branch_taken runtime_fallthrough"
    by (simp add: runtime_fallthrough_def)
  have h9: "\<not> g_useFixedRandomNumber globals_sample" by simp
  note th = C5_rdrand_override [OF h1 h2 h3 h4 h5 h6 h7 h8 h9,
              of "[]" knobs_sample 2 cpuid_unchanged hardware_rdrand
                 "[\<lparr>BBL_Address = 4096, BBL_Ins = [plain_ins\<lparr>INS_Opcode := 700\<rparr>]\<rparr>]"]
  have a: "g_useFixedRandomNumber (snd (main False [] knobs_sample initial_globals))"
    using th [THEN conjunct1] by (simp add: knobs_sample_def)
  have b: "g_fixedRandomNumber (snd (main False [] knobs_sample initial_globals)) = 4660"
    using th [THEN conjunct2, THEN conjunct1] by (simp add: knobs_sample_def)
  have c: "InstrumentIns xed_sample (m_globals machine_fixed) (IsInteresting image_a) (plain_ins\<lparr>INS_Opcode := 700\<rparr>) =
     [INS_InsertCall IPOINT_AFTER F_ChangeRandomNumber [IARG_REG_REFERENCE REG_RAX]]"
    using th [THEN conjunct2, THEN conjunct2, THEN conjunct1] by (simp add: plain_ins_def)
  have d: "\<exists>m'. exec_ins 2 cpuid_unchanged runtime_fallthrough hardware_rdrand
           (InstrumentIns xed_sample (m_globals machine_fixed) (IsInteresting image_a) (plain_ins\<lparr>INS_Opcode := 700\<rparr>))
           machine_fixed = Inr (m', []) \<and>
         read_reg (m_regs m') REG_RAX = 4660"
    using th [THEN conjunct2, THEN conjunct2, THEN conjunct2, THEN conjunct2, THEN conjunct1]
    by (auto simp: plain_ins_def)
  note e = th [THEN conjunct2, THEN conjunct2, THEN conjunct2, THEN conjunct2, THEN conjunct2]
  from h1 h3 h4 h6 h8 h9 a b c d e show ?thesis by (intro conjI)
qed

text \<open>The claim as stated, for every executed RDRAND and with the register equal to the
  64-bit value, fails three ways: a segment-prefixed RDRAND in an attributable block gets
  no probe and keeps the hardware's value; an RDRAND in a block that no image contains
  gets no probe either; and \<open>rdrand eax\<close> under \<open>-r 0x123456789ABCDEF0\<close> is left
  with the low 32 bits, \<open>0x9ABCDEF0\<close>.\<close>

theorem C5_counterexample:
  "INS_Opcode (plain_ins\<lparr>INS_SegmentPrefix := True, INS_Opcode := 700\<rparr>) = XED_ICLASS_RDRAND xed_sample \<and>
   INS_SegmentPrefix (plain_ins\<lparr>INS_SegmentPrefix := True, INS_Opcode := 700\<rparr>) \<and>
   g_useFixedRandomNumber globals_fixed \<and> g_fixedRandomNumber globals_fixed = 4660 \<and>
   find_image (g_images globals_fixed) \<lparr>BBL_Address = 4096, BBL_Ins = [plain_ins\<lparr>INS_SegmentPrefix := True, INS_Opcode := 700\<rparr>]\<rparr> = Some image_a \<and>
   snd (InstrumentTrace xed_sample globals_fixed
          [\<lparr>BBL_Address = 4096, BBL_Ins = [plain_ins\<lparr>INS_SegmentPrefix := True, INS_Opcode := 700\<rparr>]\<rparr>]) = [] \<and>
   exec_ins 2 cpuid_unchanged runtime_fallthrough hardware_rdrand
       (InstrumentIns xed_sample globals_fixed (IsInteresting image_a) (plain_ins\<lparr>INS_SegmentPrefix := True, INS_Opcode := 700\<rparr>)) machine_fixed =
     Inr (machine_fixed\<lparr>m_regs := hardware_rdrand (m_regs machine_fixed)\<rparr>, []) \<and>
   read_reg (m_regs (machine_fixed\<lparr>m_regs := hardware_rdrand (m_regs machine_fixed)\<rparr>)) REG_RAX = 4369 \<and>
   read_reg (m_regs (machine_fixed\<lparr>m_regs := hardware_rdrand (m_regs machine_fixed)\<rparr>)) REG_RAX \<noteq>
     g_fixedRandomNumber globals_fixed \<and>
   find_image (g_images globals_fixed) \<lparr>BBL_Address = 12288, BBL_Ins = [plain_ins\<lparr>INS_Opcode := 700\<rparr>]\<rparr> = None \<and>
   snd (InstrumentTrace xed_sample globals_fixed
          [\<lparr>BBL_Address = 12288, BBL_Ins = [plain_ins\<lparr>INS_Opcode := 700\<rparr>]\<rparr>]) = [] \<and>
   g_useFixedRandomNumber globals_wide \<and> g_fixedRandomNumber globals_wide = 0x123456789ABCDEF0 \<and>
   INS_RegW0 (plain_ins\<lparr>INS_Opcode := 700, INS_RegW0 := REG_EAX\<rparr>) = REG_EAX \<and>
   snd (InstrumentTrace xed_sample globals_wide
          [\<lparr>BBL_Address = 4096, BBL_Ins = [plain_ins\<lparr>INS_Opcode := 700, INS_RegW0 := REG_EAX\<rparr>]\<rparr>]) =
     [(plain_ins\<lparr>INS_Opcode := 700, INS_RegW0 := REG_EAX\<rparr>,
       INS_InsertCall IPOINT_AFTER F_ChangeRandomNumber [IARG_REG_REFERENCE REG_EAX])] \<and>
   exec_ins 2 cpuid_unchanged runtime_fallthrough hardware_rdrand
       (InstrumentIns xed_sample globals_wide (IsInteresting image_a)
          (plain_ins\<lparr>INS_Opcode := 700, INS_RegW0 := REG_EAX\<rparr>)) machine_wide =
     Inr (machine_wide\<lparr>m_regs := (hardware_rdrand (m_regs machine_wide))(REG_RAX := 0x9ABCDEF0)\<rparr>, []) \<and>
   read_reg ((hardware_rdrand (m_regs machine_wide))(REG_RAX := 0x9ABCDEF0)) REG_EAX = 0x9ABCDEF0 \<and>
   read_reg ((hardware_rdrand (m_regs machine_wide))(REG_RAX := 0x9ABCDEF0)) REG_EAX \<noteq>
     g_fixedRandomNumber globals_wide"
proof -
  have p: "InstrumentIns xed_sample globals_fixed b (plain_ins\<lparr>INS_SegmentPrefix := True, INS_Opcode := 700\<rparr>) = []" for b
    by (simp add: InstrumentIns_def)
  have x: "exec_ins 2 cpuid_unchanged runtime_fallthrough hardware_rdrand [] machine_fixed =
     Inr (machine_fixed\<lparr>m_regs := hardware_rdrand (m_regs machine_fixed)\<rparr>, [])"
    by (simp add: exec_ins_def)
  have o: "INS_Opcode (plain_ins\<lparr>INS_SegmentPrefix := True, INS_Opcode := 700\<rparr>) =
      XED_ICLASS_RDRAND xed_sample"
    by (simp add: xed_sample_def)
  have w: "g_useFixedRandomNumber globals_wide" "g_fixedRandomNumber globals_wide = 0x123456789ABCDEF0"
    "g_images globals_wide = g_images globals_sample" "m_globals machine_wide = globals_wide"
    by (simp_all add: globals_wide_def globals_fixed_def machine_wide_def)
  have ns: "\<not> skipped xed_sample (plain_ins\<lparr>INS_Opcode := 700, INS_RegW0 := REG_EAX\<rparr>)"
    by (simp add: skipped_def xed_sample_def plain_ins_def)
  have ov: "overridden xed_sample globals_wide (plain_ins\<lparr>INS_Opcode := 700, INS_RegW0 := REG_EAX\<rparr>)"
    by (simp add: overridden_def xed_sample_def w)
  have q: "InstrumentIns xed_sample globals_wide b (plain_ins\<lparr>INS_Opcode := 700, INS_RegW0 := REG_EAX\<rparr>) =
      [INS_InsertCall IPOINT_AFTER F_ChangeRandomNumber [IARG_REG_REFERENCE REG_EAX]]" for b
  proof -
    have nc: "INS_Opcode (plain_ins\<lparr>INS_Opcode := 700, INS_RegW0 := REG_EAX\<rparr>) \<noteq>
        XED_ICLASS_CPUID xed_sample"
      by (simp add: xed_sample_def)
    show ?thesis
      unfolding InstrumentIns_overridden [OF ns ov] using nc by (simp add: rdrand_probes_def)
  qed
  have y: "exec_ins 2 cpuid_unchanged runtime_fallthrough hardware_rdrand
       [INS_InsertCall IPOINT_AFTER F_ChangeRandomNumber [IARG_REG_REFERENCE REG_EAX]] machine_wide =
     Inr (machine_wide\<lparr>m_regs := (hardware_rdrand (m_regs machine_wide))(REG_RAX := 0x9ABCDEF0)\<rparr>, [])"
    by (simp add: exec_ins_def exec_call_def call_afun_def write_return_def
          ChangeRandomNumber_def runtime_fallthrough_def write_reg_def w)
  show ?thesis
    by (simp add: p x o q y w hardware_rdrand_def InstrumentBblIns_def read_reg_def)
qed


lemma sublist_map_suffix:
  "sublist (map f (xs @ ys)) zs \<Longrightarrow> sublist (map f ys) zs"
proof -
  assume "sublist (map f (xs @ ys)) zs"
  then obtain ps ss where "zs = ps @ map f (xs @ ys) @ ss" by (auto simp: sublist_def)
  then have "zs = (ps @ map f xs) @ map f ys @ ss" by simp
  then show ?thesis unfolding sublist_def by blast
qed

lemma memory_probe_needs_interest:
  assumes "(i, p) \<in> set (snd (InstrumentTrace X g t))" "is_memory_probe p"
  shows "\<exists>bbl img. bbl \<in> set t \<and> find_image (g_images g) bbl = Some img \<and>
           IsInteresting img \<and> i \<in> set (BBL_Ins bbl)"
proof -
  from InstrumentTrace_mem [OF assms(1)] obtain bbl img where
    b: "bbl \<in> set t" "find_image (g_images g) bbl = Some img" "i \<in> set (BBL_Ins bbl)"
    and p: "p \<in> set (InstrumentIns X g (IsInteresting img) i)"
    by blast
  have "IsInteresting img"
  proof (rule ccontr)
    assume "\<not> IsInteresting img"
    then have "filter is_memory_probe (InstrumentIns X g (IsInteresting img) i) = []"
      by (simp add: InstrumentIns_uninteresting_no_memory_probe)
    with p assms(2) show False by (simp add: filter_empty_conv)
  qed
  with b show ?thesis by blast
qed

lemma sample_memory_instructions [simp]:
  "\<not> skipped xed_sample mem_ins" "\<not> overridden xed_sample globals_sample mem_ins"
  "\<not> INS_IsCall mem_ins" "\<not> INS_IsBranch mem_ins" "\<not> INS_IsRet mem_ins"
  "INS_IsMemoryRead mem_ins" "\<not> INS_HasMemoryRead2 mem_ins" "INS_IsMemoryWrite mem_ins"
  "INS_IsStandardMemop mem_ins"
  "\<not> skipped xed_sample call_mem_ins" "\<not> overridden xed_sample globals_sample call_mem_ins"
  "INS_IsCall call_mem_ins"
  "find_image (g_images globals_sample) bbl_b = Some image_b"
  "find_image (g_images globals_sample) bbl_a = Some image_a"
  "BBL_Ins bbl_a = [mem_ins]" "BBL_Ins bbl_b = [call_mem_ins, mem_ins]"
  by (simp_all add: mem_ins_def call_mem_ins_def bbl_a_def bbl_b_def skipped_def overridden_def
        xed_sample_def plain_ins_def)


text \<open>Claim C2. For an instruction that reaches the memory-operand stage of the walk
  (it passes steps 1 to 5 and is neither a call nor a branch), the memory probes
  registered are: none when the owning image is not interesting; when it is, one
  MemoryRead probe for a standard first read operand, one for a standard second read
  operand and one MemoryWrite probe for a standard write operand, each at
  \<open>IPOINT_BEFORE\<close>. \<open>InstrumentTrace\<close> registers these probe sequences on the instruction
  when its block belongs to an interesting image, and every memory probe that
  \<open>InstrumentTrace\<close> registers is on an instruction of a block of an interesting image.
  Hence no memory probe is registered for a block owned by an uninteresting image, and
  executing an instruction of such a block emits no MemoryRead or MemoryWrite entry.\<close>

theorem C2_memory_probes_iff_interesting:
  assumes reach: "\<not> skipped X ins" "\<not> overridden X g ins"
    and nb: "\<not> INS_IsCall ins" "\<not> INS_IsBranch ins"
    and un: "find_image (g_images g) bbl' = Some img'" "\<not> IsInteresting img'"
    and ex: "exec_ins K C rt eff (InstrumentIns X g (IsInteresting img') ins') m = Inr (m', out)"
    and own: "bbl \<in> set trace" "find_image (g_images g) bbl = Some img" "IsInteresting img"
      "ins \<in> set (BBL_Ins bbl)"
    and mp: "(i, p) \<in> set (snd (InstrumentTrace X g trace'))" "is_memory_probe p"
  shows "filter is_memory_probe (InstrumentIns X g interesting ins) =
           (if interesting then
              (if INS_IsMemoryRead ins \<and> INS_IsStandardMemop ins then
                 [INS_InsertThenCall IPOINT_BEFORE F_InsertMemoryReadEntry
                    [IARG_REG_VALUE nextBufferEntryReg, IARG_INST_PTR, IARG_MEMORYREAD_EA,
                     IARG_RETURN_REGS nextBufferEntryReg]]
               else []) @
              (if INS_HasMemoryRead2 ins \<and> INS_IsStandardMemop ins then
                 [INS_InsertThenCall IPOINT_BEFORE F_InsertMemoryReadEntry
                    [IARG_REG_VALUE nextBufferEntryReg, IARG_INST_PTR, IARG_MEMORYREAD2_EA,
                     IARG_RETURN_REGS nextBufferEntryReg]]
               else []) @
              (if INS_IsMemoryWrite ins \<and> INS_IsStandardMemop ins then
                 [INS_InsertThenCall IPOINT_BEFORE F_InsertMemoryWriteEntry
                    [IARG_REG_VALUE nextBufferEntryReg, IARG_INST_PTR, IARG_MEMORYWRITE_EA,
                     IARG_RETURN_REGS nextBufferEntryReg]]
               else [])
            else []) \<and>
         filter (\<lambda>q. is_memory_probe (snd q)) (snd (InstrumentTrace X g [bbl'])) = [] \<and>
         filter is_memory_entry out = [] \<and>
         sublist
           (map (Pair ins)
              ((if INS_IsMemoryRead ins \<and> INS_IsStandardMemop ins then memread_probes else []) @
               (if INS_HasMemoryRead2 ins \<and> INS_IsStandardMemop ins then memread2_probes else []) @
               (if INS_IsMemoryWrite ins \<and> INS_IsStandardMemop ins then memwrite_probes else [])))
           (snd (InstrumentTrace X g trace)) \<and>
         (\<exists>b im. b \<in> set trace' \<and> find_image (g_images g) b = Some im \<and> IsInteresting im \<and>
            i \<in> set (BBL_Ins b))"
proof -
  have a: "filter is_memory_probe (InstrumentIns X g interesting ins) =
           (if interesting then
              (if INS_IsMemoryRead ins \<and> INS_IsStandardMemop ins then
                 [INS_InsertThenCall IPOINT_BEFORE F_InsertMemoryReadEntry
                    [IARG_REG_VALUE nextBufferEntryReg, IARG_INST_PTR, IARG_MEMORYREAD_EA,
                     IARG_RETURN_REGS nextBufferEntryReg]]
               else []) @
              (if INS_HasMemoryRead2 ins \<and> INS_IsStandardMemop ins then
                 [INS_InsertThenCall IPOINT_BEFORE F_InsertMemoryReadEntry
                    [IARG_REG_VALUE nextBufferEntryReg, IARG_INST_PTR, IARG_MEMORYREAD2_EA,
                     IARG_RETURN_REGS nextBufferEntryReg]]
               else []) @
              (if INS_IsMemoryWrite ins \<and> INS_IsStandardMemop ins then
                 [INS_InsertThenCall IPOINT_BEFORE F_InsertMemoryWriteEntry
                    [IARG_REG_VALUE nextBufferEntryReg, IARG_INST_PTR, IARG_MEMORYWRITE_EA,
                     IARG_RETURN_REGS nextBufferEntryReg]]
               else [])
            else [])"
    using nb by (simp add: InstrumentIns_reached [OF reach] memory_probes_of_memory_stage)
  have none: "filter is_memory_probe (InstrumentIns X g (IsInteresting img') i) = []" for i
    using un(2) by (simp add: InstrumentIns_uninteresting_no_memory_probe)
  have "filter (\<lambda>q. is_memory_probe (snd q)) (InstrumentBblIns X g (IsInteresting img') inss) = []"
    for inss
    by (induction inss) (simp_all add: InstrumentBblIns_def filter_map o_def none)
  then have b: "filter (\<lambda>q. is_memory_probe (snd q)) (snd (InstrumentTrace X g [bbl'])) = []"
    using un(1) by simp
  have c: "filter is_memory_entry out = []"
    by (rule exec_ins_no_memory [OF none ex])
  have plan: "InstrumentIns X g (IsInteresting img) ins =
      (if INS_IsRet ins then ret_probes else []) @
      ((if INS_IsMemoryRead ins \<and> INS_IsStandardMemop ins then memread_probes else []) @
       (if INS_HasMemoryRead2 ins \<and> INS_IsStandardMemop ins then memread2_probes else []) @
       (if INS_IsMemoryWrite ins \<and> INS_IsStandardMemop ins then memwrite_probes else []))"
    using nb own(3) by (simp add: InstrumentIns_reached [OF reach])
  have d: "sublist
           (map (Pair ins)
              ((if INS_IsMemoryRead ins \<and> INS_IsStandardMemop ins then memread_probes else []) @
               (if INS_HasMemoryRead2 ins \<and> INS_IsStandardMemop ins then memread2_probes else []) @
               (if INS_IsMemoryWrite ins \<and> INS_IsStandardMemop ins then memwrite_probes else [])))
           (snd (InstrumentTrace X g trace))"
    using InstrumentTrace_sublist [OF own(1,2,4), of X]
    unfolding plan by (rule sublist_map_suffix)
  note e = memory_probe_needs_interest [OF mp]
  from a b c d e show ?thesis by (intro conjI)
qed

theorem C2_witness:
  "\<not> skipped xed_sample mem_ins \<and> \<not> overridden xed_sample globals_sample mem_ins \<and>
   \<not> INS_IsCall mem_ins \<and> \<not> INS_IsBranch mem_ins \<and>
   find_image (g_images globals_sample) bbl_b = Some image_b \<and> \<not> IsInteresting image_b \<and>
   find_image (g_images globals_sample) bbl_a = Some image_a \<and> IsInteresting image_a \<and>
   mem_ins \<in> set (BBL_Ins bbl_a) \<and>
   filter is_memory_probe (InstrumentIns xed_sample globals_sample True mem_ins) =
     [INS_InsertThenCall IPOINT_BEFORE F_InsertMemoryReadEntry
        [IARG_REG_VALUE nextBufferEntryReg, IARG_INST_PTR, IARG_MEMORYREAD_EA,
         IARG_RETURN_REGS nextBufferEntryReg],
      INS_InsertThenCall IPOINT_BEFORE F_InsertMemoryWriteEntry
        [IARG_REG_VALUE nextBufferEntryReg, IARG_INST_PTR, IARG_MEMORYWRITE_EA,
         IARG_RETURN_REGS nextBufferEntryReg]] \<and>
   filter is_memory_probe (InstrumentIns xed_sample globals_sample False mem_ins) = [] \<and>
   filter (\<lambda>q. is_memory_probe (snd q))
     (snd (InstrumentTrace xed_sample globals_sample [bbl_b])) = [] \<and>
   (\<exists>m'. exec_ins 2 (\<lambda>a c r. r) runtime_sample (\<lambda>r. r)
           (InstrumentIns xed_sample globals_sample (IsInteresting image_b) call_mem_ins)
           machine_sample = Inr (m', [Branch 4100 4200 True True])) \<and>
   filter is_memory_entry [Branch 4100 4200 True True] = [] \<and>
   sublist (map (Pair mem_ins) (memread_probes @ memwrite_probes))
     (snd (InstrumentTrace xed_sample globals_sample [bbl_b, bbl_a])) \<and>
   snd (InstrumentTrace xed_sample globals_sample [bbl_b, bbl_a]) =
     map (Pair call_mem_ins) call_probes @ map (Pair mem_ins) (memread_probes @ memwrite_probes) \<and>
   (\<exists>b im. b \<in> set [bbl_b, bbl_a] \<and> find_image (g_images globals_sample) b = Some im \<and>
      IsInteresting im \<and> mem_ins \<in> set (BBL_Ins b))"
proof -
  have h1: "\<not> skipped xed_sample mem_ins" by simp
  have h2: "\<not> overridden xed_sample globals_sample mem_ins" by simp
  have h3: "\<not> INS_IsCall mem_ins" by simp
  have h4: "\<not> INS_IsBranch mem_ins" by simp
  have h5: "find_image (g_images globals_sample) bbl_b = Some image_b" by simp
  have h6: "\<not> IsInteresting image_b" by simp
  have h8: "bbl_a \<in> set [bbl_b, bbl_a]" by simp
  have h9: "find_image (g_images globals_sample) bbl_a = Some image_a" by simp
  have h10: "IsInteresting image_a" by simp
  have h11: "mem_ins \<in> set (BBL_Ins bbl_a)" by simp
  have c1: "\<not> skipped xed_sample call_mem_ins" by simp
  have c2: "\<not> overridden xed_sample globals_sample call_mem_ins" by simp
  have plan: "InstrumentIns xed_sample globals_sample b call_mem_ins = call_probes" for b
    by (simp add: InstrumentIns_reached [OF c1 c2])
  have planm: "InstrumentIns xed_sample globals_sample b mem_ins =
      (if b then memread_probes @ memwrite_probes else [])" for b
    by (simp add: InstrumentIns_reached [OF h1 h2])
  have tr: "traced machine_sample writer_sample"
    by (simp add: traced_def machine_sample_def writer_sample_def Begin_def End_def NULL_def)
  from run_block_traced [OF writes_entry_call tr, of 2 "\<lambda>a c r. r" runtime_sample IPOINT_BEFORE]
  obtain m1 where
    x: "run_calls 2 (\<lambda>a c r. r) runtime_sample call_probes machine_sample =
          Inr (m1, [Branch 4100 4200 True True])"
    by (auto simp: call_probes_def runtime_sample_def)
  have ex: "exec_ins 2 (\<lambda>a c r. r) runtime_sample (\<lambda>r. r)
           (InstrumentIns xed_sample globals_sample (IsInteresting image_b) call_mem_ins)
           machine_sample = Inr (m1\<lparr>m_regs := m_regs m1\<rparr>, [Branch 4100 4200 True True])"
    unfolding plan using x by (simp add: exec_ins_def) (simp add: call_probes_def)
  have tv: "snd (InstrumentTrace xed_sample globals_sample [bbl_b, bbl_a]) =
     map (Pair call_mem_ins) call_probes @ map (Pair mem_ins) (memread_probes @ memwrite_probes)"
    by (simp add: InstrumentBblIns_def plan planm)
  have h12: "(mem_ins, INS_InsertThenCall IPOINT_BEFORE F_InsertMemoryReadEntry
        [IARG_REG_VALUE nextBufferEntryReg, IARG_INST_PTR, IARG_MEMORYREAD_EA,
         IARG_RETURN_REGS nextBufferEntryReg])
      \<in> set (snd (InstrumentTrace xed_sample globals_sample [bbl_b, bbl_a]))"
    unfolding tv by (simp add: memread_probes_def)
  have h13: "is_memory_probe (INS_InsertThenCall IPOINT_BEFORE F_InsertMemoryReadEntry
        [IARG_REG_VALUE nextBufferEntryReg, IARG_INST_PTR, IARG_MEMORYREAD_EA,
         IARG_RETURN_REGS nextBufferEntryReg])"
    by (simp add: is_memory_probe_def)
  note th = C2_memory_probes_iff_interesting [OF h1 h2 h3 h4 h5 h6 ex h8 h9 h10 h11 h12 h13]
  have a: "filter is_memory_probe (InstrumentIns xed_sample globals_sample True mem_ins) =
     [INS_InsertThenCall IPOINT_BEFORE F_InsertMemoryReadEntry
        [IARG_REG_VALUE nextBufferEntryReg, IARG_INST_PTR, IARG_MEMORYREAD_EA,
         IARG_RETURN_REGS nextBufferEntryReg],
      INS_InsertThenCall IPOINT_BEFORE F_InsertMemoryWriteEntry
        [IARG_REG_VALUE nextBufferEntryReg, IARG_INST_PTR, IARG_MEMORYWRITE_EA,
         IARG_RETURN_REGS nextBufferEntryReg]]"
    using th [of True, THEN conjunct1] by simp
  have b: "filter is_memory_probe (InstrumentIns xed_sample globals_sample False mem_ins) = []"
    using th [of False, THEN conjunct1] by simp
  note c = th [of True, THEN conjunct2, THEN conjunct1]
  note d = th [of True, THEN conjunct2, THEN conjunct2, THEN conjunct1]
  from ex have e: "\<exists>m'. exec_ins 2 (\<lambda>a c r. r) runtime_sample (\<lambda>r. r)
           (InstrumentIns xed_sample globals_sample (IsInteresting image_b) call_mem_ins)
           machine_sample = Inr (m', [Branch 4100 4200 True True])"
    by blast
  have f: "sublist (map (Pair mem_ins) (memread_probes @ memwrite_probes))
     (snd (InstrumentTrace xed_sample globals_sample [bbl_b, bbl_a]))"
    using th [of True, THEN conjunct2, THEN conjunct2, THEN conjunct2, THEN conjunct1]
    by simp
  note k = th [of True, THEN conjunct2, THEN conjunct2, THEN conjunct2, THEN conjunct2]
  from h1 h2 h3 h4 h5 h6 h9 h10 h11 a b c e d f tv k show ?thesis by (intro conjI)
qed







lemma closed_samples [simp]:
  "m_tid machine_closed = 0" "m_next machine_closed = 101"
  "g_threadData (m_globals machine_closed) 0 = Some writer_closed"
  "tw_file writer_closed = None" "Begin writer_closed = 100" "End writer_closed = 104"
  "tw_prefix writer_closed = ''out''"
  "m_tid machine_thread1 = 1" "g_threadData (m_globals machine_thread1) 1 = None"
  by (simp_all add: machine_closed_def writer_closed_def machine_thread1_def ThreadStart_def
        machine_sample_def writer_sample_def Begin_def End_def)


text \<open>Claim C6. \<open>InstrumentImage\<close> registers on \<open>PinNotifyTestcaseStart\<close>, at its
  entry, one call of \<open>TestcaseStart\<close> with the routine's first argument, the thread id and
  \<open>next\<close>, returning into \<open>next\<close>; on \<open>PinNotifyTestcaseEnd\<close> one call of
  \<open>TestcaseEnd\<close>. Run on the traced thread (its writer is in the thread data, \<open>next\<close> is
  inside the buffer), the first appends the buffered entries to the open file, if there
  is one, makes the empty file \<open><prefix>_t<id>.trace\<close> the current one, records the id
  (the argument read as a 32-bit signed integer) and sets \<open>next\<close> to \<open>begin\<close>; the second
  appends the buffered entries to the open file, if there is one, leaves no file open
  and no testcase active, and sets \<open>next\<close> to \<open>begin\<close>. Neither emits an entry of its own.
  Run on a thread that has no writer in the thread data, as every thread but thread 0,
  both dereference the null writer.\<close>

theorem C6_testcase_hooks:
  assumes w: "g_threadData (m_globals m) (m_tid m) = Some w"
    and inv: "Begin w \<le> m_next m" "m_next m \<le> End w"
    and sym: "''PinNotifyTestcaseStart'' \<in> set (IMG_Routines img)"
             "''PinNotifyTestcaseEnd'' \<in> set (IMG_Routines img)"
    and nw: "g_threadData (m_globals n) (m_tid n) = None"
  shows "filter (\<lambda>q. fst q = ''PinNotifyTestcaseStart'') (snd (InstrumentImage img g)) =
           [(''PinNotifyTestcaseStart'',
             RTN_InsertCall IPOINT_BEFORE F_TestcaseStart
               [IARG_FUNCARG_ENTRYPOINT_VALUE 0, IARG_THREAD_ID,
                IARG_REG_VALUE nextBufferEntryReg, IARG_RETURN_REGS nextBufferEntryReg])] \<and>
         filter (\<lambda>q. fst q = ''PinNotifyTestcaseEnd'') (snd (InstrumentImage img g)) =
           [(''PinNotifyTestcaseEnd'',
             RTN_InsertCall IPOINT_BEFORE F_TestcaseEnd
               [IARG_REG_VALUE nextBufferEntryReg, IARG_THREAD_ID,
                IARG_RETURN_REGS nextBufferEntryReg])] \<and>
         (tw_file w = Some f \<and> tw_disk w f = Some written \<longrightarrow>
          run_calls K C rt notifyStart_calls m =
           Inr (m\<lparr>m_next := Begin w,
                  m_globals := (m_globals m)\<lparr>g_threadData := (g_threadData (m_globals m))
                    (m_tid m := Some (w\<lparr>
                       tw_file := Some (tw_prefix w @ ''_t'' @
                          show_int (sint (ucast (rt_funcarg rt 0) :: 32 word)) @ ''.trace''),
                       tw_disk := (tw_disk w)
                         (f \<mapsto> written @ take (m_next m - Begin w) (tw_entries w),
                          tw_prefix w @ ''_t'' @
                            show_int (sint (ucast (rt_funcarg rt 0) :: 32 word)) @ ''.trace''
                            \<mapsto> []),
                       tw_testcase := Some (sint (ucast (rt_funcarg rt 0) :: 32 word))\<rparr>))\<rparr>\<rparr>, []) \<and>
          run_calls K C rt notifyEnd_calls m =
           Inr (m\<lparr>m_next := Begin w,
                  m_globals := (m_globals m)\<lparr>g_threadData := (g_threadData (m_globals m))
                    (m_tid m := Some (w\<lparr>
                       tw_disk := (tw_disk w)
                         (f \<mapsto> written @ take (m_next m - Begin w) (tw_entries w)),
                       tw_file := None,
                       tw_testcase := None\<rparr>))\<rparr>\<rparr>, [])) \<and>
         (tw_file w = None \<longrightarrow>
          run_calls K C rt notifyStart_calls m =
           Inr (m\<lparr>m_next := Begin w,
                  m_globals := (m_globals m)\<lparr>g_threadData := (g_threadData (m_globals m))
                    (m_tid m := Some (w\<lparr>
                       tw_file := Some (tw_prefix w @ ''_t'' @
                          show_int (sint (ucast (rt_funcarg rt 0) :: 32 word)) @ ''.trace''),
                       tw_disk := (tw_disk w)
                         (tw_prefix w @ ''_t'' @
                            show_int (sint (ucast (rt_funcarg rt 0) :: 32 word)) @ ''.trace''
                            \<mapsto> []),
                       tw_testcase := Some (sint (ucast (rt_funcarg rt 0) :: 32 word))\<rparr>))\<rparr>\<rparr>, []) \<and>
          run_calls K C rt notifyEnd_calls m =
           Inr (m\<lparr>m_next := Begin w,
                  m_globals := (m_globals m)\<lparr>g_threadData := (g_threadData (m_globals m))
                    (m_tid m := Some (w\<lparr>tw_file := None, tw_testcase := None\<rparr>))\<rparr>\<rparr>, [])) \<and>
         run_calls K C rt notifyStart_calls n = Inl NullDereference \<and>
         run_calls K C rt notifyEnd_calls n = Inl NullDereference"
proof -
  have a: "filter (\<lambda>q. fst q = ''PinNotifyTestcaseStart'') (snd (InstrumentImage img g)) =
           [(''PinNotifyTestcaseStart'',
             RTN_InsertCall IPOINT_BEFORE F_TestcaseStart
               [IARG_FUNCARG_ENTRYPOINT_VALUE 0, IARG_THREAD_ID,
                IARG_REG_VALUE nextBufferEntryReg, IARG_RETURN_REGS nextBufferEntryReg])]"
    using sym by (simp add: InstrumentImage_def hook_calls notifyStart_calls_def)
  have b: "filter (\<lambda>q. fst q = ''PinNotifyTestcaseEnd'') (snd (InstrumentImage img g)) =
           [(''PinNotifyTestcaseEnd'',
             RTN_InsertCall IPOINT_BEFORE F_TestcaseEnd
               [IARG_REG_VALUE nextBufferEntryReg, IARG_THREAD_ID,
                IARG_RETURN_REGS nextBufferEntryReg])]"
    using sym by (simp add: InstrumentImage_def hook_calls notifyEnd_calls_def)
  have c: "run_calls K C rt notifyStart_calls m =
           Inr (m\<lparr>m_next := Begin w,
                  m_globals := (m_globals m)\<lparr>g_threadData := (g_threadData (m_globals m))
                    (m_tid m := Some (w\<lparr>
                       tw_file := Some (tw_prefix w @ ''_t'' @
                          show_int (sint (ucast (rt_funcarg rt 0) :: 32 word)) @ ''.trace''),
                       tw_disk := (tw_disk w)
                         (f \<mapsto> written @ take (m_next m - Begin w) (tw_entries w),
                          tw_prefix w @ ''_t'' @
                            show_int (sint (ucast (rt_funcarg rt 0) :: 32 word)) @ ''.trace''
                            \<mapsto> []),
                       tw_testcase := Some (sint (ucast (rt_funcarg rt 0) :: 32 word))\<rparr>))\<rparr>\<rparr>, []) \<and>
          run_calls K C rt notifyEnd_calls m =
           Inr (m\<lparr>m_next := Begin w,
                  m_globals := (m_globals m)\<lparr>g_threadData := (g_threadData (m_globals m))
                    (m_tid m := Some (w\<lparr>
                       tw_disk := (tw_disk w)
                         (f \<mapsto> written @ take (m_next m - Begin w) (tw_entries w)),
                       tw_file := None,
                       tw_testcase := None\<rparr>))\<rparr>\<rparr>, [])"
    if f: "tw_file w = Some f" "tw_disk w f = Some written"
  proof -
    have fl: "WriteBufferToFile w (m_next m) =
        Inr (w\<lparr>tw_disk := (tw_disk w)(f \<mapsto> written @ take (m_next m - Begin w) (tw_entries w))\<rparr>)"
      using f inv by (simp add: WriteBufferToFile_def)
    have s: "TraceWriter_TestcaseStart w i (m_next m) =
        Inr (w\<lparr>tw_file := Some (tw_prefix w @ ''_t'' @ show_int i @ ''.trace''),
               tw_disk := (tw_disk w)
                 (f \<mapsto> written @ take (m_next m - Begin w) (tw_entries w),
                  tw_prefix w @ ''_t'' @ show_int i @ ''.trace'' \<mapsto> []),
               tw_testcase := Some i\<rparr>)" for i
    proof (cases "m_next m = Begin w")
      case True
      have "TraceWriter_TestcaseStart w i (m_next m) =
        Inr (w\<lparr>tw_file := Some (tw_prefix w @ ''_t'' @ show_int i @ ''.trace''),
               tw_disk := (tw_disk w)(tw_prefix w @ ''_t'' @ show_int i @ ''.trace'' \<mapsto> []),
               tw_testcase := Some i\<rparr>)"
        using True by (simp add: TraceWriter_TestcaseStart_def)
      moreover have "(tw_disk w)(f \<mapsto> written @ take (m_next m - Begin w) (tw_entries w)) = tw_disk w"
        using True f by (simp add: fun_upd_idem)
      ultimately show ?thesis by simp
    next
      case False
      then show ?thesis by (simp add: TraceWriter_TestcaseStart_def fl)
    qed
    have c1: "run_calls K C rt notifyStart_calls m =
           Inr (m\<lparr>m_next := Begin w,
                  m_globals := (m_globals m)\<lparr>g_threadData := (g_threadData (m_globals m))
                    (m_tid m := Some (w\<lparr>
                       tw_file := Some (tw_prefix w @ ''_t'' @
                          show_int (sint (ucast (rt_funcarg rt 0) :: 32 word)) @ ''.trace''),
                       tw_disk := (tw_disk w)
                         (f \<mapsto> written @ take (m_next m - Begin w) (tw_entries w),
                          tw_prefix w @ ''_t'' @
                            show_int (sint (ucast (rt_funcarg rt 0) :: 32 word)) @ ''.trace''
                            \<mapsto> []),
                       tw_testcase := Some (sint (ucast (rt_funcarg rt 0) :: 32 word))\<rparr>))\<rparr>\<rparr>, [])"
      by (simp add: notifyStart_calls_def exec_notifyStart TestcaseStart_def w s Begin_def)
    have c2: "run_calls K C rt notifyEnd_calls m =
           Inr (m\<lparr>m_next := Begin w,
                  m_globals := (m_globals m)\<lparr>g_threadData := (g_threadData (m_globals m))
                    (m_tid m := Some (w\<lparr>
                       tw_disk := (tw_disk w)
                         (f \<mapsto> written @ take (m_next m - Begin w) (tw_entries w)),
                       tw_file := None,
                       tw_testcase := None\<rparr>))\<rparr>\<rparr>, [])"
      by (simp add: notifyEnd_calls_def exec_notifyEnd TestcaseEnd_def w
            TraceWriter_TestcaseEnd_def fl Begin_def)
    from c1 c2 show ?thesis by (intro conjI)
  qed
  have d: "run_calls K C rt notifyStart_calls m =
           Inr (m\<lparr>m_next := Begin w,
                  m_globals := (m_globals m)\<lparr>g_threadData := (g_threadData (m_globals m))
                    (m_tid m := Some (w\<lparr>
                       tw_file := Some (tw_prefix w @ ''_t'' @
                          show_int (sint (ucast (rt_funcarg rt 0) :: 32 word)) @ ''.trace''),
                       tw_disk := (tw_disk w)
                         (tw_prefix w @ ''_t'' @
                            show_int (sint (ucast (rt_funcarg rt 0) :: 32 word)) @ ''.trace''
                            \<mapsto> []),
                       tw_testcase := Some (sint (ucast (rt_funcarg rt 0) :: 32 word))\<rparr>))\<rparr>\<rparr>, []) \<and>
          run_calls K C rt notifyEnd_calls m =
           Inr (m\<lparr>m_next := Begin w,
                  m_globals := (m_globals m)\<lparr>g_threadData := (g_threadData (m_globals m))
                    (m_tid m := Some (w\<lparr>tw_file := None, tw_testcase := None\<rparr>))\<rparr>\<rparr>, [])"
    if nf: "tw_file w = None"
  proof -
    have fl: "WriteBufferToFile w (m_next m) = Inr w"
      using nf inv by (simp add: WriteBufferToFile_def)
    have s: "TraceWriter_TestcaseStart w i (m_next m) =
        Inr (w\<lparr>tw_file := Some (tw_prefix w @ ''_t'' @ show_int i @ ''.trace''),
               tw_disk := (tw_disk w)(tw_prefix w @ ''_t'' @ show_int i @ ''.trace'' \<mapsto> []),
               tw_testcase := Some i\<rparr>)" for i
      by (simp add: TraceWriter_TestcaseStart_def fl)
    have d1: "run_calls K C rt notifyStart_calls m =
           Inr (m\<lparr>m_next := Begin w,
                  m_globals := (m_globals m)\<lparr>g_threadData := (g_threadData (m_globals m))
                    (m_tid m := Some (w\<lparr>
                       tw_file := Some (tw_prefix w @ ''_t'' @
                          show_int (sint (ucast (rt_funcarg rt 0) :: 32 word)) @ ''.trace''),
                       tw_disk := (tw_disk w)
                         (tw_prefix w @ ''_t'' @
                            show_int (sint (ucast (rt_funcarg rt 0) :: 32 word)) @ ''.trace''
                            \<mapsto> []),
                       tw_testcase := Some (sint (ucast (rt_funcarg rt 0) :: 32 word))\<rparr>))\<rparr>\<rparr>, [])"
      by (simp add: notifyStart_calls_def exec_notifyStart TestcaseStart_def w s Begin_def)
    have d2: "run_calls K C rt notifyEnd_calls m =
           Inr (m\<lparr>m_next := Begin w,
                  m_globals := (m_globals m)\<lparr>g_threadData := (g_threadData (m_globals m))
                    (m_tid m := Some (w\<lparr>tw_file := None, tw_testcase := None\<rparr>))\<rparr>\<rparr>, [])"
      by (simp add: notifyEnd_calls_def exec_notifyEnd TestcaseEnd_def w
            TraceWriter_TestcaseEnd_def fl Begin_def)
    from d1 d2 show ?thesis by (intro conjI)
  qed
  have e1: "run_calls K C rt notifyStart_calls n = Inl NullDereference"
    by (simp add: notifyStart_calls_def exec_notifyStart TestcaseStart_def nw)
  have e2: "run_calls K C rt notifyEnd_calls n = Inl NullDereference"
    by (simp add: notifyEnd_calls_def exec_notifyEnd TestcaseEnd_def nw)
  from a b c d e1 e2 show ?thesis by blast
qed

theorem C6_witness:
  "g_threadData (m_globals machine_two_entries) (m_tid machine_two_entries) = Some writer_sample \<and>
   tw_file writer_sample = Some ''out_t7.trace'' \<and>
   tw_disk writer_sample ''out_t7.trace'' = Some [Branch 4000 4100 True True] \<and>
   g_threadData (m_globals machine_closed) (m_tid machine_closed) = Some writer_closed \<and>
   tw_file writer_closed = None \<and>
   m_tid machine_thread1 = 1 \<and>
   g_threadData (m_globals machine_thread1) (m_tid machine_thread1) = None \<and>
   filter (\<lambda>q. fst q = ''PinNotifyTestcaseStart'') (snd (InstrumentImage img_sample initial_globals)) =
     [(''PinNotifyTestcaseStart'',
       RTN_InsertCall IPOINT_BEFORE F_TestcaseStart
         [IARG_FUNCARG_ENTRYPOINT_VALUE 0, IARG_THREAD_ID,
          IARG_REG_VALUE nextBufferEntryReg, IARG_RETURN_REGS nextBufferEntryReg])] \<and>
   run_calls 2 cpuid_unchanged runtime_sample notifyStart_calls machine_two_entries =
     Inr (machine_two_entries\<lparr>m_next := 100,
            m_globals := (m_globals machine_sample)\<lparr>g_threadData :=
              (g_threadData (m_globals machine_sample))
              (0 := Some (writer_sample\<lparr>
                 tw_file := Some ''out_t8.trace'',
                 tw_disk := (tw_disk writer_sample)
                   (''out_t7.trace'' \<mapsto>
                      [Branch 4000 4100 True True, MemoryRead 4100 1, MemoryRead 4104 2],
                    ''out_t8.trace'' \<mapsto> []),
                 tw_testcase := Some 8\<rparr>))\<rparr>\<rparr>, []) \<and>
   run_calls 2 cpuid_unchanged runtime_sample notifyEnd_calls machine_two_entries =
     Inr (machine_closed\<lparr>m_next := 100\<rparr>, []) \<and>
   run_calls 2 cpuid_unchanged runtime_sample notifyStart_calls machine_closed =
     Inr (machine_closed\<lparr>m_next := 100,
            m_globals := (m_globals machine_closed)\<lparr>g_threadData :=
              (g_threadData (m_globals machine_closed))
              (0 := Some (writer_closed\<lparr>
                 tw_file := Some ''out_t8.trace'',
                 tw_disk := (tw_disk writer_closed)(''out_t8.trace'' \<mapsto> []),
                 tw_testcase := Some 8\<rparr>))\<rparr>\<rparr>, []) \<and>
   run_calls 2 cpuid_unchanged runtime_sample notifyStart_calls machine_thread1 =
     Inl NullDereference \<and>
   run_calls 2 cpuid_unchanged runtime_sample notifyEnd_calls machine_thread1 =
     Inl NullDereference"
proof -
  have h1: "g_threadData (m_globals machine_two_entries) (m_tid machine_two_entries) =
              Some writer_sample"
    by simp
  have h2: "tw_file writer_sample = Some ''out_t7.trace''" by simp
  have h3: "tw_disk writer_sample ''out_t7.trace'' = Some [Branch 4000 4100 True True]" by simp
  have h4: "Begin writer_sample \<le> m_next machine_two_entries" by simp
  have h5: "m_next machine_two_entries \<le> End writer_sample" by simp
  have h6: "''PinNotifyTestcaseStart'' \<in> set (IMG_Routines img_sample)"
    by (simp add: img_sample_def)
  have h7: "''PinNotifyTestcaseEnd'' \<in> set (IMG_Routines img_sample)"
    by (simp add: img_sample_def)
  have k1: "g_threadData (m_globals machine_closed) (m_tid machine_closed) = Some writer_closed"
    by simp
  have k2: "tw_file writer_closed = None" by simp
  have k4: "Begin writer_closed \<le> m_next machine_closed" by simp
  have k5: "m_next machine_closed \<le> End writer_closed" by simp
  have t1: "m_tid machine_thread1 = 1" by simp
  have t2: "g_threadData (m_globals machine_thread1) (m_tid machine_thread1) = None"
    by (simp add: machine_thread1_def ThreadStart_def machine_sample_def)
  note th = C6_testcase_hooks [OF h1 h4 h5 h6 h7 t2,
              where g = initial_globals and K = 2 and C = cpuid_unchanged and rt = runtime_sample
                and f = "''out_t7.trace''" and written = "[Branch 4000 4100 True True]"]
  note tk = C6_testcase_hooks [OF k1 k4 k5 h6 h7 t2,
              where g = initial_globals and K = 2 and C = cpuid_unchanged and rt = runtime_sample]
  note a = th [THEN conjunct1]
  have fa: "rt_funcarg runtime_sample 0 = 8" by (simp add: runtime_sample_def)
  from th [THEN conjunct2, THEN conjunct2, THEN conjunct1] h2 h3
  have op: "run_calls 2 cpuid_unchanged runtime_sample notifyStart_calls machine_two_entries =
           Inr (machine_two_entries\<lparr>m_next := Begin writer_sample,
                  m_globals := (m_globals machine_two_entries)\<lparr>g_threadData :=
                    (g_threadData (m_globals machine_two_entries))
                    (m_tid machine_two_entries := Some (writer_sample\<lparr>
                       tw_file := Some (tw_prefix writer_sample @ ''_t'' @
                          show_int (sint (ucast (rt_funcarg runtime_sample 0) :: 32 word)) @ ''.trace''),
                       tw_disk := (tw_disk writer_sample)
                         (''out_t7.trace'' \<mapsto> [Branch 4000 4100 True True] @
                             take (m_next machine_two_entries - Begin writer_sample)
                               (tw_entries writer_sample),
                          tw_prefix writer_sample @ ''_t'' @
                            show_int (sint (ucast (rt_funcarg runtime_sample 0) :: 32 word)) @ ''.trace''
                            \<mapsto> []),
                       tw_testcase := Some (sint (ucast (rt_funcarg runtime_sample 0) :: 32 word))\<rparr>))\<rparr>\<rparr>, [])"
    and en: "run_calls 2 cpuid_unchanged runtime_sample notifyEnd_calls machine_two_entries =
           Inr (machine_two_entries\<lparr>m_next := Begin writer_sample,
                  m_globals := (m_globals machine_two_entries)\<lparr>g_threadData :=
                    (g_threadData (m_globals machine_two_entries))
                    (m_tid machine_two_entries := Some (writer_sample\<lparr>
                       tw_disk := (tw_disk writer_sample)
                         (''out_t7.trace'' \<mapsto> [Branch 4000 4100 True True] @
                             take (m_next machine_two_entries - Begin writer_sample)
                               (tw_entries writer_sample)),
                       tw_file := None,
                       tw_testcase := None\<rparr>))\<rparr>\<rparr>, [])"
    by blast+
  have c: "run_calls 2 cpuid_unchanged runtime_sample notifyStart_calls machine_two_entries =
     Inr (machine_two_entries\<lparr>m_next := 100,
            m_globals := (m_globals machine_sample)\<lparr>g_threadData :=
              (g_threadData (m_globals machine_sample))
              (0 := Some (writer_sample\<lparr>
                 tw_file := Some ''out_t8.trace'',
                 tw_disk := (tw_disk writer_sample)
                   (''out_t7.trace'' \<mapsto>
                      [Branch 4000 4100 True True, MemoryRead 4100 1, MemoryRead 4104 2],
                    ''out_t8.trace'' \<mapsto> []),
                 tw_testcase := Some 8\<rparr>))\<rparr>\<rparr>, [])"
    unfolding op by (simp add: fa show_int_8)
  have d: "run_calls 2 cpuid_unchanged runtime_sample notifyEnd_calls machine_two_entries =
     Inr (machine_closed\<lparr>m_next := 100\<rparr>, [])"
  proof -
    have z: "m_tid machine_sample = 0" by (simp add: machine_sample_def)
    show ?thesis
      unfolding en
      by (simp add: machine_closed_def machine_two_entries_def writer_closed_def z)
  qed
  from tk [THEN conjunct2, THEN conjunct2, THEN conjunct2, THEN conjunct1] k2
  have cl: "run_calls 2 cpuid_unchanged runtime_sample notifyStart_calls machine_closed =
           Inr (machine_closed\<lparr>m_next := Begin writer_closed,
                  m_globals := (m_globals machine_closed)\<lparr>g_threadData :=
                    (g_threadData (m_globals machine_closed))
                    (m_tid machine_closed := Some (writer_closed\<lparr>
                       tw_file := Some (tw_prefix writer_closed @ ''_t'' @
                          show_int (sint (ucast (rt_funcarg runtime_sample 0) :: 32 word)) @ ''.trace''),
                       tw_disk := (tw_disk writer_closed)
                         (tw_prefix writer_closed @ ''_t'' @
                            show_int (sint (ucast (rt_funcarg runtime_sample 0) :: 32 word)) @ ''.trace''
                            \<mapsto> []),
                       tw_testcase := Some (sint (ucast (rt_funcarg runtime_sample 0) :: 32 word))\<rparr>))\<rparr>\<rparr>, [])"
    by blast
  have e: "run_calls 2 cpuid_unchanged runtime_sample notifyStart_calls machine_closed =
     Inr (machine_closed\<lparr>m_next := 100,
            m_globals := (m_globals machine_closed)\<lparr>g_threadData :=
              (g_threadData (m_globals machine_closed))
              (0 := Some (writer_closed\<lparr>
                 tw_file := Some ''out_t8.trace'',
                 tw_disk := (tw_disk writer_closed)(''out_t8.trace'' \<mapsto> []),
                 tw_testcase := Some 8\<rparr>))\<rparr>\<rparr>, [])"
    unfolding cl by (simp add: fa show_int_8)
  note n1 = th [THEN conjunct2, THEN conjunct2, THEN conjunct2, THEN conjunct2, THEN conjunct1]
  note n2 = th [THEN conjunct2, THEN conjunct2, THEN conjunct2, THEN conjunct2, THEN conjunct2]
  from h1 h2 h3 k1 k2 t1 t2 a c d e n1 n2 show ?thesis by (intro conjI)
qed

end
